theory Spec2Isabelle
  imports Complex_Main "HOL-Library.Monad_Syntax" "HOL-Library.Log_Nat"
begin

section \<open>Conventions of the embedding\<close>

text \<open>
  The program is the JavaScript of \<^verbatim>\<open>svg-export.js\<close> (class \<^verbatim>\<open>SVGExporter\<close>) and
  \<^verbatim>\<open>posterize.js\<close> (class \<^verbatim>\<open>Posterizer\<close>). Each definition below carries the name of
  the method it embeds.

  \<^item> A JavaScript number is a double; the model computes on the \<^typ>\<open>real\<close> it denotes:
    \<^verbatim>\<open>Math.sqrt\<close> is \<^const>\<open>sqrt\<close>, \<^verbatim>\<open>Math.abs\<close> is \<^const>\<open>abs\<close>, \<^verbatim>\<open>Math.floor\<close> is
    \<^const>\<open>floor\<close> and \<^verbatim>\<open>Math.round\<close> (round half up) is \<^const>\<open>round\<close>. In the palette
    extraction, where a result depends on how an operation rounds, the rounding to the
    nearest double is written out (\<open>fl\<close>, defined there). Outside the palette extraction
    it is not written: the distances of the pixel operations are those of bytes and of
    palette colours with integer channels, whose differences, squares and sums are exact
    in doubles. The value \<^verbatim>\<open>Infinity\<close>, used to start a minimum search, is \<open>None\<close> of a
    \<^typ>\<open>real option\<close>.
  \<^item> A byte of a \<^verbatim>\<open>Uint8ClampedArray\<close> is a \<^typ>\<open>nat\<close>; the arrays live in a store, and
    an \<^verbatim>\<open>ImageData\<close> holds the address of its array.
  \<^item> The calls of \<^verbatim>\<open>Math.random()\<close> are the values of a parameter \<open>rnd\<close>; the language
    guarantees that each is a double in \<open>[0, 1)\<close>.
  \<^item> A thrown exception is \<open>Inl\<close> of a sum type; a recursion that never returns is
    \<open>None\<close> of a \<^theory_text>\<open>partial_function (option)\<close>.
  \<^item> A point \<^verbatim>\<open>[x, y]\<close> is a pair, a colour \<^verbatim>\<open>[r, g, b]\<close> a triple of numbers.
  \<^item> A parameter with a default value (\<^verbatim>\<open>tolerance = 30\<close>) is an ordinary parameter: the
    default is the caller's choice.
\<close>

section \<open>Vector export: path simplification and smoothing\<close>

type_synonym point = "real \<times> real"

text \<open>\<^verbatim>\<open>perpendicularDistance(point, lineStart, lineEnd)\<close>.\<close>

definition perpendicularDistance :: "point \<Rightarrow> point \<Rightarrow> point \<Rightarrow> real" where
  "perpendicularDistance point lineStart lineEnd =
     (let dx = fst lineEnd - fst lineStart;
          dy = snd lineEnd - snd lineStart;
          numerator = \<bar>dy * fst point - dx * snd point
                        + fst lineEnd * snd lineStart - snd lineEnd * fst lineStart\<bar>;
          denominator = sqrt (dx * dx + dy * dy)
      in if denominator = 0 then 0 else numerator / denominator)"

text \<open>
  The scan of \<^verbatim>\<open>simplifyPath\<close> for the interior point farthest from the chord:
  \<^verbatim>\<open>for (let i = 1; i < points.length - 1; i++)\<close>, starting from
  \<^verbatim>\<open>maxDist = 0, maxIndex = 0\<close>. It returns the pair \<open>(maxDist, maxIndex)\<close>.
\<close>

definition maxScan :: "point list \<Rightarrow> real \<times> nat" where
  "maxScan points =
     fold (\<lambda>i (maxDist, maxIndex).
             let dist = perpendicularDistance (points ! i) (points ! 0)
                          (points ! (length points - 1))
             in if dist > maxDist then (dist, i) else (maxDist, maxIndex))
          [1..<length points - 1] (0, 0)"

text \<open>
  \<^verbatim>\<open>simplifyPath(points, tolerance)\<close>. \<^verbatim>\<open>points.slice(0, maxIndex + 1)\<close> is
  \<^const>\<open>take\<close>, \<^verbatim>\<open>points.slice(maxIndex)\<close> is \<^const>\<open>drop\<close> and
  \<^verbatim>\<open>left.slice(0, -1)\<close> is \<^const>\<open>butlast\<close>. The recursion of the source has no
  bound of its own, so the function is partial: \<open>None\<close> is a recursion that never
  returns (in JavaScript, the call stack overflows).
\<close>

partial_function (option) simplifyPath :: "point list \<Rightarrow> real \<Rightarrow> point list option" where
  "simplifyPath points tolerance =
     (if length points \<le> 2 then Some points
      else
        let first = points ! 0;
            last = points ! (length points - 1);
            maxDist = fst (maxScan points);
            maxIndex = snd (maxScan points)
        in if maxDist > tolerance then
             do {
               left \<leftarrow> simplifyPath (take (maxIndex + 1) points) tolerance;
               right \<leftarrow> simplifyPath (drop maxIndex points) tolerance;
               Some (butlast left @ right)
             }
           else Some [first, last])"

text \<open>
  \<^verbatim>\<open>smoothPath(points)\<close>. The template literals turn numbers into text with
  JavaScript's number-to-string conversion, which is a parameter \<open>numToString\<close> here.
\<close>

definition smoothPath :: "(real \<Rightarrow> string) \<Rightarrow> point list \<Rightarrow> string" where
  "smoothPath numToString points =
     (if length points = 0 then ''''
      else if length points = 1 then
        ''M '' @ numToString (fst (points ! 0)) @ '' '' @ numToString (snd (points ! 0))
      else
        let path = ''M '' @ numToString (fst (points ! 0)) @ '' ''
                     @ numToString (snd (points ! 0));
            path = fold (\<lambda>i path.
                      let current = points ! i;
                          next = points ! (i + 1);
                          controlX = fst current;
                          controlY = snd current;
                          endX = (fst current + fst next) / 2;
                          endY = (snd current + snd next) / 2
                      in path @ '' Q '' @ numToString controlX @ '' '' @ numToString controlY
                           @ '', '' @ numToString endX @ '' '' @ numToString endY)
                    [1..<length points - 1] path;
            last = points ! (length points - 1);
            path = path @ '' L '' @ numToString (fst last) @ '' '' @ numToString (snd last);
            path = path @ '' Z''
        in path)"

text \<open>A fixed number format and sample contours, for the concrete evaluations below.\<close>

definition digitZero :: "real \<Rightarrow> string" where
  "digitZero v = ''0''"

definition collinear3 :: "point list" where
  "collinear3 = [(0, 0), (1, 0), (2, 0)]"

definition tent3 :: "point list" where
  "tent3 = [(0, 0), (1, 1), (2, 0)]"

section \<open>Posterizer: colours, pixel buffers and the store\<close>

text \<open>
  A colour is the array \<^verbatim>\<open>[r, g, b]\<close> of three numbers. An \<^verbatim>\<open>ImageData\<close> object has the
  fields \<^verbatim>\<open>data\<close>, \<^verbatim>\<open>width\<close> and \<^verbatim>\<open>height\<close>; \<^verbatim>\<open>data\<close> is a reference to a
  \<^verbatim>\<open>Uint8ClampedArray\<close>, so it is an address into a store of byte arrays (the \<open>heap\<close>):
  the operations below allocate a fresh array for their result, and what they leave in
  the input's array can be stated. Within one array the bytes are laid out as in the
  source: pixel \<open>p\<close> has its red, green, blue and alpha bytes at \<open>4 * p\<close>, \<open>4 * p + 1\<close>,
  \<open>4 * p + 2\<close> and \<open>4 * p + 3\<close>. The loops over a whole array step through it by four
  bytes and read only inside it when its length is a multiple of four, as \<open>wfImage\<close>
  below states of every buffer.
\<close>

type_synonym color = "real \<times> real \<times> real"
type_synonym addr = nat
type_synonym heap = "nat list list"

record imageData =
  data :: addr
  width :: nat
  height :: nat

datatype error = TypeError

text \<open>
  \<^verbatim>\<open>new Uint8ClampedArray(source)\<close>: a fresh array holding a copy of \<open>source\<close>, at the
  next free address.
\<close>

definition newUint8ClampedArray :: "heap \<Rightarrow> nat list \<Rightarrow> heap \<times> addr" where
  "newUint8ClampedArray hp source = (hp @ [source], length hp)"

text \<open>
  Storing a number into a \<^verbatim>\<open>Uint8ClampedArray\<close> clamps it to \<open>[0, 255]\<close> and rounds it to
  the nearest integer, a tie going to the even one.
\<close>

definition toUint8Clamp :: "real \<Rightarrow> nat" where
  "toUint8Clamp v =
     (if v \<le> 0 then 0
      else if 255 \<le> v then 255
      else let f = \<lfloor>v\<rfloor> in
        if of_int f + 1 / 2 < v then nat (f + 1)
        else if v < of_int f + 1 / 2 then nat f
        else if even f then nat f else nat (f + 1))"

text \<open>
  What the \<^verbatim>\<open>ImageData\<close> constructor and the array type guarantee of a buffer: its array
  exists, has four bytes for each of the \<open>width * height\<close> pixels, and holds bytes.
\<close>

definition wfImage :: "heap \<Rightarrow> imageData \<Rightarrow> bool" where
  "wfImage hp img \<longleftrightarrow>
     data img < length hp
     \<and> length (hp ! data img) = 4 * (width img * height img)
     \<and> list_all (\<lambda>v. v \<le> 255) (hp ! data img)"

text \<open>\<^verbatim>\<open>colorDistance(c1, c2)\<close>.\<close>

fun colorDistance :: "color \<Rightarrow> color \<Rightarrow> real" where
  "colorDistance (r1, g1, b1) (r2, g2, b2) =
     sqrt ((r1 - r2)\<^sup>2 + (g1 - g2)\<^sup>2 + (b1 - b2)\<^sup>2)"

text \<open>The colour \<^verbatim>\<open>[data[i], data[i + 1], data[i + 2]]\<close> read at a byte index inside the array.\<close>

definition pixelAt :: "nat list \<Rightarrow> nat \<Rightarrow> color" where
  "pixelAt d i = (real (d ! i), real (d ! (i + 1)), real (d ! (i + 2)))"

text \<open>\<^verbatim>\<open>dist < minDist\<close>, where \<open>minDist\<close> starts as \<^verbatim>\<open>Infinity\<close> (\<open>None\<close>).\<close>

definition lessThanMin :: "real \<Rightarrow> real option \<Rightarrow> bool" where
  "lessThanMin v minDist = (case minDist of None \<Rightarrow> True | Some m \<Rightarrow> v < m)"

text \<open>
  \<^verbatim>\<open>findNearestColor(pixel, palette)\<close>: the loop over the palette carries
  \<open>(minDist, nearest)\<close>. It starts from \<^verbatim>\<open>nearest = palette[0]\<close>, which is \<^verbatim>\<open>undefined\<close>
  for an empty palette; the function then returns \<open>None\<close>.
\<close>

fun findNearestColorLoop ::
  "color \<Rightarrow> color list \<Rightarrow> real option \<times> color \<Rightarrow> real option \<times> color" where
  "findNearestColorLoop pixel [] (minDist, nearest) = (minDist, nearest)"
| "findNearestColorLoop pixel (color # rest) (minDist, nearest) =
     (let dist = colorDistance pixel color
      in if lessThanMin dist minDist then findNearestColorLoop pixel rest (Some dist, color)
         else findNearestColorLoop pixel rest (minDist, nearest))"

definition findNearestColor :: "color \<Rightarrow> color list \<Rightarrow> color option" where
  "findNearestColor pixel palette =
     (case palette of
        [] \<Rightarrow> None
      | first # _ \<Rightarrow> Some (snd (findNearestColorLoop pixel palette (None, first))))"

section \<open>Posterizer: mapping a buffer to a palette\<close>

text \<open>
  The loop of \<^verbatim>\<open>posterizeReplace\<close>, \<^verbatim>\<open>for (let i = 0; i < newData.data.length; i += 4)\<close>,
  on the array of the new buffer. Reading \<^verbatim>\<open>nearest[0]\<close> of an \<^verbatim>\<open>undefined\<close> colour
  throws a \<^verbatim>\<open>TypeError\<close>.
\<close>

function posterizeLoop :: "color list \<Rightarrow> nat \<Rightarrow> nat list \<Rightarrow> error + nat list" where
  "posterizeLoop palette i d =
     (if i < length d then
        (if d ! (i + 3) < 128 then posterizeLoop palette (i + 4) d
         else
           case findNearestColor (pixelAt d i) palette of
             None \<Rightarrow> Inl TypeError
           | Some (r, g, b) \<Rightarrow>
               posterizeLoop palette (i + 4)
                 (d[i := toUint8Clamp r, i + 1 := toUint8Clamp g, i + 2 := toUint8Clamp b]))
      else Inr d)"
  by pat_completeness auto
termination
  by (relation "measure (\<lambda>(palette, i, d). length d - i)") auto

declare posterizeLoop.simps [simp del]

text \<open>\<^verbatim>\<open>posterizeReplace(imageData, palette)\<close> and \<^verbatim>\<open>posterizeClosest\<close>, which calls it.\<close>

definition posterizeReplace ::
  "heap \<Rightarrow> imageData \<Rightarrow> color list \<Rightarrow> error + heap \<times> imageData" where
  "posterizeReplace hp imgData palette =
     (let (hp1, a) = newUint8ClampedArray hp (hp ! data imgData);
          newData = \<lparr>data = a, width = width imgData, height = height imgData\<rparr>
      in case posterizeLoop palette 0 (hp1 ! data newData) of
           Inl e \<Rightarrow> Inl e
         | Inr d \<Rightarrow> Inr (hp1[data newData := d], newData))"

definition posterizeClosest ::
  "heap \<Rightarrow> imageData \<Rightarrow> color list \<Rightarrow> error + heap \<times> imageData" where
  "posterizeClosest hp imgData palette = posterizeReplace hp imgData palette"

section \<open>Posterizer: transparency\<close>

text \<open>
  The loop of \<^verbatim>\<open>makeColorTransparent\<close> on the array of the new buffer, and the function.
\<close>

function makeColorTransparentLoop :: "color \<Rightarrow> real \<Rightarrow> nat \<Rightarrow> nat list \<Rightarrow> nat list" where
  "makeColorTransparentLoop targetColor tolerance i d =
     (if i < length d then
        (if colorDistance (pixelAt d i) targetColor \<le> tolerance
         then makeColorTransparentLoop targetColor tolerance (i + 4) (d[i + 3 := 0])
         else makeColorTransparentLoop targetColor tolerance (i + 4) d)
      else d)"
  by pat_completeness auto
termination
  by (relation "measure (\<lambda>(targetColor, tolerance, i, d). length d - i)") auto

declare makeColorTransparentLoop.simps [simp del]

definition makeColorTransparent ::
  "heap \<Rightarrow> imageData \<Rightarrow> color \<Rightarrow> real \<Rightarrow> heap \<times> imageData" where
  "makeColorTransparent hp imgData targetColor tolerance =
     (let (hp1, a) = newUint8ClampedArray hp (hp ! data imgData);
          newData = \<lparr>data = a, width = width imgData, height = height imgData\<rparr>
      in (hp1[data newData := makeColorTransparentLoop targetColor tolerance 0 (hp1 ! data newData)],
          newData))"

text \<open>
  The flood fill takes its start from a click, so its coordinates are integers of either
  sign and its byte indexes may fall outside the array: a read there is \<^verbatim>\<open>undefined\<close>
  (\<open>None\<close>), a write there is ignored. A colour with an \<^verbatim>\<open>undefined\<close> channel has the
  distance \<^verbatim>\<open>NaN\<close> to every colour, and \<^verbatim>\<open>NaN <= tolerance\<close> is false.
\<close>

definition readAt :: "nat list \<Rightarrow> int \<Rightarrow> nat option" where
  "readAt d i = (if 0 \<le> i \<and> i < int (length d) then Some (d ! nat i) else None)"

definition writeAt :: "nat list \<Rightarrow> int \<Rightarrow> nat \<Rightarrow> nat list" where
  "writeAt d i v = (if 0 \<le> i \<and> i < int (length d) then d[nat i := v] else d)"

definition colorAt :: "nat list \<Rightarrow> int \<Rightarrow> color option" where
  "colorAt d idx =
     (case (readAt d idx, readAt d (idx + 1), readAt d (idx + 2)) of
        (Some r, Some g, Some b) \<Rightarrow> Some (real r, real g, real b)
      | _ \<Rightarrow> None)"

definition withinTolerance :: "color option \<Rightarrow> color option \<Rightarrow> real \<Rightarrow> bool" where
  "withinTolerance c1 c2 tolerance =
     (case (c1, c2) of
        (Some a, Some b) \<Rightarrow> colorDistance a b \<le> tolerance
      | _ \<Rightarrow> False)"

text \<open>
  For the termination of the flood fill: marking one more pixel of the image as visited
  leaves fewer unvisited ones.
\<close>

lemma card_unvisited_less:
  assumes "finite A" and "x \<in> A" and "x \<notin> V"
  shows "card (A - insert x V) < card (A - V)"
proof -
  have e: "A - insert x V = (A - V) - {x}" by auto
  from assms have "x \<in> A - V" and "finite (A - V)" by simp_all
  then have "card ((A - V) - {x}) < card (A - V)" by (rule card_Diff1_less[rotated])
  then show ?thesis by (simp only: e)
qed

text \<open>
  The loop of \<^verbatim>\<open>floodFill\<close>, \<^verbatim>\<open>while (queue.length > 0)\<close>, on its three variables: the set
  \<open>visited\<close> (the source keeps the keys \<^verbatim>\<open>"cx,cy"\<close>), the list \<open>region\<close> and the
  \<open>queue\<close>, whose head \<^verbatim>\<open>queue.shift()\<close> removes. The loop ends: a step either
  shortens the queue or marks one more pixel of the image as visited.
\<close>

function floodFillLoop ::
  "int \<Rightarrow> int \<Rightarrow> nat list \<Rightarrow> color option \<Rightarrow> real
     \<Rightarrow> (int \<times> int) set \<Rightarrow> (int \<times> int) list \<Rightarrow> (int \<times> int) list \<Rightarrow> (int \<times> int) list" where
  "floodFillLoop w h d startColor tolerance visited region [] = region"
| "floodFillLoop w h d startColor tolerance visited region ((cx, cy) # queue) =
     (if (cx, cy) \<in> visited then
        floodFillLoop w h d startColor tolerance visited region queue
      else if cx < 0 \<or> cx \<ge> w \<or> cy < 0 \<or> cy \<ge> h then
        floodFillLoop w h d startColor tolerance visited region queue
      else
        let idx = (cy * w + cx) * 4;
            currentColor = colorAt d idx
        in if withinTolerance currentColor startColor tolerance then
             floodFillLoop w h d startColor tolerance (insert (cx, cy) visited)
               (region @ [(cx, cy)])
               (queue @ [(cx + 1, cy), (cx - 1, cy), (cx, cy + 1), (cx, cy - 1)])
           else
             floodFillLoop w h d startColor tolerance (insert (cx, cy) visited) region queue)"
  by pat_completeness auto

termination
proof (relation "measures
    [\<lambda>(w, h, d, startColor, tolerance, visited, region, queue).
        card (({0..<w} \<times> {0..<h}) - visited),
     \<lambda>(w, h, d, startColor, tolerance, visited, region, queue). length queue]",
    goal_cases)
  case 1
  then show ?case by simp
next
  case 2
  then show ?case by simp
next
  case 3
  then show ?case by simp
next
  case (4 w h d startColor tolerance visited region cx cy queue)
  then have "card ({0..<w} \<times> {0..<h} - insert (cx, cy) visited)
             < card ({0..<w} \<times> {0..<h} - visited)"
    by (intro card_unvisited_less) auto
  then show ?case by simp
next
  case (5 w h d startColor tolerance visited region cx cy queue)
  then have "card ({0..<w} \<times> {0..<h} - insert (cx, cy) visited)
             < card ({0..<w} \<times> {0..<h} - visited)"
    by (intro card_unvisited_less) auto
  then show ?case by simp
qed

declare floodFillLoop.simps [simp del]

text \<open>\<^verbatim>\<open>floodFill(imageData, x, y, tolerance)\<close>.\<close>

definition floodFill :: "heap \<Rightarrow> imageData \<Rightarrow> int \<Rightarrow> int \<Rightarrow> real \<Rightarrow> (int \<times> int) list" where
  "floodFill hp imgData x y tolerance =
     (let w = int (width imgData);
          h = int (height imgData);
          d = hp ! data imgData;
          startIdx = (y * w + x) * 4;
          startColor = colorAt d startIdx
      in floodFillLoop w h d startColor tolerance {} [] [(x, y)])"

text \<open>\<^verbatim>\<open>makeRegionTransparent(imageData, x, y, tolerance)\<close>.\<close>

definition makeRegionTransparent ::
  "heap \<Rightarrow> imageData \<Rightarrow> int \<Rightarrow> int \<Rightarrow> real \<Rightarrow> heap \<times> imageData" where
  "makeRegionTransparent hp imgData x y tolerance =
     (let region = floodFill hp imgData x y tolerance;
          (hp1, a) = newUint8ClampedArray hp (hp ! data imgData);
          newData = \<lparr>data = a, width = width imgData, height = height imgData\<rparr>;
          d = fold (\<lambda>(px, py) d.
                      let idx = (py * int (width imgData) + px) * 4
                      in writeAt d (idx + 3) 0)
                region (hp1 ! data newData)
      in (hp1[data newData := d], newData))"

section \<open>Posterizer: palette extraction\<close>

text \<open>
  The numbers of the palette extraction are doubles whose arithmetic rounds, and two of
  its results depend on the rounding: whether the weighted draw of the seeding selects a
  pixel, and which way a channel of the fallback palette is rounded. \<open>fl x\<close> is the
  IEEE 754 binary64 value nearest to the real \<open>x\<close>, a tie going to the even significand.
  For \<open>\<bar>x\<bar>\<close> from \<open>2 ^ - 1074\<close> on, \<open>binade x\<close> is the exponent \<open>e\<close> with
  \<open>2 ^ e \<le> \<bar>x\<bar> < 2 ^ (e + 1)\<close>; the significand has 53 bits from the exponent \<open>- 1022\<close>
  upwards, and below it the doubles are the multiples of \<open>2 ^ - 1074\<close>. Overflow to
  \<^verbatim>\<open>Infinity\<close> is left out: the numbers of these functions stay far below \<open>2 ^ 1024\<close>.
  Each of \<^verbatim>\<open>+\<close>, \<^verbatim>\<open>-\<close>, \<^verbatim>\<open>*\<close>, \<^verbatim>\<open>/\<close> and \<^verbatim>\<open>Math.sqrt\<close> returns \<open>fl\<close> of the exact result.
\<close>

definition nearestEven :: "real \<Rightarrow> int" where
  "nearestEven v =
     (let f = \<lfloor>v\<rfloor> in
        if of_int f + 1 / 2 < v then f + 1
        else if v < of_int f + 1 / 2 then f
        else if even f then f else f + 1)"

definition binade :: "real \<Rightarrow> int" where
  "binade x = int (floorlog 2 (nat \<lfloor>\<bar>x\<bar> * 2 ^ 1074\<rfloor>)) - 1075"

definition fl :: "real \<Rightarrow> real" where
  "fl x = (let e = max (binade x) (- 1022) - 52
           in of_int (nearestEven (x / 2 powi e)) * 2 powi e)"

text \<open>
  \<^verbatim>\<open>a % b\<close> on numbers: the remainder has the sign of \<open>a\<close>, the quotient being truncated
  towards zero. The remainder of two doubles is a double, so \<^verbatim>\<open>%\<close> does not round.
\<close>

definition jsRem :: "real \<Rightarrow> real \<Rightarrow> real" where
  "jsRem a b = a - b * of_int (if a / b < 0 then \<lceil>a / b\<rceil> else \<lfloor>a / b\<rfloor>)"

text \<open>\<^verbatim>\<open>hslToRgb(h, s, l)\<close>.\<close>

definition hslToRgb :: "real \<Rightarrow> real \<Rightarrow> real \<Rightarrow> color" where
  "hslToRgb h s0 l0 =
     (let s = fl (s0 / 100);
          l = fl (l0 / 100);
          c = fl (fl (1 - \<bar>fl (fl (2 * l) - 1)\<bar>) * s);
          x = fl (c * fl (1 - \<bar>fl (jsRem (fl (h / 60)) 2 - 1)\<bar>));
          m = fl (l - fl (c / 2));
          (r, g, b) =
            (if h < 60 then (c, x, 0)
             else if h < 120 then (x, c, 0)
             else if h < 180 then (0, c, x)
             else if h < 240 then (0, x, c)
             else if h < 300 then (x, 0, c)
             else (c, 0, x))
      in (of_int (round (fl (fl (r + m) * 255))),
          of_int (round (fl (fl (g + m) * 255))),
          of_int (round (fl (fl (b + m) * 255)))))"

text \<open>\<^verbatim>\<open>generateDefaultPalette(k)\<close>: \<^verbatim>\<open>for (let i = 0; i < k; i++)\<close>.\<close>

definition generateDefaultPalette :: "nat \<Rightarrow> color list" where
  "generateDefaultPalette k =
     fold (\<lambda>i palette.
             let hue = fl (fl (real i / real k) * 360)
             in palette @ [hslToRgb hue 70 50])
          [0..<k] []"

text \<open>
  \<^verbatim>\<open>findNearestCentroid(pixel, centroids)\<close>: the loop over the indexes carries
  \<open>(minDist, nearestIndex)\<close>, starting from \<^verbatim>\<open>(Infinity, 0)\<close>. Here and in
  \<^verbatim>\<open>centroidsEqual\<close> the distances are the exact ones of \<open>colorDistance\<close>: from the second
  round of \<^verbatim>\<open>kMeans\<close> on a centroid is a mean with fractional channels, the squares of
  \<^verbatim>\<open>Math.pow\<close> are then no longer exact, and the language leaves the precision of
  \<^verbatim>\<open>Math.pow\<close> to the implementation. Which of two nearly equal distances is the smaller
  decides in which cluster a pixel lands, not how many colours \<^verbatim>\<open>kMeans\<close> returns or
  whether it throws.
\<close>

definition findNearestCentroid :: "color \<Rightarrow> color list \<Rightarrow> nat" where
  "findNearestCentroid pixel centroids =
     snd (fold (\<lambda>i (minDist, nearestIndex).
                  let dist = colorDistance pixel (centroids ! i)
                  in if lessThanMin dist minDist then (Some dist, i)
                     else (minDist, nearestIndex))
               [0..<length centroids] (None, 0))"

text \<open>
  \<^verbatim>\<open>calculateMean(cluster)\<close>: the sums by \<^verbatim>\<open>reduce\<close> from \<^verbatim>\<open>[0, 0, 0]\<close>. The pixels of a
  cluster have bytes as channels, so the sums are integers far below \<open>2 ^ 53\<close>, which doubles
  add exactly; the divisions round.
\<close>

definition calculateMean :: "color list \<Rightarrow> color" where
  "calculateMean cluster =
     (let sum = fold (\<lambda>(pr, pg, pb) (ar, ag, ab). (ar + pr, ag + pg, ab + pb))
                     cluster (0, 0, 0)
      in case sum of (sr, sg, sb) \<Rightarrow>
           (fl (sr / real (length cluster)), fl (sg / real (length cluster)),
            fl (sb / real (length cluster))))"

text \<open>
  \<^verbatim>\<open>centroidsEqual(old, newC)\<close>, for two lists of the same length (the only calls of
  \<^verbatim>\<open>kMeans\<close> that reach it): no centroid moved by more than the threshold 1.
\<close>

definition centroidsEqual :: "color list \<Rightarrow> color list \<Rightarrow> bool" where
  "centroidsEqual old newC =
     list_all (\<lambda>i. \<not> colorDistance (old ! i) (newC ! i) > 1) [0..<length old]"

text \<open>
  The weighted draw of \<^verbatim>\<open>initializeCentroidsKMeansPlusPlus\<close>:
  \<^verbatim>\<open>for (let j = 0; j < pixels.length; j++) { random -= distances[j]; if (random <= 0) ... break }\<close>.
  It returns the pixel drawn, or \<open>None\<close> when the loop ends without a draw (the source
  then pushes nothing).
\<close>

fun rouletteDraw :: "real \<Rightarrow> real list \<Rightarrow> color list \<Rightarrow> color option" where
  "rouletteDraw random (dj # distances) (pixel # pixels) =
     (if fl (random - dj) \<le> 0 then Some pixel
      else rouletteDraw (fl (random - dj)) distances pixels)"
| "rouletteDraw random _ _ = None"

text \<open>
  \<^verbatim>\<open>initializeCentroidsKMeansPlusPlus(pixels, k)\<close>. The calls of \<^verbatim>\<open>Math.random()\<close> are
  the values \<open>rnd 0\<close>, \<open>rnd 1\<close>, ... of a parameter: the first centroid takes \<open>rnd 0\<close>
  and round \<open>i\<close> of the loop \<^verbatim>\<open>for (let i = 1; i < k; i++)\<close> takes \<open>rnd i\<close>.
  \<^verbatim>\<open>Math.min(...xs)\<close> of a non-empty list is \<open>Min (set xs)\<close>. The pixels are sampled
  bytes and the centroids are pixels, so inside \<^verbatim>\<open>colorDistance\<close> the differences, their
  squares and the sum are integers, exact in doubles, and \<^verbatim>\<open>Math.sqrt\<close> rounds the exact
  root: the distance is \<open>fl (colorDistance pixel c)\<close>. The square \<^verbatim>\<open>minDist * minDist\<close>, the
  sum \<^verbatim>\<open>distances.reduce((a, b) => a + b, 0)\<close>, the product with the random number and
  each subtraction of the draw round in turn. An index outside
  \<open>pixels\<close> would make the first centroid \<^verbatim>\<open>undefined\<close>; every use of an \<^verbatim>\<open>undefined\<close>
  centroid further on in \<^verbatim>\<open>kMeans\<close> throws a \<^verbatim>\<open>TypeError\<close> (it is indexed in
  \<^verbatim>\<open>colorDistance\<close> or mapped at the end), which the model raises here.
\<close>

definition nextCentroid :: "real \<Rightarrow> color list \<Rightarrow> color list \<Rightarrow> color list" where
  "nextCentroid r pixels centroids =
     (let distances = map (\<lambda>pixel.
                             let minDist = Min (set (map (\<lambda>c. fl (colorDistance pixel c))
                                                      centroids))
                             in fl (minDist * minDist))
                          pixels;
          totalDist = fold (\<lambda>b a. fl (a + b)) distances 0;
          random = fl (r * totalDist)
      in case rouletteDraw random distances pixels of
           Some pixel \<Rightarrow> centroids @ [pixel]
         | None \<Rightarrow> centroids)"

definition initializeCentroidsKMeansPlusPlus ::
  "(nat \<Rightarrow> real) \<Rightarrow> color list \<Rightarrow> nat \<Rightarrow> error + color list" where
  "initializeCentroidsKMeansPlusPlus rnd pixels k =
     (let first = nat \<lfloor>fl (rnd 0 * real (length pixels))\<rfloor>
      in if first < length pixels then
           Inr (fold (\<lambda>i centroids. nextCentroid (rnd i) pixels centroids) [1..<k]
                  [pixels ! first])
         else Inl TypeError)"

text \<open>
  One round of the loop of \<^verbatim>\<open>kMeans\<close>. \<open>assignClusters\<close> is
  \<^verbatim>\<open>for (const pixel of pixels) clusters[nearestIndex].push(pixel)\<close>, which throws when
  \<open>nearestIndex\<close> is no index of \<open>clusters\<close>. \<open>newCentroidsOf\<close> is the \<^verbatim>\<open>clusters.map\<close>:
  \<^verbatim>\<open>clusters.indexOf(cluster)\<close> compares array objects, which are all distinct, so it is
  the cluster's own index \<open>i\<close>; for an empty cluster with no centroid at that index the
  source stores \<^verbatim>\<open>undefined\<close>, the model raises the \<^verbatim>\<open>TypeError\<close> that follows.
\<close>

fun assignClusters :: "color list \<Rightarrow> color list \<Rightarrow> color list list \<Rightarrow> error + color list list" where
  "assignClusters [] centroids clusters = Inr clusters"
| "assignClusters (pixel # pixels) centroids clusters =
     (let nearestIndex = findNearestCentroid pixel centroids
      in if nearestIndex < length clusters then
           assignClusters pixels centroids
             (clusters[nearestIndex := clusters ! nearestIndex @ [pixel]])
         else Inl TypeError)"

fun newCentroidsOf :: "color list list \<Rightarrow> color list \<Rightarrow> nat \<Rightarrow> error + color list" where
  "newCentroidsOf [] centroids i = Inr []"
| "newCentroidsOf (cluster # clusters) centroids i =
     (if length cluster = 0 \<and> \<not> i < length centroids then Inl TypeError
      else
        case newCentroidsOf clusters centroids (i + 1) of
          Inl e \<Rightarrow> Inl e
        | Inr rest \<Rightarrow>
            Inr ((if length cluster = 0 then centroids ! i else calculateMean cluster) # rest))"

text \<open>
  The loop of \<^verbatim>\<open>kMeans\<close>, \<^verbatim>\<open>while (!hasConverged && iterations < maxIterations)\<close> with
  \<open>maxIterations = 50\<close>, on \<open>centroids\<close>, \<open>hasConverged\<close> and \<open>iterations\<close>.
\<close>

function kMeansLoop ::
  "color list \<Rightarrow> nat \<Rightarrow> color list \<Rightarrow> bool \<Rightarrow> nat \<Rightarrow> error + color list" where
  "kMeansLoop pixels k centroids hasConverged iterations =
     (if \<not> hasConverged \<and> iterations < 50 then
        case assignClusters pixels centroids (replicate k []) of
          Inl e \<Rightarrow> Inl e
        | Inr clusters \<Rightarrow>
            (case newCentroidsOf clusters centroids 0 of
               Inl e \<Rightarrow> Inl e
             | Inr newCentroids \<Rightarrow>
                 kMeansLoop pixels k newCentroids (centroidsEqual centroids newCentroids)
                   (iterations + 1))
      else Inr centroids)"
  by pat_completeness auto
termination
  by (relation "measure (\<lambda>(pixels, k, centroids, hasConverged, iterations). 50 - iterations)")
    auto

declare kMeansLoop.simps [simp del]

text \<open>\<^verbatim>\<open>kMeans(pixels, k)\<close>; the result is \<^verbatim>\<open>centroids.map(c => c.map(Math.round))\<close>.\<close>

definition roundColor :: "color \<Rightarrow> color" where
  "roundColor c = (case c of (r, g, b) \<Rightarrow> (of_int (round r), of_int (round g), of_int (round b)))"

definition kMeans :: "(nat \<Rightarrow> real) \<Rightarrow> color list \<Rightarrow> nat \<Rightarrow> error + color list" where
  "kMeans rnd pixels k =
     (if length pixels < k then Inr (generateDefaultPalette k)
      else
        case initializeCentroidsKMeansPlusPlus rnd pixels k of
          Inl e \<Rightarrow> Inl e
        | Inr centroids \<Rightarrow>
            (case kMeansLoop pixels k centroids False 0 of
               Inl e \<Rightarrow> Inl e
             | Inr final \<Rightarrow> Inr (map roundColor final)))"

text \<open>
  The sampling loop of \<^verbatim>\<open>extractColors\<close>,
  \<^verbatim>\<open>for (let i = 0; i < data.length; i += 4 * step)\<close>, on \<open>i\<close> and \<open>pixels\<close>. The constant
  \<open>step\<close> is \<^verbatim>\<open>Math.max(1, Math.floor(data.length / (4 * 10000)))\<close>.
\<close>

definition sampleStep :: "nat list \<Rightarrow> nat" where
  "sampleStep d = max 1 (length d div (4 * 10000))"

function samplePixels :: "nat list \<Rightarrow> nat \<Rightarrow> color list \<Rightarrow> color list" where
  "samplePixels d i pixels =
     (if i < length d then
        (if d ! (i + 3) < 128 then samplePixels d (i + 4 * sampleStep d) pixels
         else samplePixels d (i + 4 * sampleStep d) (pixels @ [pixelAt d i]))
      else pixels)"
  by pat_completeness auto
termination
  by (relation "measure (\<lambda>(d, i, pixels). length d - i)") (auto simp: sampleStep_def)

declare samplePixels.simps [simp del]

text \<open>
  \<^verbatim>\<open>extractColors(imageData, k)\<close>. The source also stores the palette of \<^verbatim>\<open>kMeans\<close> in
  the field \<^verbatim>\<open>this.palette\<close>, which nothing in the class reads; the model leaves the
  field out.
\<close>

definition extractColors ::
  "(nat \<Rightarrow> real) \<Rightarrow> heap \<Rightarrow> imageData \<Rightarrow> nat \<Rightarrow> error + color list" where
  "extractColors rnd hp imgData k =
     (let d = hp ! data imgData;
          pixels = samplePixels d 0 []
      in if length pixels = 0 then Inr (generateDefaultPalette k)
         else kMeans rnd pixels k)"

section \<open>Posterizer: cleaning edges\<close>

text \<open>
  The first loop of the body of \<^verbatim>\<open>cleanEdges\<close>: the least distance from the pixel to a
  palette colour, \<^verbatim>\<open>Infinity\<close> (\<open>None\<close>) for an empty palette; and the test
  \<^verbatim>\<open>minDist > 5\<close>.
\<close>

definition minDistToPalette :: "color \<Rightarrow> color list \<Rightarrow> real option" where
  "minDistToPalette pixel palette =
     fold (\<lambda>color minDist.
             let dist = colorDistance pixel color
             in if lessThanMin dist minDist then Some dist else minDist)
          palette None"

definition exceeds :: "real option \<Rightarrow> real \<Rightarrow> bool" where
  "exceeds minDist t = (case minDist of None \<Rightarrow> True | Some m \<Rightarrow> m > t)"

text \<open>
  The object \<^verbatim>\<open>neighborColors\<close> is a list of keys with their counts, in the order in
  which the keys were first stored, which is the order of \<^verbatim>\<open>Object.entries\<close>. A key is
  the text \<^verbatim>\<open>closestColor.join(',')\<close>, which determines the three numbers and from
  which the source reads them back: the model keeps the colour itself as the key.
  \<open>tally\<close> is \<^verbatim>\<open>neighborColors[colorKey] = (neighborColors[colorKey] || 0) + 1\<close>.
\<close>

definition tally :: "color \<Rightarrow> (color \<times> nat) list \<Rightarrow> (color \<times> nat) list" where
  "tally colorKey neighborColors =
     (case map_of neighborColors colorKey of
        None \<Rightarrow> neighborColors @ [(colorKey, 1)]
      | Some count \<Rightarrow>
          map (\<lambda>(key, c). if key = colorKey then (key, c + 1) else (key, c)) neighborColors)"

text \<open>
  The offsets \<open>(dx, dy)\<close> of the eight neighbours in the order of the loops
  \<^verbatim>\<open>for (let dy = -1; dy <= 1; dy++) for (let dx = -1; dx <= 1; dx++)\<close>, the centre
  skipped.
\<close>

definition neighborOffsets :: "(int \<times> int) list" where
  "neighborOffsets =
     [(- 1, - 1), (0, - 1), (1, - 1), (- 1, 0), (1, 0), (- 1, 1), (0, 1), (1, 1)]"

text \<open>
  The loop over the neighbours; \<^verbatim>\<open>closestColor.join\<close> of an \<^verbatim>\<open>undefined\<close> colour throws.
  The loops of \<^verbatim>\<open>cleanEdges\<close> call it with \<open>x\<close> and \<open>y\<close> at least 1, so the index
  \<open>nIdx\<close> is never negative.
\<close>

fun tallyNeighbors ::
  "nat \<Rightarrow> color list \<Rightarrow> nat list \<Rightarrow> nat \<Rightarrow> nat \<Rightarrow> (int \<times> int) list
     \<Rightarrow> (color \<times> nat) list \<Rightarrow> error + (color \<times> nat) list" where
  "tallyNeighbors w palette src x y [] neighborColors = Inr neighborColors"
| "tallyNeighbors w palette src x y ((dx, dy) # offsets) neighborColors =
     (let nIdx = nat (((int y + dy) * int w + (int x + dx)) * 4);
          nPixel = pixelAt src nIdx
      in case findNearestColor nPixel palette of
           None \<Rightarrow> Inl TypeError
         | Some closestColor \<Rightarrow>
             tallyNeighbors w palette src x y offsets (tally closestColor neighborColors))"

text \<open>
  The loop over \<^verbatim>\<open>Object.entries(neighborColors)\<close>, from \<^verbatim>\<open>maxCount = 0\<close> and
  \<^verbatim>\<open>bestColor = palette[0]\<close> (\<^verbatim>\<open>undefined\<close>, \<open>None\<close>, for an empty palette).
\<close>

definition bestNeighborColor :: "color option \<Rightarrow> (color \<times> nat) list \<Rightarrow> color option" where
  "bestNeighborColor first neighborColors =
     snd (fold (\<lambda>(colorKey, count) (maxCount, bestColor).
                  if count > maxCount then (count, Some colorKey) else (maxCount, bestColor))
               neighborColors (0, first))"

text \<open>
  The body of the two loops of \<^verbatim>\<open>cleanEdges\<close> at the pixel \<open>(x, y)\<close>: it reads the input
  array \<open>src\<close> and writes the array \<open>dst\<close> of the new buffer.
\<close>

definition cleanPixel ::
  "nat \<Rightarrow> color list \<Rightarrow> nat list \<Rightarrow> nat \<Rightarrow> nat \<Rightarrow> nat list \<Rightarrow> error + nat list" where
  "cleanPixel w palette src x y dst =
     (let idx = (y * w + x) * 4;
          pixel = pixelAt src idx;
          minDist = minDistToPalette pixel palette
      in if exceeds minDist 5 then
           case tallyNeighbors w palette src x y neighborOffsets [] of
             Inl e \<Rightarrow> Inl e
           | Inr neighborColors \<Rightarrow>
               (case bestNeighborColor (case palette of [] \<Rightarrow> None | first # _ \<Rightarrow> Some first)
                       neighborColors of
                  None \<Rightarrow> Inl TypeError
                | Some (r, g, b) \<Rightarrow>
                    Inr (dst[idx := toUint8Clamp r, idx + 1 := toUint8Clamp g,
                             idx + 2 := toUint8Clamp b]))
         else Inr dst)"

text \<open>
  The loops \<^verbatim>\<open>for (let y = 1; y < height - 1; y++)\<close> and
  \<^verbatim>\<open>for (let x = 1; x < width - 1; x++)\<close>, over the lists of their values.
\<close>

fun cleanRow ::
  "nat \<Rightarrow> color list \<Rightarrow> nat list \<Rightarrow> nat \<Rightarrow> nat list \<Rightarrow> nat list \<Rightarrow> error + nat list" where
  "cleanRow w palette src y [] dst = Inr dst"
| "cleanRow w palette src y (x # xs) dst =
     (case cleanPixel w palette src x y dst of
        Inl e \<Rightarrow> Inl e
      | Inr dst' \<Rightarrow> cleanRow w palette src y xs dst')"

fun cleanRows ::
  "nat \<Rightarrow> color list \<Rightarrow> nat list \<Rightarrow> nat list \<Rightarrow> nat list \<Rightarrow> nat list \<Rightarrow> error + nat list" where
  "cleanRows w palette src xs [] dst = Inr dst"
| "cleanRows w palette src xs (y # ys) dst =
     (case cleanRow w palette src y xs dst of
        Inl e \<Rightarrow> Inl e
      | Inr dst' \<Rightarrow> cleanRows w palette src xs ys dst')"

text \<open>\<^verbatim>\<open>cleanEdges(imageData, palette)\<close>.\<close>

definition cleanEdges ::
  "heap \<Rightarrow> imageData \<Rightarrow> color list \<Rightarrow> error + heap \<times> imageData" where
  "cleanEdges hp imgData palette =
     (let w = width imgData;
          h = height imgData;
          src = hp ! data imgData;
          (hp1, a) = newUint8ClampedArray hp src;
          newData = \<lparr>data = a, width = w, height = h\<rparr>
      in case cleanRows w palette src [1..<w - 1] [1..<h - 1] (hp1 ! data newData) of
           Inl e \<Rightarrow> Inl e
         | Inr d \<Rightarrow> Inr (hp1[data newData := d], newData))"

section \<open>Vocabulary of the statements\<close>

text \<open>
  The colour and the alpha of pixel \<open>p\<close> of an array; a number that is a byte; a palette
  of colours whose channels are integers in \<open>[0, 255]\<close> (the specification's colours).
\<close>

definition rgbAt :: "nat list \<Rightarrow> nat \<Rightarrow> color" where
  "rgbAt d p = pixelAt d (4 * p)"

definition alphaAt :: "nat list \<Rightarrow> nat \<Rightarrow> nat" where
  "alphaAt d p = d ! (4 * p + 3)"

definition isByte :: "real \<Rightarrow> bool" where
  "isByte v \<longleftrightarrow> v \<in> \<int> \<and> 0 \<le> v \<and> v \<le> 255"

fun validColor :: "color \<Rightarrow> bool" where
  "validColor (r, g, b) \<longleftrightarrow> isByte r \<and> isByte g \<and> isByte b"

definition validPalette :: "color list \<Rightarrow> bool" where
  "validPalette palette = list_all validColor palette"

text \<open>
  \<open>firstNearest pixel palette j\<close>: the palette colour at index \<open>j\<close> is at minimal distance
  from \<open>pixel\<close>, and no colour before it in the palette is as near.
\<close>

definition firstNearest :: "color \<Rightarrow> color list \<Rightarrow> nat \<Rightarrow> bool" where
  "firstNearest pixel palette j \<longleftrightarrow>
     j < length palette
     \<and> (\<forall>k<length palette. colorDistance pixel (palette ! j) \<le> colorDistance pixel (palette ! k))
     \<and> (\<forall>k<j. colorDistance pixel (palette ! j) < colorDistance pixel (palette ! k))"

text \<open>
  Pixel \<open>q\<close> of \<open>d'\<close> holds the stored nearest palette colour of pixel \<open>q\<close> of \<open>d\<close>; pixel
  \<open>q\<close> has the same three colour bytes in \<open>d\<close> and \<open>d'\<close>.
\<close>

definition recolored :: "color list \<Rightarrow> nat list \<Rightarrow> nat list \<Rightarrow> nat \<Rightarrow> bool" where
  "recolored palette d d' q \<longleftrightarrow>
     (\<exists>r g b. findNearestColor (pixelAt d (4 * q)) palette = Some (r, g, b)
        \<and> d' ! (4 * q) = toUint8Clamp r \<and> d' ! (4 * q + 1) = toUint8Clamp g
        \<and> d' ! (4 * q + 2) = toUint8Clamp b)"

definition sameRGB :: "nat list \<Rightarrow> nat list \<Rightarrow> nat \<Rightarrow> bool" where
  "sameRGB d d' q \<longleftrightarrow>
     d' ! (4 * q) = d ! (4 * q) \<and> d' ! (4 * q + 1) = d ! (4 * q + 1)
     \<and> d' ! (4 * q + 2) = d ! (4 * q + 2)"

text \<open>
  Each of the first \<open>n\<close> pixels of \<open>d'\<close> has the alpha it has in \<open>d\<close>, or 0; so never a
  greater one.
\<close>

definition alphaKeptOrErased :: "nat list \<Rightarrow> nat list \<Rightarrow> nat \<Rightarrow> bool" where
  "alphaKeptOrErased d d' n \<longleftrightarrow>
     (\<forall>p<n. (alphaAt d' p = alphaAt d p \<or> alphaAt d' p = 0) \<and> alphaAt d' p \<le> alphaAt d p)"

text \<open>Pixel \<open>p\<close> is one of the cells \<open>(px, py)\<close> of a region of an image \<open>w\<close> pixels wide.\<close>

definition inRegion :: "int \<Rightarrow> (int \<times> int) list \<Rightarrow> nat \<Rightarrow> bool" where
  "inRegion w region p \<longleftrightarrow> (\<exists>(px, py)\<in>set region. py * w + px = int p)"

text \<open>
  A store with one buffer of three pixels in a row (two opaque and similar, one
  translucent and different) and a palette of black and white, for the concrete
  evaluations.
\<close>

definition heap0 :: heap where
  "heap0 = [[10, 20, 30, 255, 12, 20, 30, 200, 250, 250, 250, 100]]"

definition img0 :: imageData where
  "img0 = \<lparr>data = 0, width = 3, height = 1\<rparr>"

definition palette0 :: "color list" where
  "palette0 = [(0, 0, 0), (255, 255, 255)]"

text \<open>
  The fallback palette in the specification's words: \<open>k\<close> colours with the hues
  \<open>i * 360 / k\<close> for \<open>i = 0, ..., k - 1\<close>, saturation 70 percent and lightness 50 percent, converted by
  the standard piecewise formula (chroma \<open>C\<close>, second component \<open>X\<close> on the sector of
  \<open>H' = H / 60\<close>, lightness match \<open>m\<close>), each channel scaled to 255 and rounded.
\<close>

definition standardHslToRgb :: "real \<Rightarrow> real \<Rightarrow> real \<Rightarrow> color" where
  "standardHslToRgb H S L =
     (let C = (1 - \<bar>2 * L - 1\<bar>) * S;
          H' = H / 60;
          X = C * (1 - \<bar>(H' - 2 * of_int \<lfloor>H' / 2\<rfloor>) - 1\<bar>);
          m = L - C / 2;
          (R1, G1, B1) =
            (if 0 \<le> H' \<and> H' < 1 then (C, X, 0)
             else if 1 \<le> H' \<and> H' < 2 then (X, C, 0)
             else if 2 \<le> H' \<and> H' < 3 then (0, C, X)
             else if 3 \<le> H' \<and> H' < 4 then (0, X, C)
             else if 4 \<le> H' \<and> H' < 5 then (X, 0, C)
             else (C, 0, X))
      in (of_int (round (255 * (R1 + m))),
          of_int (round (255 * (G1 + m))),
          of_int (round (255 * (B1 + m)))))"

definition fallbackPalette :: "nat \<Rightarrow> color list" where
  "fallbackPalette k =
     map (\<lambda>i. standardHslToRgb (real i * 360 / real k) (70 / 100) (50 / 100)) [0..<k]"

text \<open>
  A random source that always draws 0, a store with one opaque buffer of a red and a green
  pixel, and three colours, for the concrete evaluations.
\<close>

definition rndZero :: "nat \<Rightarrow> real" where
  "rndZero n = 0"







text \<open>
  The seeding fails when it does not end with \<open>k\<close> centroids: a weighted draw selected
  no pixel, or the first centroid is \<^verbatim>\<open>undefined\<close>.
\<close>

definition seedingFails :: "(nat \<Rightarrow> real) \<Rightarrow> color list \<Rightarrow> nat \<Rightarrow> bool" where
  "seedingFails rnd pixels k =
     (case initializeCentroidsKMeansPlusPlus rnd pixels k of
        Inl e \<Rightarrow> True
      | Inr centroids \<Rightarrow> length centroids < k)"

text \<open>
  Two random sources, one that always draws the largest double below 1 (generators that
  draw 53 bits can return it) and one that always draws the double before it (the largest
  number of generators that draw 52 bits), each with a store of one opaque buffer of
  pixels in a row, for the evaluation of a weighted draw that selects no pixel.
\<close>

definition rndTop :: "nat \<Rightarrow> real" where
  "rndTop n = 1 - 1 / 2 ^ 53"

definition heapDraw :: heap where
  "heapDraw = [[2, 3, 0, 255, 0, 2, 0, 255, 2, 3, 0, 255, 0, 0, 0, 255]]"

definition imgDraw :: imageData where
  "imgDraw = \<lparr>data = 0, width = 4, height = 1\<rparr>"

definition rndTop52 :: "nat \<Rightarrow> real" where
  "rndTop52 n = 1 - 1 / 2 ^ 52"

definition heapDraw52 :: heap where
  "heapDraw52 = [[0, 2, 0, 255, 2, 2, 0, 255, 1, 3, 2, 255, 1, 4, 0, 255, 1, 2, 1, 255]]"

definition imgDraw52 :: imageData where
  "imgDraw52 = \<lparr>data = 0, width = 5, height = 1\<rparr>"

text \<open>
  The vote of \<^verbatim>\<open>cleanEdges\<close> in the specification's words. \<open>neighborVotes\<close> lists, in
  iteration order, the nearest palette colour of each of the eight neighbours of
  \<open>(x, y)\<close>. \<open>pluralityFirst votes c\<close>: the colour \<open>c\<close> occurs among the votes, no colour
  occurs more often, and every colour met before the first occurrence of \<open>c\<close> occurs
  less often. \<open>farFromPalette\<close>: the colour is at distance greater than 5 from every palette
  colour. \<open>interior\<close>: the pixel is neither in the first nor in the last row or column.
\<close>

definition neighborVotes :: "nat \<Rightarrow> color list \<Rightarrow> nat list \<Rightarrow> nat \<Rightarrow> nat \<Rightarrow> color option list" where
  "neighborVotes w palette src x y =
     map (\<lambda>(dx, dy).
            findNearestColor (pixelAt src (nat (((int y + dy) * int w + (int x + dx)) * 4)))
              palette)
         neighborOffsets"

definition pluralityFirst :: "'a list \<Rightarrow> 'a \<Rightarrow> bool" where
  "pluralityFirst votes c \<longleftrightarrow>
     c \<in> set votes
     \<and> (\<forall>c'\<in>set votes. count_list votes c' \<le> count_list votes c)
     \<and> (\<forall>c'\<in>set (takeWhile (\<lambda>v. v \<noteq> c) votes). count_list votes c' < count_list votes c)"

definition farFromPalette :: "color \<Rightarrow> color list \<Rightarrow> bool" where
  "farFromPalette pixel palette \<longleftrightarrow> (\<forall>c\<in>set palette. colorDistance pixel c > 5)"

definition interior :: "nat \<Rightarrow> nat \<Rightarrow> nat \<Rightarrow> nat \<Rightarrow> bool" where
  "interior w h x y \<longleftrightarrow> 1 \<le> x \<and> x + 1 < w \<and> 1 \<le> y \<and> y + 1 < h"

text \<open>
  The colours of a list in the order of their first occurrences, and the list of keys
  and counts that the votes build up.
\<close>

definition firsts :: "'a list \<Rightarrow> 'a list" where
  "firsts xs = rev (remdups (rev xs))"

definition tallied :: "'a list \<Rightarrow> ('a \<times> nat) list" where
  "tallied votes = map (\<lambda>k. (k, count_list votes k)) (firsts votes)"

text \<open>
  A store with one opaque buffer of three by three pixels: white, black and grey on the
  border, grey in the centre.
\<close>

definition heapEdge :: heap where
  "heapEdge =
     [[255, 255, 255, 255,   0, 0, 0, 255,         100, 100, 100, 255,
       0, 0, 0, 255,         100, 100, 100, 255,   255, 255, 255, 255,
       255, 255, 255, 255,   255, 255, 255, 255,   0, 0, 0, 255]]"

definition imgEdge :: imageData where
  "imgEdge = \<lparr>data = 0, width = 3, height = 3\<rparr>"

definition edgeCleaned :: "nat list" where
  "edgeCleaned =
     [255, 255, 255, 255,   0, 0, 0, 255,         100, 100, 100, 255,
      0, 0, 0, 255,         255, 255, 255, 255,   255, 255, 255, 255,
      255, 255, 255, 255,   255, 255, 255, 255,   0, 0, 0, 255]"

definition white :: color where
  "white = (255, 255, 255)"

definition black :: color where
  "black = (0, 0, 0)"

definition grey :: color where
  "grey = (100, 100, 100)"

text \<open>
  \<open>argmaxFirst f ks k\<close>: \<open>k\<close> is the first element of \<open>ks\<close> at which \<open>f\<close> is greatest.
\<close>

definition argmaxFirst :: "('a \<Rightarrow> nat) \<Rightarrow> 'a list \<Rightarrow> 'a \<Rightarrow> bool" where
  "argmaxFirst f ks k \<longleftrightarrow>
     k \<in> set ks
     \<and> (\<forall>k'\<in>set ks. f k' \<le> f k)
     \<and> (\<forall>k'\<in>set (takeWhile (\<lambda>v. v \<noteq> k) ks). f k' < f k)"

text \<open>
  \<open>voted\<close>: pixel \<open>(x, y)\<close> of \<open>dst\<close> holds the winner of the vote of its neighbours in
  \<open>src\<close>. \<open>cleanCells\<close> runs the body of the loops of \<^verbatim>\<open>cleanEdges\<close> over a list of pixels.
\<close>

definition voted :: "nat \<Rightarrow> color list \<Rightarrow> nat list \<Rightarrow> nat \<Rightarrow> nat \<Rightarrow> nat list \<Rightarrow> bool" where
  "voted w palette src x y dst \<longleftrightarrow>
     (\<exists>c. pluralityFirst (neighborVotes w palette src x y) (Some c)
          \<and> rgbAt dst (y * w + x) = c)"

fun cleanCells ::
  "nat \<Rightarrow> color list \<Rightarrow> nat list \<Rightarrow> (nat \<times> nat) list \<Rightarrow> nat list \<Rightarrow> error + nat list" where
  "cleanCells w palette src [] dst = Inr dst"
| "cleanCells w palette src ((x, y) # cells) dst =
     (case cleanPixel w palette src x y dst of
        Inl e \<Rightarrow> Inl e
      | Inr dst' \<Rightarrow> cleanCells w palette src cells dst')"

section \<open>Path simplification\<close>

lemma maxScan_fold_inv:
  fixes d :: "nat \<Rightarrow> real"
  assumes "fold (\<lambda>i (maxDist, maxIndex).
             let dist = d i in if dist > maxDist then (dist, i) else (maxDist, maxIndex))
           is (m, j) = (m', j')"
  shows "(m' = m \<and> j' = j) \<or> (m < m' \<and> j' \<in> set is)"
  using assms
proof (induction "is" arbitrary: m j)
  case Nil
  then show ?case by simp
next
  case (Cons i "is")
  show ?case
  proof (cases "d i > m")
    case True
    with Cons.prems have "fold (\<lambda>i (maxDist, maxIndex).
             let dist = d i in if dist > maxDist then (dist, i) else (maxDist, maxIndex))
           is (d i, i) = (m', j')"
      by simp
    from Cons.IH[OF this] True show ?thesis by auto
  next
    case False
    with Cons.prems have "fold (\<lambda>i (maxDist, maxIndex).
             let dist = d i in if dist > maxDist then (dist, i) else (maxDist, maxIndex))
           is (m, j) = (m', j')"
      by simp
    from Cons.IH[OF this] show ?thesis by auto
  qed
qed

lemma maxScan_index:
  assumes "0 \<le> tolerance" and "tolerance < fst (maxScan points)"
  shows "1 \<le> snd (maxScan points) \<and> snd (maxScan points) < length points - 1"
proof -
  obtain m' j' where mj: "maxScan points = (m', j')"
    by (cases "maxScan points")
  from mj [unfolded maxScan_def] maxScan_fold_inv
  have "(m' = 0 \<and> j' = 0) \<or> (0 < m' \<and> j' \<in> set [1..<length points - 1])"
    by fast
  with assms mj show ?thesis by auto
qed

lemma simplifyPath_total:
  assumes "0 \<le> tolerance"
  shows "\<exists>r. simplifyPath points tolerance = Some r \<and> length r \<le> length points
           \<and> (2 \<le> length points \<longrightarrow> 2 \<le> length r)
           \<and> (points \<noteq> [] \<longrightarrow> hd r = hd points \<and> last r = last points)"
proof (induction points rule: length_induct)
  case (1 points)
  show ?case
  proof (cases "length points \<le> 2")
    case True
    then show ?thesis by (subst simplifyPath.simps) simp
  next
    case long: False
    then have ne: "points \<noteq> []" by auto
    show ?thesis
    proof (cases "tolerance < fst (maxScan points)")
      case False
      with long have "simplifyPath points tolerance
          = Some [points ! 0, points ! (length points - 1)]"
        by (subst simplifyPath.simps) (simp add: Let_def)
      with long ne show ?thesis by (simp add: hd_conv_nth last_conv_nth)
    next
      case True
      define k where "k = snd (maxScan points)"
      from maxScan_index[OF assms True] have k: "1 \<le> k" "k < length points - 1"
        by (simp_all add: k_def)
      let ?l = "take (k + 1) points" and ?r = "drop k points"
      from k have ll: "length ?l = k + 1" and lr: "length ?r = length points - k"
        by simp_all
      from k ll lr have shorter: "length ?l < length points" "length ?r < length points"
        by simp_all
      from 1 shorter(1) obtain left where left: "simplifyPath ?l tolerance = Some left"
        "length left \<le> length ?l" "2 \<le> length ?l \<longrightarrow> 2 \<le> length left"
        "?l \<noteq> [] \<longrightarrow> hd left = hd ?l \<and> last left = last ?l"
        by blast
      from 1 shorter(2) obtain right where right: "simplifyPath ?r tolerance = Some right"
        "length right \<le> length ?r" "2 \<le> length ?r \<longrightarrow> 2 \<le> length right"
        "?r \<noteq> [] \<longrightarrow> hd right = hd ?r \<and> last right = last ?r"
        by blast
      from long True left(1) right(1)
      have res: "simplifyPath points tolerance = Some (butlast left @ right)"
        by (subst simplifyPath.simps) (simp add: Let_def k_def)
      from k ll left(3) have l2: "2 \<le> length left" by simp
      from k lr right(3) have r2: "2 \<le> length right" by simp
      from l2 have bl: "butlast left \<noteq> []"
        by (cases left) auto
      from k left(4) ne have hdl: "hd left = hd points"
        by (auto simp: hd_conv_nth)
      from bl have "hd (butlast left @ right) = hd (butlast left)" by simp
      also from bl have "\<dots> = hd left" by (cases left) auto
      finally have hd_res: "hd (butlast left @ right) = hd points" using hdl by simp
      from r2 have rne: "right \<noteq> []" by auto
      from k right(4) have "last right = last (drop k points)" by auto
      also from k have "\<dots> = last points" by simp
      finally have last_res: "last (butlast left @ right) = last points" using rne by simp
      from left(2) right(2) ll lr k
      have len: "length (butlast left @ right) \<le> length points" by simp
      from r2 have "2 \<le> length (butlast left @ right)" by simp
      with res len hd_res last_res show ?thesis by simp
    qed
  qed
qed

lemma maxScan_collinear3: "maxScan collinear3 = (0, 0)"
  by (simp add: maxScan_def perpendicularDistance_def collinear3_def)

lemma simplifyPath_collinear3_no_result:
  assumes "simplifyPath points tolerance = Some r"
  shows "\<not> (points = collinear3 \<and> tolerance = - 1)"
proof (rule simplifyPath.raw_induct
    [where P = "\<lambda>p t r. \<not> (p = collinear3 \<and> t = - 1)", OF _ assms])
  fix f :: "point list \<Rightarrow> real \<Rightarrow> point list option" and p t r
  assume IH: "\<And>p t r. f p t = Some r \<Longrightarrow> \<not> (p = collinear3 \<and> t = - 1)"
    and step: "(if length p \<le> 2 then Some p
      else
        let first = p ! 0;
            last = p ! (length p - 1);
            maxDist = fst (maxScan p);
            maxIndex = snd (maxScan p)
        in if maxDist > t then
             do {
               left \<leftarrow> f (take (maxIndex + 1) p) t;
               right \<leftarrow> f (drop maxIndex p) t;
               Some (butlast left @ right)
             }
           else Some [first, last]) = Some r"
  show "\<not> (p = collinear3 \<and> t = - 1)"
  proof
    assume eq: "p = collinear3 \<and> t = - 1"
    then have "length p = 3" by (simp add: collinear3_def)
    with step eq obtain right where "f collinear3 (- 1) = Some right"
      by (auto simp: maxScan_collinear3 Let_def bind_eq_Some_conv)
    from IH[OF this] show False by simp
  qed
qed

text \<open>
  C7, as stated, fails: the claim quantifies over every tolerance, and with a negative
  tolerance three collinear points keep \<open>maxDist = 0 > tolerance\<close> with \<open>maxIndex = 0\<close>,
  so the right half of the split is the whole list again and the recursion never returns.
\<close>

theorem simplifyPath_negative_tolerance_diverges:
  "simplifyPath collinear3 (- 1) = None"
  using simplifyPath_collinear3_no_result
  by (cases "simplifyPath collinear3 (- 1)") auto

text \<open>
  C7, amended: for every point list and every tolerance that is not negative,
  \<^verbatim>\<open>simplifyPath\<close> returns; the list it returns is no longer than its input, and for a
  non-empty input its first element is the input's first point and its last element the
  input's last point.
\<close>

theorem simplifyPath_shrinks_and_keeps_ends:
  assumes "0 \<le> tolerance"
  shows "\<exists>r. simplifyPath points tolerance = Some r \<and> length r \<le> length points
           \<and> (points \<noteq> [] \<longrightarrow> hd r = hd points \<and> last r = last points)"
  using simplifyPath_total[OF assms, of points] by blast

theorem simplifyPath_shrinks_and_keeps_ends_witness:
  "(0::real) \<le> 1 / 2 \<and> tent3 \<noteq> []
   \<and> (\<exists>r. simplifyPath tent3 (1 / 2) = Some r \<and> length r \<le> length tent3
          \<and> hd r = hd tent3 \<and> last r = last tent3)"
proof -
  have h: "(0::real) \<le> 1 / 2" by simp
  have ne: "tent3 \<noteq> []" by (simp add: tent3_def)
  from simplifyPath_shrinks_and_keeps_ends[OF h, of tent3] ne h show ?thesis by blast
qed

section \<open>Path smoothing\<close>

lemma fold_keeps_hd:
  assumes "\<And>i p. p \<noteq> [] \<Longrightarrow> f i p \<noteq> [] \<and> hd (f i p) = hd p" and "path \<noteq> []"
  shows "fold f is path \<noteq> [] \<and> hd (fold f is path) = hd path"
  using assms(2)
proof (induction "is" arbitrary: path)
  case Nil
  then show ?case by simp
next
  case (Cons i "is")
  from assms(1)[OF Cons.prems] have "f i path \<noteq> []" "hd (f i path) = hd path"
    by simp_all
  with Cons.IH[of "f i path"] show ?case by simp
qed

text \<open>
  C8, as stated, fails: the claim covers every point list, and the source returns the
  empty string for no points and \<^verbatim>\<open>M x y\<close>, with no \<^verbatim>\<open>Z\<close>, for a single point.
\<close>

theorem smoothPath_short_inputs:
  "smoothPath digitZero [] = '''' \<and> smoothPath digitZero [(0, 0)] = ''M 0 0''"
  by (simp add: smoothPath_def digitZero_def)

text \<open>
  C8, amended: for every non-empty point list the string returned by \<^verbatim>\<open>smoothPath\<close> is
  non-empty and starts with the command \<^verbatim>\<open>M\<close>; for every point list with at least 2
  points it ends with the command \<^verbatim>\<open>Z\<close>. (For one point it is a bare \<^verbatim>\<open>M x y\<close>; for no
  point it is empty.)
\<close>

theorem smoothPath_starts_M_ends_Z:
  "(points \<noteq> [] \<longrightarrow>
      smoothPath numToString points \<noteq> []
      \<and> hd (smoothPath numToString points) = CHR ''M'')
   \<and> (2 \<le> length points \<longrightarrow> last (smoothPath numToString points) = CHR ''Z'')"
proof (cases "2 \<le> length points")
  case False
  then have "length points = 0 \<or> length points = 1" by arith
  with False show ?thesis by (auto simp: smoothPath_def)
next
  case long: True
  define start where
    "start = ''M '' @ numToString (fst (points ! 0)) @ '' '' @ numToString (snd (points ! 0))"
  define step where
    "step = (\<lambda>i path.
               let current = points ! i;
                   next = points ! (i + 1);
                   controlX = fst current;
                   controlY = snd current;
                   endX = (fst current + fst next) / 2;
                   endY = (snd current + snd next) / 2
               in path @ '' Q '' @ numToString controlX @ '' '' @ numToString controlY
                    @ '', '' @ numToString endX @ '' '' @ numToString endY)"
  define body where "body = fold step [1..<length points - 1] start"
  define final where "final = points ! (length points - 1)"
  from long have sp: "smoothPath numToString points
      = (body @ '' L '' @ numToString (fst final) @ '' '' @ numToString (snd final)) @ '' Z''"
    unfolding smoothPath_def body_def step_def start_def final_def Let_def
    by (cases points) auto
  have "start \<noteq> []" by (simp add: start_def)
  moreover have "\<And>i p. p \<noteq> [] \<Longrightarrow> step i p \<noteq> [] \<and> hd (step i p) = hd p"
    by (simp add: step_def Let_def)
  ultimately have "body \<noteq> [] \<and> hd body = hd start"
    unfolding body_def by (intro fold_keeps_hd) simp_all
  moreover have "hd start = CHR ''M''" by (simp add: start_def)
  ultimately show ?thesis unfolding sp by simp
qed

theorem smoothPath_starts_M_ends_Z_witness:
  "tent3 \<noteq> [] \<and> 2 \<le> length tent3
   \<and> smoothPath digitZero tent3 = ''M 0 0 Q 0 0, 0 0 L 0 0 Z''
   \<and> smoothPath digitZero tent3 \<noteq> []
   \<and> hd (smoothPath digitZero tent3) = CHR ''M''
   \<and> last (smoothPath digitZero tent3) = CHR ''Z''"
proof -
  have h: "2 \<le> length tent3" and ne: "tent3 \<noteq> []" by (simp_all add: tent3_def)
  have "smoothPath digitZero tent3 = ''M 0 0 Q 0 0, 0 0 L 0 0 Z''"
    by (simp add: smoothPath_def tent3_def digitZero_def Let_def)
  with h ne smoothPath_starts_M_ends_Z[of tent3 digitZero] show ?thesis by simp
qed

section \<open>Nearest palette colour\<close>

lemma toUint8Clamp_byte: "isByte v \<Longrightarrow> real (toUint8Clamp v) = v"
proof -
  assume b: "isByte v"
  then obtain z :: int where z: "v = of_int z" by (auto simp: isByte_def Ints_def)
  with b have "0 \<le> z" "z \<le> 255" by (simp_all add: isByte_def)
  with z show ?thesis by (auto simp: toUint8Clamp_def Let_def)
qed

lemma colorDistance_zero_iff: "colorDistance a b = 0 \<longleftrightarrow> a = b"
proof (cases a; cases b)
  fix r1 g1 b1 r2 g2 b2
  assume ab: "a = (r1, g1, b1)" "b = (r2, g2, b2)"
  have "(r1 - r2)\<^sup>2 + (g1 - g2)\<^sup>2 + (b1 - b2)\<^sup>2 = 0 \<longleftrightarrow> r1 = r2 \<and> g1 = g2 \<and> b1 = b2"
    by (simp add: sum_power2_eq_zero_iff add_nonneg_eq_0_iff)
  with ab show ?thesis by simp
qed

lemma colorDistance_nonneg: "0 \<le> colorDistance a b"
  by (cases a; cases b) simp

lemma sqrt_le_iff_sq:
  assumes "0 \<le> t"
  shows "sqrt x \<le> t \<longleftrightarrow> x \<le> t\<^sup>2"
proof -
  have "sqrt x \<le> sqrt (t\<^sup>2) \<longleftrightarrow> x \<le> t\<^sup>2" by (rule real_sqrt_le_iff)
  with assms show ?thesis by simp
qed

lemma sqrt_less_iff_sq:
  assumes "0 \<le> t"
  shows "sqrt x < t \<longleftrightarrow> x < t\<^sup>2"
proof -
  have "sqrt x < sqrt (t\<^sup>2) \<longleftrightarrow> x < t\<^sup>2" by (rule real_sqrt_less_iff)
  with assms show ?thesis by simp
qed

lemma validPalette_nth: "validPalette palette \<Longrightarrow> j < length palette \<Longrightarrow> validColor (palette ! j)"
  by (simp add: validPalette_def list_all_length)

lemma findNearestColorLoop_inv:
  assumes "j < length pre" and "m = colorDistance pixel (pre ! j)"
    and "\<forall>k<length pre. m \<le> colorDistance pixel (pre ! k)"
    and "\<forall>k<j. m < colorDistance pixel (pre ! k)"
  shows "\<exists>j'. snd (findNearestColorLoop pixel cs (Some m, pre ! j)) = (pre @ cs) ! j'
              \<and> firstNearest pixel (pre @ cs) j'"
  using assms
proof (induction cs arbitrary: pre j m)
  case Nil
  then show ?case by (auto simp: firstNearest_def)
next
  case (Cons c cs)
  show ?case
  proof (cases "colorDistance pixel c < m")
    case True
    have "\<exists>j'. snd (findNearestColorLoop pixel cs (Some (colorDistance pixel c), (pre @ [c]) ! length pre))
                 = ((pre @ [c]) @ cs) ! j' \<and> firstNearest pixel ((pre @ [c]) @ cs) j'"
    proof (rule Cons.IH)
      show "length pre < length (pre @ [c])" by simp
      show "colorDistance pixel c = colorDistance pixel ((pre @ [c]) ! length pre)" by simp
      show "\<forall>k<length (pre @ [c]). colorDistance pixel c \<le> colorDistance pixel ((pre @ [c]) ! k)"
        using Cons.prems(3) True by (fastforce simp: nth_append less_Suc_eq)
      show "\<forall>k<length pre. colorDistance pixel c < colorDistance pixel ((pre @ [c]) ! k)"
        using Cons.prems(3) True by (fastforce simp: nth_append)
    qed
    with True show ?thesis by (simp add: lessThanMin_def)
  next
    case False
    have "\<exists>j'. snd (findNearestColorLoop pixel cs (Some m, (pre @ [c]) ! j))
                 = ((pre @ [c]) @ cs) ! j' \<and> firstNearest pixel ((pre @ [c]) @ cs) j'"
    proof (rule Cons.IH)
      show "j < length (pre @ [c])" using Cons.prems(1) by simp
      show "m = colorDistance pixel ((pre @ [c]) ! j)"
        using Cons.prems(1,2) by (simp add: nth_append)
      show "\<forall>k<length (pre @ [c]). m \<le> colorDistance pixel ((pre @ [c]) ! k)"
        using Cons.prems(3) False by (auto simp: nth_append less_Suc_eq)
      show "\<forall>k<j. m < colorDistance pixel ((pre @ [c]) ! k)"
        using Cons.prems(1,4) by (auto simp: nth_append)
    qed
    with False Cons.prems(1) show ?thesis by (simp add: lessThanMin_def nth_append)
  qed
qed

lemma findNearestColor_first:
  assumes "palette \<noteq> []"
  shows "\<exists>j. findNearestColor pixel palette = Some (palette ! j) \<and> firstNearest pixel palette j"
proof -
  from assms obtain c cs where p: "palette = c # cs" by (cases palette) auto
  have "\<exists>j'. snd (findNearestColorLoop pixel cs (Some (colorDistance pixel c), [c] ! 0)) = ([c] @ cs) ! j'
              \<and> firstNearest pixel ([c] @ cs) j'"
    by (rule findNearestColorLoop_inv) simp_all
  then show ?thesis by (simp add: p findNearestColor_def lessThanMin_def)
qed

section \<open>The loop of the palette mapping\<close>

text \<open>
  Started at pixel \<open>p\<close>, the loop of \<^verbatim>\<open>posterizeReplace\<close> returns, keeps every alpha byte,
  recolours the pixels from \<open>p\<close> on whose alpha is at least 128 and keeps the colour
  bytes of all others.
\<close>

lemma posterizeLoop_spec:
  assumes "length d = 4 * n" and "palette \<noteq> []" and "p \<le> n"
  shows "\<exists>d'. posterizeLoop palette (4 * p) d = Inr d' \<and> length d' = 4 * n \<and>
     (\<forall>q<n. d' ! (4 * q + 3) = d ! (4 * q + 3) \<and>
        (if p \<le> q \<and> 128 \<le> d ! (4 * q + 3) then recolored palette d d' q
         else sameRGB d d' q))"
  using assms(1,3)
proof (induction "n - p" arbitrary: p d)
  case 0
  then have "posterizeLoop palette (4 * p) d = Inr d"
    by (subst posterizeLoop.simps) simp
  with 0 show ?case by (simp add: sameRGB_def)
next
  case (Suc m)
  from Suc.hyps(2) have pn: "p < n" and m: "m = n - (p + 1)" and p1: "p + 1 \<le> n"
    by simp_all
  have e: "4 * (p + 1) = 4 * p + 4" by simp
  from pn Suc.prems have inb: "4 * p < length d" by simp
  show ?case
  proof (cases "d ! (4 * p + 3) < 128")
    case True
    with inb have step: "posterizeLoop palette (4 * p) d = posterizeLoop palette (4 * p + 4) d"
      by (subst posterizeLoop.simps) simp
    from Suc.hyps(1)[OF m Suc.prems(1) p1, unfolded e] obtain d' where
      d': "posterizeLoop palette (4 * p + 4) d = Inr d'" "length d' = 4 * n"
      and rest: "\<And>q. q < n \<Longrightarrow> d' ! (4 * q + 3) = d ! (4 * q + 3) \<and>
        (if p + 1 \<le> q \<and> 128 \<le> d ! (4 * q + 3) then recolored palette d d' q
         else sameRGB d d' q)"
      by blast
    have "d' ! (4 * q + 3) = d ! (4 * q + 3) \<and>
        (if p \<le> q \<and> 128 \<le> d ! (4 * q + 3) then recolored palette d d' q
         else sameRGB d d' q)" if q: "q < n" for q
    proof (cases "q = p")
      case qp: True
      with rest[OF q] True show ?thesis by simp
    next
      case False
      then have "(p \<le> q) = (p + 1 \<le> q)" by auto
      with rest[OF q] show ?thesis by simp
    qed
    with step d' show ?thesis by simp
  next
    case False
    from findNearestColor_first[OF assms(2), of "pixelAt d (4 * p)"] obtain r g b where
      near: "findNearestColor (pixelAt d (4 * p)) palette = Some (r, g, b)"
      by (metis prod_cases3)
    define d2 where "d2 = d[4 * p := toUint8Clamp r, 4 * p + 1 := toUint8Clamp g,
                              4 * p + 2 := toUint8Clamp b]"
    from False inb near have step:
      "posterizeLoop palette (4 * p) d = posterizeLoop palette (4 * p + 4) d2"
      by (subst posterizeLoop.simps) (simp add: d2_def)
    have len2: "length d2 = 4 * n" using Suc.prems(1) by (simp add: d2_def)
    have other: "d2 ! (4 * q + c) = d ! (4 * q + c)" if "q \<noteq> p" "c < 4" for q c
      using that by (simp add: d2_def)
    have alpha2: "d2 ! (4 * q + 3) = d ! (4 * q + 3)" for q
    proof -
      have "4 * p \<noteq> 4 * q + 3" "4 * p + 1 \<noteq> 4 * q + 3" "4 * p + 2 \<noteq> 4 * q + 3"
        by presburger+
      then show ?thesis by (simp add: d2_def)
    qed
    from pn Suc.prems(1) have at_p: "d2 ! (4 * p) = toUint8Clamp r"
      "d2 ! (4 * p + 1) = toUint8Clamp g" "d2 ! (4 * p + 2) = toUint8Clamp b"
      by (simp_all add: d2_def)
    have pix2: "pixelAt d2 (4 * q) = pixelAt d (4 * q)" if "q \<noteq> p" for q
      using other[OF that, of 0] other[OF that, of 1] other[OF that, of 2]
      by (simp add: pixelAt_def)
    have rec2: "recolored palette d2 d' q = recolored palette d d' q" if "q \<noteq> p" for q d'
      by (simp add: recolored_def pix2[OF that])
    have same2: "sameRGB d2 d' q = sameRGB d d' q" if "q \<noteq> p" for q d'
      using other[OF that, of 0] other[OF that, of 1] other[OF that, of 2]
      by (simp add: sameRGB_def)
    from Suc.hyps(1)[OF m len2 p1, unfolded e] obtain d' where
      d': "posterizeLoop palette (4 * p + 4) d2 = Inr d'" "length d' = 4 * n"
      and rest: "\<And>q. q < n \<Longrightarrow> d' ! (4 * q + 3) = d2 ! (4 * q + 3) \<and>
        (if p + 1 \<le> q \<and> 128 \<le> d2 ! (4 * q + 3) then recolored palette d2 d' q
         else sameRGB d2 d' q)"
      by blast
    have "d' ! (4 * q + 3) = d ! (4 * q + 3) \<and>
        (if p \<le> q \<and> 128 \<le> d ! (4 * q + 3) then recolored palette d d' q
         else sameRGB d d' q)" if q: "q < n" for q
    proof (cases "q = p")
      case True
      from rest[OF pn] have "sameRGB d2 d' p" and "d' ! (4 * p + 3) = d ! (4 * p + 3)"
        by (simp_all add: alpha2)
      with at_p near have "recolored palette d d' p"
        by (simp add: recolored_def sameRGB_def)
      with True False \<open>d' ! (4 * p + 3) = d ! (4 * p + 3)\<close> show ?thesis by simp
    next
      case neq: False
      then have "(p \<le> q) = (p + 1 \<le> q)" by auto
      with rest[OF q] show ?thesis
        by (simp add: alpha2 rec2[OF neq] same2[OF neq] cong: if_cong)
    qed
    with step d' show ?thesis by simp
  qed
qed

lemma posterizeLoop_empty_palette:
  assumes "length d = 4 * n" and "p \<le> n" and "posterizeLoop [] (4 * p) d = Inr d'"
  shows "d' = d"
  using assms
proof (induction "n - p" arbitrary: p)
  case 0
  then show ?case by (subst (asm) posterizeLoop.simps) simp
next
  case (Suc m)
  from Suc.hyps(2) have pn: "p < n" and m: "m = n - (p + 1)" and p1: "p + 1 \<le> n"
    by simp_all
  have e: "4 * (p + 1) = 4 * p + 4" by simp
  from pn Suc.prems have inb: "4 * p < length d" by simp
  show ?case
  proof (cases "d ! (4 * p + 3) < 128")
    case True
    with inb Suc.prems(3) have "posterizeLoop [] (4 * p + 4) d = Inr d'"
      by (subst (asm) posterizeLoop.simps) simp
    from Suc.hyps(1)[OF m Suc.prems(1) p1, unfolded e, OF this] show ?thesis .
  next
    case False
    with inb Suc.prems(3) show ?thesis
      by (subst (asm) posterizeLoop.simps) (simp add: findNearestColor_def)
  qed
qed

lemma recolored_valid:
  assumes "recolored palette d d' q" and "palette \<noteq> []" and "validPalette palette"
  shows "\<exists>j. firstNearest (pixelAt d (4 * q)) palette j \<and> pixelAt d' (4 * q) = palette ! j"
proof -
  from findNearestColor_first[OF assms(2), of "pixelAt d (4 * q)"] obtain j where
    j: "findNearestColor (pixelAt d (4 * q)) palette = Some (palette ! j)"
       "firstNearest (pixelAt d (4 * q)) palette j"
    by blast
  obtain r g b where c: "palette ! j = (r, g, b)" by (metis prod_cases3)
  from j(2) have "j < length palette" by (simp add: firstNearest_def)
  from validPalette_nth[OF assms(3) this] c have "isByte r" "isByte g" "isByte b"
    by simp_all
  with assms(1) j(1) c have "pixelAt d' (4 * q) = (r, g, b)"
    by (simp add: recolored_def pixelAt_def toUint8Clamp_byte)
  with j(2) c show ?thesis by auto
qed

lemma posterizeReplace_unfold:
  "posterizeReplace hp img palette =
     (case posterizeLoop palette 0 (hp ! data img) of
        Inl e \<Rightarrow> Inl e
      | Inr d \<Rightarrow> Inr (hp @ [d], \<lparr>data = length hp, width = width img, height = height img\<rparr>))"
  by (simp add: posterizeReplace_def newUint8ClampedArray_def Let_def split: sum.splits)

lemma posterizeReplace_result:
  assumes "hp ! data img = d" and "length d = 4 * n" and "palette \<noteq> []"
  shows "\<exists>d'. posterizeReplace hp img palette
            = Inr (hp @ [d'], \<lparr>data = length hp, width = width img, height = height img\<rparr>)
          \<and> length d' = 4 * n
          \<and> (\<forall>q<n. d' ! (4 * q + 3) = d ! (4 * q + 3)
                \<and> (if 128 \<le> d ! (4 * q + 3) then recolored palette d d' q
                    else sameRGB d d' q))"
proof -
  from posterizeLoop_spec[OF assms(2,3), of 0] obtain d' where
    d': "posterizeLoop palette 0 d = Inr d'" "length d' = 4 * n"
        "\<forall>q<n. d' ! (4 * q + 3) = d ! (4 * q + 3)
                \<and> (if 128 \<le> d ! (4 * q + 3) then recolored palette d d' q
                    else sameRGB d d' q)"
    by auto
  from d'(1) assms(1) have "posterizeReplace hp img palette
            = Inr (hp @ [d'], \<lparr>data = length hp, width = width img, height = height img\<rparr>)"
    by (simp add: posterizeReplace_def newUint8ClampedArray_def)
  with d'(2,3) show ?thesis by blast
qed

lemma quad_index:
  fixes j n :: nat
  assumes "j < 4 * n"
  shows "\<exists>q c. q < n \<and> c < 4 \<and> j = 4 * q + c"
proof (intro exI conjI)
  show "j div 4 < n" using assms by simp
  show "j mod 4 < 4" by simp
  show "j = 4 * (j div 4) + j mod 4" by simp
qed

lemma quad_list_eq:
  assumes "length a = 4 * n" and "length b = 4 * n"
    and "\<And>q. q < n \<Longrightarrow> a ! (4 * q) = b ! (4 * q) \<and> a ! (4 * q + 1) = b ! (4 * q + 1)
            \<and> a ! (4 * q + 2) = b ! (4 * q + 2) \<and> a ! (4 * q + 3) = b ! (4 * q + 3)"
  shows "a = b"
proof (rule nth_equalityI)
  show "length a = length b" using assms(1,2) by simp
  fix j assume "j < length a"
  with assms(1) have "j < 4 * n" by simp
  from quad_index[OF this] obtain q c where qc: "q < n" "c < 4" "j = 4 * q + c"
    by blast
  from qc(2) have "c = 0 \<or> c = 1 \<or> c = 2 \<or> c = 3" by auto
  with assms(3)[OF qc(1)] qc(3) show "a ! j = b ! j" by auto
qed

section \<open>The loops of the transparency operations\<close>

lemma makeColorTransparentLoop_spec:
  assumes "length d = 4 * n" and "p \<le> n"
  shows "length (makeColorTransparentLoop targetColor tolerance (4 * p) d) = 4 * n \<and>
     (\<forall>q<n. sameRGB d (makeColorTransparentLoop targetColor tolerance (4 * p) d) q \<and>
        makeColorTransparentLoop targetColor tolerance (4 * p) d ! (4 * q + 3)
          = (if p \<le> q \<and> colorDistance (pixelAt d (4 * q)) targetColor \<le> tolerance then 0
             else d ! (4 * q + 3)))"
  using assms
proof (induction "n - p" arbitrary: p d)
  case 0
  then have "makeColorTransparentLoop targetColor tolerance (4 * p) d = d"
    by (subst makeColorTransparentLoop.simps) simp
  with 0 show ?case by (simp add: sameRGB_def)
next
  case (Suc m)
  from Suc.hyps(2) have pn: "p < n" and m: "m = n - (p + 1)" and p1: "p + 1 \<le> n"
    by simp_all
  have e: "4 * (p + 1) = 4 * p + 4" by simp
  from pn Suc.prems have inb: "4 * p < length d" "4 * p + 3 < length d" by simp_all
  let ?L = "makeColorTransparentLoop targetColor tolerance"
  show ?case
  proof (cases "colorDistance (pixelAt d (4 * p)) targetColor \<le> tolerance")
    case False
    with inb have step: "?L (4 * p) d = ?L (4 * p + 4) d"
      by (subst makeColorTransparentLoop.simps) simp
    from Suc.hyps(1)[OF m Suc.prems(1) p1, unfolded e]
    have len: "length (?L (4 * p + 4) d) = 4 * n"
      and rest: "\<And>q. q < n \<Longrightarrow> sameRGB d (?L (4 * p + 4) d) q \<and>
        ?L (4 * p + 4) d ! (4 * q + 3)
          = (if p + 1 \<le> q \<and> colorDistance (pixelAt d (4 * q)) targetColor \<le> tolerance then 0
             else d ! (4 * q + 3))"
      by blast+
    have "sameRGB d (?L (4 * p + 4) d) q \<and>
        ?L (4 * p + 4) d ! (4 * q + 3)
          = (if p \<le> q \<and> colorDistance (pixelAt d (4 * q)) targetColor \<le> tolerance then 0
             else d ! (4 * q + 3))" if q: "q < n" for q
    proof (cases "q = p")
      case True
      with rest[OF q] False show ?thesis by simp
    next
      case neq: False
      then have "(p \<le> q) = (p + 1 \<le> q)" by auto
      with rest[OF q] show ?thesis by simp
    qed
    with step len show ?thesis by simp
  next
    case True
    define d2 where "d2 = d[4 * p + 3 := 0]"
    from True inb have step: "?L (4 * p) d = ?L (4 * p + 4) d2"
      by (subst makeColorTransparentLoop.simps) (simp add: d2_def)
    have len2: "length d2 = 4 * n" using Suc.prems(1) by (simp add: d2_def)
    have rgb2: "d2 ! (4 * q) = d ! (4 * q)" "d2 ! (4 * q + 1) = d ! (4 * q + 1)"
      "d2 ! (4 * q + 2) = d ! (4 * q + 2)" for q
    proof -
      have "4 * p + 3 \<noteq> 4 * q" "4 * p + 3 \<noteq> 4 * q + 1" "4 * p + 3 \<noteq> 4 * q + 2"
        by presburger+
      then show "d2 ! (4 * q) = d ! (4 * q)" "d2 ! (4 * q + 1) = d ! (4 * q + 1)"
        "d2 ! (4 * q + 2) = d ! (4 * q + 2)"
        by (simp_all add: d2_def)
    qed
    have pix2: "pixelAt d2 (4 * q) = pixelAt d (4 * q)" for q
      using rgb2[of q] by (simp add: pixelAt_def)
    have same2: "sameRGB d2 d' q = sameRGB d d' q" for q d'
      using rgb2[of q] by (simp add: sameRGB_def)
    have alpha2: "d2 ! (4 * q + 3) = d ! (4 * q + 3)" if "q \<noteq> p" for q
      using that by (simp add: d2_def)
    from inb have alphap: "d2 ! (4 * p + 3) = 0" by (simp add: d2_def)
    from Suc.hyps(1)[OF m len2 p1, unfolded e]
    have len: "length (?L (4 * p + 4) d2) = 4 * n"
      and rest: "\<And>q. q < n \<Longrightarrow> sameRGB d2 (?L (4 * p + 4) d2) q \<and>
        ?L (4 * p + 4) d2 ! (4 * q + 3)
          = (if p + 1 \<le> q \<and> colorDistance (pixelAt d2 (4 * q)) targetColor \<le> tolerance then 0
             else d2 ! (4 * q + 3))"
      by blast+
    have "sameRGB d (?L (4 * p + 4) d2) q \<and>
        ?L (4 * p + 4) d2 ! (4 * q + 3)
          = (if p \<le> q \<and> colorDistance (pixelAt d (4 * q)) targetColor \<le> tolerance then 0
             else d ! (4 * q + 3))" if q: "q < n" for q
    proof (cases "q = p")
      case qp: True
      with rest[OF q] True alphap show ?thesis by (simp add: same2)
    next
      case neq: False
      then have "(p \<le> q) = (p + 1 \<le> q)" by auto
      with rest[OF q] alpha2[OF neq] show ?thesis by (simp add: same2 pix2)
    qed
    with step len show ?thesis by simp
  qed
qed

lemma eraseRegion_fold:
  fixes w :: int
  defines "erase \<equiv> (\<lambda>(px, py) d. let idx = (py * w + px) * 4 in writeAt d (idx + 3) 0)"
  shows "length (fold erase region d) = length d \<and>
         (\<forall>j<length d. fold erase region d ! j
            = (if \<exists>(px, py)\<in>set region. (py * w + px) * 4 + 3 = int j then 0 else d ! j))"
proof (induction region arbitrary: d)
  case Nil
  then show ?case by simp
next
  case (Cons c region)
  obtain px py where c: "c = (px, py)" by (cases c)
  define d2 where "d2 = writeAt d ((py * w + px) * 4 + 3) 0"
  have len2: "length d2 = length d" by (simp add: d2_def writeAt_def)
  have d2: "d2 ! j = (if (py * w + px) * 4 + 3 = int j then 0 else d ! j)" if "j < length d" for j
    using that by (auto simp: d2_def writeAt_def nth_list_update)
  have f: "fold erase (c # region) d = fold erase region d2"
    by (simp add: c erase_def d2_def Let_def)
  from Cons.IH[of d2] len2 d2 show ?case
    unfolding f by (auto simp: c)
qed

lemma makeColorTransparent_result:
  assumes "hp ! data img = d"
  shows "makeColorTransparent hp img targetColor tolerance
           = (hp @ [makeColorTransparentLoop targetColor tolerance 0 d],
              \<lparr>data = length hp, width = width img, height = height img\<rparr>)"
  using assms by (simp add: makeColorTransparent_def newUint8ClampedArray_def)

lemma makeRegionTransparent_result:
  assumes "hp ! data img = d"
  shows "makeRegionTransparent hp img x y tolerance
           = (hp @ [fold (\<lambda>(px, py) d.
                      let idx = (py * int (width img) + px) * 4
                      in writeAt d (idx + 3) 0)
                    (floodFill hp img x y tolerance) d],
              \<lparr>data = length hp, width = width img, height = height img\<rparr>)"
  using assms by (simp add: makeRegionTransparent_def newUint8ClampedArray_def Let_def)

lemma eraseRegion_pixels:
  fixes w :: int
  defines "erase \<equiv> (\<lambda>(px, py) d. let idx = (py * w + px) * 4 in writeAt d (idx + 3) 0)"
  assumes "length d = 4 * n" and "q < n"
  shows "sameRGB d (fold erase region d) q"
    and "fold erase region d ! (4 * q + 3) = (if inRegion w region q then 0 else d ! (4 * q + 3))"
proof -
  from eraseRegion_fold[of w region d]
  have nth: "\<And>j. j < length d \<Longrightarrow> fold erase region d ! j
            = (if \<exists>(px, py)\<in>set region. (py * w + px) * 4 + 3 = int j then 0 else d ! j)"
    unfolding erase_def by blast
  have no: "\<not> (\<exists>(px, py)\<in>set region. (py * w + px) * 4 + 3 = int (4 * q + c))" if "c < 3" for c
  proof
    assume "\<exists>(px, py)\<in>set region. (py * w + px) * 4 + 3 = int (4 * q + c)"
    then obtain px py where "(py * w + px) * 4 + 3 = int (4 * q + c)" by blast
    then have "\<exists>k::int. k * 4 + 3 = int (4 * q + c)" by (rule exI)
    with that show False by presburger
  qed
  from assms(2,3) have inb: "4 * q + c < length d" if "c < 4" for c
    using that by simp
  from nth[OF inb[of 0]] nth[OF inb[of 1]] nth[OF inb[of 2]] no[of 0] no[of 1] no[of 2]
  show "sameRGB d (fold erase region d) q"
    by (simp add: sameRGB_def)
  have "(\<exists>(px, py)\<in>set region. (py * w + px) * 4 + 3 = int (4 * q + 3)) = inRegion w region q"
    unfolding inRegion_def by (rule bex_cong) auto
  with nth[OF inb[of 3]] show "fold erase region d ! (4 * q + 3)
      = (if inRegion w region q then 0 else d ! (4 * q + 3))"
    by simp
qed

lemma sameRGB_rgbAt: "sameRGB d d' q \<Longrightarrow> rgbAt d' q = rgbAt d q"
  by (simp add: sameRGB_def rgbAt_def pixelAt_def)

lemma alphaKeptOrErased_same:
  assumes "\<And>q. q < n \<Longrightarrow> d' ! (4 * q + 3) = d ! (4 * q + 3)"
  shows "alphaKeptOrErased d d' n"
  using assms by (simp add: alphaKeptOrErased_def alphaAt_def)

lemma alphaKeptOrErased_cond:
  assumes "\<And>q. q < n \<Longrightarrow> d' ! (4 * q + 3) = (if c q then 0 else d ! (4 * q + 3))"
  shows "alphaKeptOrErased d d' n"
  using assms by (simp add: alphaKeptOrErased_def alphaAt_def)

section \<open>Concrete runs on the sample buffer\<close>

lemma wfImage_heap0: "wfImage heap0 img0"
  by (simp add: wfImage_def heap0_def img0_def)

lemma validPalette_palette0: "validPalette palette0"
  by (simp add: validPalette_def palette0_def isByte_def)

lemma palette0_nonempty: "palette0 \<noteq> []"
  by (simp add: palette0_def)

lemma posterizeReplace_heap0:
  "posterizeReplace heap0 img0 palette0
     = Inr (heap0 @ [[0, 0, 0, 255, 0, 0, 0, 200, 250, 250, 250, 100]],
            \<lparr>data = 1, width = 3, height = 1\<rparr>)"
  by (simp add: posterizeReplace_unfold heap0_def img0_def palette0_def
      posterizeLoop.simps findNearestColor_def lessThanMin_def pixelAt_def toUint8Clamp_def
      sqrt_less_iff_sq)

lemma floodFill_heap0: "floodFill heap0 img0 0 0 30 = [(0, 0), (1, 0)]"
  by (simp add: floodFill_def heap0_def img0_def floodFillLoop.simps colorAt_def readAt_def
      withinTolerance_def sqrt_le_iff_sq Let_def)

lemma makeRegionTransparent_heap0:
  "makeRegionTransparent heap0 img0 0 0 30
     = (heap0 @ [[10, 20, 30, 0, 12, 20, 30, 0, 250, 250, 250, 100]],
        \<lparr>data = 1, width = 3, height = 1\<rparr>)"
  by (simp add: makeRegionTransparent_def floodFill_heap0 newUint8ClampedArray_def writeAt_def)
     (simp add: heap0_def img0_def)

lemma makeColorTransparent_heap0:
  "makeColorTransparent heap0 img0 (250, 250, 250) 10
     = (heap0 @ [[10, 20, 30, 255, 12, 20, 30, 200, 250, 250, 250, 0]],
        \<lparr>data = 1, width = 3, height = 1\<rparr>)"
  by (simp add: makeColorTransparent_def newUint8ClampedArray_def heap0_def img0_def
      makeColorTransparentLoop.simps pixelAt_def sqrt_le_iff_sq)

section \<open>Claims on the palette mapping and the transparency operations\<close>



text \<open>
  C3: mapping is idempotent. For every well-formed buffer and every non-empty palette of
  colours with integer channels in \<open>[0, 255]\<close>, mapping the mapped buffer again returns a
  buffer with the same bytes and dimensions as the mapped buffer.
\<close>

theorem posterizeReplace_idempotent:
  assumes "wfImage hp img" and "palette \<noteq> []" and "validPalette palette"
  shows "\<exists>hp1 out1 hp2 out2.
           posterizeReplace hp img palette = Inr (hp1, out1)
         \<and> posterizeReplace hp1 out1 palette = Inr (hp2, out2)
         \<and> hp2 ! data out2 = hp1 ! data out1
         \<and> width out2 = width out1 \<and> height out2 = height out1"
proof -
  let ?d = "hp ! data img" and ?n = "width img * height img"
  from assms(1) have a: "data img < length hp" and l: "length ?d = 4 * ?n"
    by (simp_all add: wfImage_def)
  from posterizeReplace_result[OF refl l assms(2)] obtain d1 where
    res1: "posterizeReplace hp img palette
            = Inr (hp @ [d1], \<lparr>data = length hp, width = width img, height = height img\<rparr>)"
    and len1: "length d1 = 4 * ?n"
    and px1: "\<And>q. q < ?n \<Longrightarrow> d1 ! (4 * q + 3) = ?d ! (4 * q + 3)
                \<and> (if 128 \<le> ?d ! (4 * q + 3) then recolored palette ?d d1 q
                    else sameRGB ?d d1 q)"
    by blast
  let ?hp1 = "hp @ [d1]"
  let ?out1 = "\<lparr>data = length hp, width = width img, height = height img\<rparr>"
  have a1: "?hp1 ! data ?out1 = d1" by simp
  from posterizeReplace_result[OF a1 len1 assms(2)] obtain d2 where
    res2: "posterizeReplace ?hp1 ?out1 palette
            = Inr (?hp1 @ [d2], \<lparr>data = length ?hp1, width = width ?out1,
                                   height = height ?out1\<rparr>)"
    and len2: "length d2 = 4 * ?n"
    and px2: "\<And>q. q < ?n \<Longrightarrow> d2 ! (4 * q + 3) = d1 ! (4 * q + 3)
                \<and> (if 128 \<le> d1 ! (4 * q + 3) then recolored palette d1 d2 q
                    else sameRGB d1 d2 q)"
    by blast
  have "d2 = d1"
  proof (rule quad_list_eq[OF len2 len1])
    fix q assume q: "q < ?n"
    show "d2 ! (4 * q) = d1 ! (4 * q) \<and> d2 ! (4 * q + 1) = d1 ! (4 * q + 1)
            \<and> d2 ! (4 * q + 2) = d1 ! (4 * q + 2) \<and> d2 ! (4 * q + 3) = d1 ! (4 * q + 3)"
    proof (cases "128 \<le> ?d ! (4 * q + 3)")
      case True
      with px1[OF q] have r1: "recolored palette ?d d1 q" and al: "128 \<le> d1 ! (4 * q + 3)"
        by simp_all
      with px2[OF q] have r2: "recolored palette d1 d2 q" by simp
      from recolored_valid[OF r1 assms(2,3)] obtain j where
        j: "j < length palette" "pixelAt d1 (4 * q) = palette ! j"
        by (auto simp: firstNearest_def)
      from recolored_valid[OF r2 assms(2,3)] obtain j' where
        j': "firstNearest (palette ! j) palette j'" "pixelAt d2 (4 * q) = palette ! j'"
        unfolding j(2) by blast
      from j'(1) j(1) have "colorDistance (palette ! j) (palette ! j')
                             \<le> colorDistance (palette ! j) (palette ! j)"
        by (simp add: firstNearest_def)
      also have "\<dots> = 0" by (simp add: colorDistance_zero_iff)
      finally have "colorDistance (palette ! j) (palette ! j') = 0"
        using colorDistance_nonneg[of "palette ! j" "palette ! j'"] by simp
      then have "palette ! j' = palette ! j" by (simp add: colorDistance_zero_iff)
      with j j' have "pixelAt d2 (4 * q) = pixelAt d1 (4 * q)" by simp
      with px2[OF q] show ?thesis by (simp add: pixelAt_def)
    next
      case False
      with px1[OF q] have "\<not> 128 \<le> d1 ! (4 * q + 3)" by simp
      with px2[OF q] show ?thesis by (simp add: sameRGB_def)
    qed
  qed
  with res1 res2 show ?thesis by (simp add: nth_append)
qed

theorem posterizeReplace_idempotent_witness:
  "wfImage heap0 img0 \<and> palette0 \<noteq> [] \<and> validPalette palette0
   \<and> (\<exists>hp1 out1 hp2 out2.
           posterizeReplace heap0 img0 palette0 = Inr (hp1, out1)
         \<and> posterizeReplace hp1 out1 palette0 = Inr (hp2, out2)
         \<and> hp2 ! data out2 = hp1 ! data out1
         \<and> width out2 = width out1 \<and> height out2 = height out1)"
  using posterizeReplace_idempotent[OF wfImage_heap0 palette0_nonempty validPalette_palette0]
    wfImage_heap0 palette0_nonempty validPalette_palette0
  by blast

text \<open>
  C5: for every well-formed buffer, each of \<^verbatim>\<open>posterizeReplace\<close> (whenever it returns,
  which it does for every non-empty palette), \<^verbatim>\<open>makeRegionTransparent\<close> and
  \<^verbatim>\<open>makeColorTransparent\<close> returns a buffer in which the alpha of every pixel is the
  alpha of that pixel in the input or 0, so never greater than in the input.
\<close>

theorem pixelMapper_alpha_kept_or_erased:
  assumes "wfImage hp img"
  shows "(palette \<noteq> [] \<longrightarrow> (\<exists>hp' out. posterizeReplace hp img palette = Inr (hp', out)))
       \<and> (\<forall>hp' out. posterizeReplace hp img palette = Inr (hp', out) \<longrightarrow>
             alphaKeptOrErased (hp ! data img) (hp' ! data out) (width img * height img))
       \<and> (case makeRegionTransparent hp img x y tolerance of (hp', out) \<Rightarrow>
             alphaKeptOrErased (hp ! data img) (hp' ! data out) (width img * height img))
       \<and> (case makeColorTransparent hp img targetColor tolerance' of (hp', out) \<Rightarrow>
             alphaKeptOrErased (hp ! data img) (hp' ! data out) (width img * height img))"
proof (intro conjI allI impI)
  let ?d = "hp ! data img" and ?n = "width img * height img"
  from assms have l: "length ?d = 4 * ?n" by (simp add: wfImage_def)
  show "\<exists>hp' out. posterizeReplace hp img palette = Inr (hp', out)" if "palette \<noteq> []"
    using posterizeReplace_result[OF refl l that] by blast
  show "alphaKeptOrErased ?d (hp' ! data out) ?n"
    if r: "posterizeReplace hp img palette = Inr (hp', out)" for hp' out
  proof (cases "palette = []")
    case True
    from r obtain d' where d': "posterizeLoop [] 0 ?d = Inr d'" "hp' = hp @ [d']"
      "data out = length hp"
      by (auto simp: True posterizeReplace_unfold split: sum.splits)
    from posterizeLoop_empty_palette[OF l, of 0 d'] d'(1) have "d' = ?d" by simp
    with d'(2,3) show ?thesis by (simp add: alphaKeptOrErased_def)
  next
    case False
    from posterizeReplace_result[OF refl l False] r obtain d' where
      "hp' = hp @ [d']" "data out = length hp"
      "\<And>q. q < ?n \<Longrightarrow> d' ! (4 * q + 3) = ?d ! (4 * q + 3)"
      by auto
    then show ?thesis by (simp add: alphaKeptOrErased_same)
  qed
  define erase where
    "erase = (\<lambda>(px, py) d. let idx = (py * int (width img) + px) * 4 in writeAt d (idx + 3) 0)"
  define dr where "dr = fold erase (floodFill hp img x y tolerance) ?d"
  have "alphaKeptOrErased ?d dr ?n"
    using eraseRegion_pixels(2)[OF l, of _ "int (width img)" "floodFill hp img x y tolerance"]
    unfolding dr_def erase_def by (rule alphaKeptOrErased_cond)
  then show "case makeRegionTransparent hp img x y tolerance of (hp', out) \<Rightarrow>
             alphaKeptOrErased ?d (hp' ! data out) ?n"
    by (simp add: makeRegionTransparent_result[OF refl] dr_def erase_def)
  define dc where "dc = makeColorTransparentLoop targetColor tolerance' 0 ?d"
  from makeColorTransparentLoop_spec[OF l, of 0 targetColor tolerance']
  have "\<And>q. q < ?n \<Longrightarrow> dc ! (4 * q + 3)
          = (if colorDistance (pixelAt ?d (4 * q)) targetColor \<le> tolerance' then 0
             else ?d ! (4 * q + 3))"
    by (simp add: dc_def)
  then have "alphaKeptOrErased ?d dc ?n" by (rule alphaKeptOrErased_cond)
  then show "case makeColorTransparent hp img targetColor tolerance' of (hp', out) \<Rightarrow>
             alphaKeptOrErased ?d (hp' ! data out) ?n"
    by (simp add: makeColorTransparent_result[OF refl] dc_def)
qed

theorem pixelMapper_alpha_kept_or_erased_witness:
  "wfImage heap0 img0 \<and> palette0 \<noteq> []
   \<and> posterizeReplace heap0 img0 palette0
       = Inr (heap0 @ [[0, 0, 0, 255, 0, 0, 0, 200, 250, 250, 250, 100]],
              \<lparr>data = 1, width = 3, height = 1\<rparr>)
   \<and> alphaKeptOrErased (heap0 ! data img0) [0, 0, 0, 255, 0, 0, 0, 200, 250, 250, 250, 100] 3
   \<and> makeRegionTransparent heap0 img0 0 0 30
       = (heap0 @ [[10, 20, 30, 0, 12, 20, 30, 0, 250, 250, 250, 100]],
          \<lparr>data = 1, width = 3, height = 1\<rparr>)
   \<and> alphaKeptOrErased (heap0 ! data img0) [10, 20, 30, 0, 12, 20, 30, 0, 250, 250, 250, 100] 3
   \<and> makeColorTransparent heap0 img0 (250, 250, 250) 10
       = (heap0 @ [[10, 20, 30, 255, 12, 20, 30, 200, 250, 250, 250, 0]],
          \<lparr>data = 1, width = 3, height = 1\<rparr>)
   \<and> alphaKeptOrErased (heap0 ! data img0) [10, 20, 30, 255, 12, 20, 30, 200, 250, 250, 250, 0] 3"
proof -
  have n: "width img0 * height img0 = 3" by (simp add: img0_def)
  from pixelMapper_alpha_kept_or_erased[OF wfImage_heap0, where palette = palette0
      and x = 0 and y = 0 and tolerance = 30 and targetColor = "(250, 250, 250)"
      and tolerance' = 10]
  have "alphaKeptOrErased (heap0 ! data img0)
          [0, 0, 0, 255, 0, 0, 0, 200, 250, 250, 250, 100] 3"
    and "alphaKeptOrErased (heap0 ! data img0)
          [10, 20, 30, 0, 12, 20, 30, 0, 250, 250, 250, 100] 3"
    and "alphaKeptOrErased (heap0 ! data img0)
          [10, 20, 30, 255, 12, 20, 30, 200, 250, 250, 250, 0] 3"
    unfolding posterizeReplace_heap0 makeRegionTransparent_heap0 makeColorTransparent_heap0 n
    by (simp_all add: heap0_def)
  with wfImage_heap0 palette0_nonempty posterizeReplace_heap0 makeRegionTransparent_heap0
    makeColorTransparent_heap0
  show ?thesis by simp
qed

text \<open>
  C10: for every well-formed buffer and all arguments, \<^verbatim>\<open>makeRegionTransparent\<close> and
  \<^verbatim>\<open>makeColorTransparent\<close> return a buffer of the same dimensions in which every pixel has
  the red, green and blue bytes of the input pixel; the alpha is 0 for the pixels of the
  flood-filled region (for the pixels within the tolerance of the target colour) and the
  input's alpha for all others; and every array that was in the store before the call,
  the input buffer's among them, is unchanged.
\<close>

theorem transparency_changes_alpha_only:
  assumes "wfImage hp img"
  shows "(case makeRegionTransparent hp img x y tolerance of (hp', out) \<Rightarrow>
            width out = width img \<and> height out = height img
            \<and> length (hp' ! data out) = length (hp ! data img)
            \<and> (\<forall>p<width img * height img.
                  rgbAt (hp' ! data out) p = rgbAt (hp ! data img) p
                  \<and> alphaAt (hp' ! data out) p
                      = (if inRegion (int (width img)) (floodFill hp img x y tolerance) p then 0
                         else alphaAt (hp ! data img) p))
            \<and> (\<forall>a<length hp. hp' ! a = hp ! a))
       \<and> (case makeColorTransparent hp img targetColor tolerance' of (hp', out) \<Rightarrow>
            width out = width img \<and> height out = height img
            \<and> length (hp' ! data out) = length (hp ! data img)
            \<and> (\<forall>p<width img * height img.
                  rgbAt (hp' ! data out) p = rgbAt (hp ! data img) p
                  \<and> alphaAt (hp' ! data out) p
                      = (if colorDistance (rgbAt (hp ! data img) p) targetColor \<le> tolerance' then 0
                         else alphaAt (hp ! data img) p))
            \<and> (\<forall>a<length hp. hp' ! a = hp ! a))"
proof -
  let ?d = "hp ! data img" and ?n = "width img * height img"
  from assms have l: "length ?d = 4 * ?n" by (simp add: wfImage_def)
  have keep: "\<forall>a<length hp. (hp @ [d']) ! a = hp ! a" for d' :: "nat list"
    by (simp add: nth_append)
  define erase where
    "erase = (\<lambda>(px, py) d. let idx = (py * int (width img) + px) * 4 in writeAt d (idx + 3) 0)"
  define dr where "dr = fold erase (floodFill hp img x y tolerance) ?d"
  have lr: "length dr = length ?d"
    using eraseRegion_fold[of "int (width img)" "floodFill hp img x y tolerance" ?d]
    by (simp add: dr_def erase_def)
  have pr: "rgbAt dr p = rgbAt ?d p \<and> alphaAt dr p
              = (if inRegion (int (width img)) (floodFill hp img x y tolerance) p then 0
                 else alphaAt ?d p)" if "p < ?n" for p
    using eraseRegion_pixels[OF l that, of "int (width img)" "floodFill hp img x y tolerance"]
    by (simp add: dr_def erase_def sameRGB_rgbAt alphaAt_def)
  have region: "makeRegionTransparent hp img x y tolerance
           = (hp @ [dr], \<lparr>data = length hp, width = width img, height = height img\<rparr>)"
    by (simp add: makeRegionTransparent_result[OF refl] dr_def erase_def)
  define dc where "dc = makeColorTransparentLoop targetColor tolerance' 0 ?d"
  from makeColorTransparentLoop_spec[OF l, of 0 targetColor tolerance']
  have lc: "length dc = length ?d"
    and pc0: "\<And>q. q < ?n \<Longrightarrow> sameRGB ?d dc q \<and> dc ! (4 * q + 3)
          = (if colorDistance (pixelAt ?d (4 * q)) targetColor \<le> tolerance' then 0
             else ?d ! (4 * q + 3))"
    by (simp_all add: dc_def l)
  have pc: "rgbAt dc p = rgbAt ?d p \<and> alphaAt dc p
              = (if colorDistance (rgbAt ?d p) targetColor \<le> tolerance' then 0
                 else alphaAt ?d p)" if "p < ?n" for p
    using pc0[OF that] by (simp add: sameRGB_rgbAt alphaAt_def) (simp add: rgbAt_def)
  have color: "makeColorTransparent hp img targetColor tolerance'
           = (hp @ [dc], \<lparr>data = length hp, width = width img, height = height img\<rparr>)"
    by (simp add: makeColorTransparent_result[OF refl] dc_def)
  show ?thesis
    unfolding region color using lr pr lc pc keep by simp
qed

theorem transparency_changes_alpha_only_witness:
  "wfImage heap0 img0
   \<and> makeRegionTransparent heap0 img0 0 0 30
       = (heap0 @ [[10, 20, 30, 0, 12, 20, 30, 0, 250, 250, 250, 100]],
          \<lparr>data = 1, width = 3, height = 1\<rparr>)
   \<and> rgbAt [10, 20, 30, 0, 12, 20, 30, 0, 250, 250, 250, 100] 1 = rgbAt (heap0 ! data img0) 1
   \<and> alphaAt [10, 20, 30, 0, 12, 20, 30, 0, 250, 250, 250, 100] 1 = 0
   \<and> alphaAt [10, 20, 30, 0, 12, 20, 30, 0, 250, 250, 250, 100] 2 = alphaAt (heap0 ! data img0) 2
   \<and> (heap0 @ [[10, 20, 30, 0, 12, 20, 30, 0, 250, 250, 250, 100]]) ! data img0
       = heap0 ! data img0
   \<and> makeColorTransparent heap0 img0 (250, 250, 250) 10
       = (heap0 @ [[10, 20, 30, 255, 12, 20, 30, 200, 250, 250, 250, 0]],
          \<lparr>data = 1, width = 3, height = 1\<rparr>)
   \<and> rgbAt [10, 20, 30, 255, 12, 20, 30, 200, 250, 250, 250, 0] 2 = rgbAt (heap0 ! data img0) 2
   \<and> alphaAt [10, 20, 30, 255, 12, 20, 30, 200, 250, 250, 250, 0] 2 = 0
   \<and> alphaAt [10, 20, 30, 255, 12, 20, 30, 200, 250, 250, 250, 0] 1 = alphaAt (heap0 ! data img0) 1
   \<and> (heap0 @ [[10, 20, 30, 255, 12, 20, 30, 200, 250, 250, 250, 0]]) ! data img0
       = heap0 ! data img0"
proof -
  have n: "width img0 * height img0 = 3" and a: "data img0 < length heap0"
    by (simp_all add: img0_def heap0_def)
  have r1: "inRegion (int (width img0)) (floodFill heap0 img0 0 0 30) 1"
    and r2: "\<not> inRegion (int (width img0)) (floodFill heap0 img0 0 0 30) 2"
    unfolding floodFill_heap0 by (simp_all add: inRegion_def img0_def)
  have c2: "colorDistance (rgbAt (heap0 ! data img0) 2) (250, 250, 250) \<le> 10"
    and c1: "\<not> colorDistance (rgbAt (heap0 ! data img0) 1) (250, 250, 250) \<le> 10"
    by (simp_all add: heap0_def img0_def rgbAt_def pixelAt_def sqrt_le_iff_sq)
  have sel: "(heap0 @ [d']) ! data \<lparr>data = 1, width = 3, height = 1\<rparr> = d'" for d' :: "nat list"
    by (simp add: heap0_def)
  note T = transparency_changes_alpha_only[OF wfImage_heap0, where x = 0 and y = 0
      and tolerance = 30 and targetColor = "(250, 250, 250)" and tolerance' = 10,
      unfolded makeRegionTransparent_heap0 makeColorTransparent_heap0 prod.case n sel]
  note R = T[THEN conjunct1, THEN conjunct2, THEN conjunct2, THEN conjunct2]
  note C = T[THEN conjunct2, THEN conjunct2, THEN conjunct2, THEN conjunct2]
  note Rp = R[THEN conjunct1, rule_format] and Ra = R[THEN conjunct2, rule_format, OF a]
  note Cp = C[THEN conjunct1, rule_format] and Ca = C[THEN conjunct2, rule_format, OF a]
  from Rp[of 1] r1
  have f1: "rgbAt [10, 20, 30, 0, 12, 20, 30, 0, 250, 250, 250, 100] 1 = rgbAt (heap0 ! data img0) 1"
    and f2: "alphaAt [10, 20, 30, 0, 12, 20, 30, 0, 250, 250, 250, 100] 1 = 0"
    by simp_all
  from Rp[of 2] r2
  have f3: "alphaAt [10, 20, 30, 0, 12, 20, 30, 0, 250, 250, 250, 100] 2
            = alphaAt (heap0 ! data img0) 2"
    by simp
  from Cp[of 2] c2
  have g1: "rgbAt [10, 20, 30, 255, 12, 20, 30, 200, 250, 250, 250, 0] 2 = rgbAt (heap0 ! data img0) 2"
    and g2: "alphaAt [10, 20, 30, 255, 12, 20, 30, 200, 250, 250, 250, 0] 2 = 0"
    by simp_all
  from Cp[of 1] c1
  have g3: "alphaAt [10, 20, 30, 255, 12, 20, 30, 200, 250, 250, 250, 0] 1
            = alphaAt (heap0 ! data img0) 1"
    by simp
  show ?thesis
    by (intro conjI wfImage_heap0 makeRegionTransparent_heap0 makeColorTransparent_heap0
        f1 f2 f3 g1 g2 g3 Ra Ca)
qed

section \<open>Palette extraction\<close>

text \<open>
  Rounding to the nearest double. A number \<open>x\<close> with \<open>2 ^ 52 \<le> \<bar>x\<bar> * 2 ^ s < 2 ^ 53\<close> lies in
  the binade \<open>52 - s\<close>, where the doubles are the multiples of \<open>1 / 2 ^ s\<close>; \<open>fl x\<close> is
  the multiple nearest to \<open>x\<close>. The lemmas \<open>fl_dyadic\<close>, \<open>fl_dyadic_tie\<close> and \<open>fl_sqrt\<close>
  evaluate one rounding from the integer significand of its result, by comparisons of
  integers; \<open>round_near\<close> and \<open>jsRem_quotient\<close> do the same for \<^verbatim>\<open>Math.round\<close> and
  \<^verbatim>\<open>%\<close>.
\<close>

lemma binade_eq:
  assumes lo: "2 powi k \<le> \<bar>x\<bar>" and hi: "\<bar>x\<bar> < 2 powi (k + 1)" and k: "- 1074 \<le> k"
  shows "binade x = k"
proof -
  define c :: nat where "c = 1074"
  define n where "n = nat (k + int c)"
  define N where "N = nat \<lfloor>\<bar>x\<bar> * 2 ^ c\<rfloor>"
  have kn: "k + int c = int n" using k by (simp add: n_def c_def)
  have p: "(2::real) powi k * 2 ^ c = 2 ^ n"
  proof -
    have "(2::real) powi k * 2 ^ c = 2 powi k * 2 powi (int c)" by (simp only: power_int_of_nat)
    also have "\<dots> = 2 powi (k + int c)" by (simp add: power_int_add)
    also have "\<dots> = 2 ^ n" by (simp only: kn power_int_of_nat)
    finally show ?thesis .
  qed
  have p': "(2::real) powi (k + 1) * 2 ^ c = 2 ^ Suc n"
  proof -
    have "(2::real) powi (k + 1) = 2 powi k * 2" by (simp add: power_int_add)
    then show ?thesis using p by simp
  qed
  have c0: "(0::real) < 2 ^ c" by simp
  have lo': "2 ^ n \<le> \<bar>x\<bar> * 2 ^ c"
    using mult_right_mono[OF lo less_imp_le[OF c0]] by (simp only: p)
  have hi': "\<bar>x\<bar> * 2 ^ c < 2 ^ Suc n"
    using mult_strict_right_mono[OF hi c0] by (simp only: p')
  have F1: "(2::int) ^ n \<le> \<lfloor>\<bar>x\<bar> * 2 ^ c\<rfloor>"
    using lo' by (simp add: le_floor_iff)
  have "nat ((2::int) ^ n) \<le> N" unfolding N_def by (rule nat_mono[OF F1])
  then have N1: "2 ^ n \<le> N" by (simp add: nat_power_eq)
  have F2: "\<lfloor>\<bar>x\<bar> * 2 ^ c\<rfloor> < (2::int) ^ Suc n"
    using hi' by (simp add: floor_less_iff)
  have F0: "0 \<le> \<lfloor>\<bar>x\<bar> * 2 ^ c\<rfloor>" by simp
  have "int N < int (2 ^ Suc n)" unfolding N_def using F2 F0 by simp
  then have N2: "N < 2 ^ Suc n" by (simp only: of_nat_less_iff)
  have "floorlog 2 N = Suc n"
    using floorlog_leI[OF N2] floorlog_ge_SucI[OF N1] by simp
  then have "binade x = int (Suc n) - 1075"
    unfolding binade_def N_def c_def by (simp only:)
  also have "\<dots> = k" using kn by (simp add: c_def)
  finally show ?thesis .
qed





lemma nearestEven_0: "nearestEven 0 = 0"
  by (simp add: nearestEven_def)

lemma fl_0: "fl 0 = 0"
  unfolding fl_def Let_def by (simp only: div_0 nearestEven_0 of_int_0 mult_zero_left)



lemma fl_binade:
  assumes "2 powi k \<le> \<bar>x\<bar>" and "\<bar>x\<bar> < 2 powi (k + 1)" and "- 1022 \<le> k"
  shows "fl x = of_int (nearestEven (x / 2 powi (k - 52))) * 2 powi (k - 52)"
proof -
  have "binade x = k" using assms by (intro binade_eq) simp_all
  moreover have "max k (- 1022) = k" using assms(3) by simp
  ultimately show ?thesis unfolding fl_def Let_def by (simp only:)
qed

lemma nearestEven_eqI:
  assumes "\<bar>v - of_int n\<bar> < 1 / 2"
  shows "nearestEven v = n"
proof -
  from assms have lo: "of_int n - 1 / 2 < v" and hi: "v < of_int n + 1 / 2" by linarith+
  have "\<lfloor>v\<rfloor> = n \<or> \<lfloor>v\<rfloor> = n - 1"
  proof -
    have "n - 1 \<le> \<lfloor>v\<rfloor>" using lo by (simp add: le_floor_iff)
    moreover have "\<lfloor>v\<rfloor> \<le> n" using hi by (simp add: floor_le_iff)
    ultimately show ?thesis by linarith
  qed
  then show ?thesis
  proof
    assume f: "\<lfloor>v\<rfloor> = n"
    with hi show ?thesis by (simp add: nearestEven_def)
  next
    assume f: "\<lfloor>v\<rfloor> = n - 1"
    with lo show ?thesis by (simp add: nearestEven_def)
  qed
qed

lemma nearestEven_tie:
  assumes "v = of_int f + 1 / 2"
  shows "nearestEven v = (if even f then f else f + 1)"
proof -
  have "\<lfloor>v\<rfloor> = f" unfolding assms by (simp add: floor_unique)
  then show ?thesis using assms by (simp add: nearestEven_def)
qed

lemma fl_scaled:
  assumes "2 ^ 52 \<le> \<bar>x\<bar> * 2 ^ s" and "\<bar>x\<bar> * 2 ^ s < 2 * 2 ^ 52" and "s \<le> 1074"
  shows "fl x = of_int (nearestEven (x * 2 ^ s)) / 2 ^ s"
proof -
  define k :: int where "k = 52 - int s"
  have q: "(2::real) powi k = 2 ^ 52 / 2 ^ s"
  proof -
    have "(2::real) powi k = 2 powi 52 * 2 powi (- int s)"
      unfolding k_def by (subst power_int_add[symmetric]) simp_all
    then show ?thesis by (simp add: power_int_minus divide_inverse)
  qed
  have q': "(2::real) powi (k + 1) = 2 * 2 ^ 52 / 2 ^ s"
  proof -
    have "(2::real) powi (k + 1) = 2 powi k * 2 powi 1"
      by (rule power_int_add) simp
    then show ?thesis unfolding q by simp
  qed
  have lo: "2 powi k \<le> \<bar>x\<bar>"
    unfolding q using assms(1) by (simp add: pos_divide_le_eq)
  have hi: "\<bar>x\<bar> < 2 powi (k + 1)"
    unfolding q' using assms(2) by (simp add: pos_less_divide_eq)
  have "- 1022 \<le> k" using assms(3) by (simp add: k_def)
  from fl_binade[OF lo hi this]
  have "fl x = of_int (nearestEven (x / 2 powi (k - 52))) * 2 powi (k - 52)" .
  moreover have "k - 52 = - int s" by (simp add: k_def)
  ultimately show ?thesis
    by (simp add: power_int_minus divide_inverse)
qed

lemma fl_dyadic:
  assumes "2 ^ 52 \<le> \<bar>x\<bar> * 2 ^ s" and "\<bar>x\<bar> * 2 ^ s < 2 * 2 ^ 52" and "s \<le> 1074"
    and "\<bar>x * 2 ^ s - of_int n\<bar> < 1 / 2" and "v = of_int n / 2 ^ s"
  shows "fl x = v"
  using fl_scaled[OF assms(1-3)] nearestEven_eqI[OF assms(4)] assms(5) by simp

lemma fl_dyadic_tie:
  assumes "2 ^ 52 \<le> \<bar>x\<bar> * 2 ^ s" and "\<bar>x\<bar> * 2 ^ s < 2 * 2 ^ 52" and "s \<le> 1074"
    and "x * 2 ^ s = of_int f + 1 / 2" and "v = of_int (if even f then f else f + 1) / 2 ^ s"
  shows "fl x = v"
  using fl_scaled[OF assms(1-3)] nearestEven_tie[OF assms(4)] assms(5) by simp

lemma fl_sqrt:
  assumes "0 \<le> y" and "0 < n"
    and "(2 ^ 52)\<^sup>2 \<le> y * 4 ^ s" and "y * 4 ^ s < (2 * 2 ^ 52)\<^sup>2" and "s \<le> 1074"
    and "(2 * of_int n - 1)\<^sup>2 < 4 * (y * 4 ^ s)" and "4 * (y * 4 ^ s) < (2 * of_int n + 1)\<^sup>2"
    and "v = of_int n / 2 ^ s"
  shows "fl (sqrt y) = v"
proof -
  define r where "r = sqrt y * 2 ^ s"
  have r0: "0 \<le> r" using assms(1) by (simp add: r_def)
  have r2: "r\<^sup>2 = y * 4 ^ s"
    using assms(1) by (simp add: r_def power_mult_distrib power2_eq_square[of "2 ^ s"]
        power_mult_distrib[symmetric])
  have "(2 ^ 52)\<^sup>2 \<le> r\<^sup>2" using assms(3) by (simp only: r2)
  then have lo: "2 ^ 52 \<le> r" by (rule power2_le_imp_le) (rule r0)
  have "r\<^sup>2 < (2 * 2 ^ 52)\<^sup>2" using assms(4) by (simp only: r2)
  then have hi: "r < 2 * 2 ^ 52" by (rule power2_less_imp_less) simp
  have "(2 * r)\<^sup>2 = 4 * (y * 4 ^ s)" by (simp add: r2 power_mult_distrib)
  with assms(6,7) have "(2 * of_int n - 1)\<^sup>2 < (2 * r)\<^sup>2" "(2 * r)\<^sup>2 < (2 * of_int n + 1)\<^sup>2"
    by (simp_all only:)
  then have a: "2 * of_int n - 1 < 2 * r" and b: "2 * r < 2 * of_int n + 1"
    using r0 assms(2) by (auto intro: power2_less_imp_less)
  have "\<bar>r - of_int n\<bar> < 1 / 2" using a b by linarith
  then have "\<bar>sqrt y * 2 ^ s - of_int n\<bar> < 1 / 2" by (simp only: r_def)
  moreover have "\<bar>sqrt y\<bar> * 2 ^ s = r" using assms(1) by (simp add: r_def)
  ultimately show ?thesis using lo hi assms(5,8) by (intro fl_dyadic[where s = s and n = n]) simp_all
qed

lemma round_near:
  assumes "of_int n - 1 / 2 \<le> v" and "v < of_int n + 1 / 2"
  shows "round v = n"
  unfolding round_def using assms by (intro floor_unique) simp_all

lemma jsRem_quotient:
  assumes "0 < b" and "0 \<le> q" and "b * of_int q \<le> a" and "a < b * (of_int q + 1)"
    and "v = a - b * of_int q"
  shows "jsRem a b = v"
proof -
  have "of_int q \<le> a / b" using assms by (simp add: pos_le_divide_eq mult.commute)
  moreover have "a / b < of_int q + 1" using assms by (simp add: pos_divide_less_eq mult.commute)
  ultimately have "\<lfloor>a / b\<rfloor> = q" by (intro floor_unique) simp_all
  moreover have "\<not> a / b < 0" using \<open>of_int q \<le> a / b\<close> assms(2) by simp
  ultimately show ?thesis using assms(5) by (simp add: jsRem_def)
qed

text \<open>
  The fallback palette of the source: its length, and its colours for up to 16 hues.
\<close>

lemma fold_append_map: "fold (\<lambda>i acc. acc @ [f i]) xs acc = acc @ map f xs"
  by (induction xs arbitrary: acc) simp_all

lemma generateDefaultPalette_map:
  "generateDefaultPalette k
     = map (\<lambda>i. hslToRgb (fl (fl (real i / real k) * 360)) 70 50) [0..<k]"
  by (simp add: generateDefaultPalette_def Let_def fold_append_map)


text \<open>
  \<^verbatim>\<open>hslToRgb\<close> at saturation 70 and lightness 50: the doubles of \<open>s\<close>, \<open>l\<close>, \<open>c\<close> and \<open>m\<close>,
  and the two channels that do not depend on the hue.
\<close>

lemma hslToRgb_70_50:
  "hslToRgb h 70 50 =
     (let x = fl (3152519739159347 / 4503599627370496 * fl (1 - \<bar>fl (jsRem (fl (h / 60)) 2 - 1)\<bar>));
          v = of_int (round (fl (fl (x + 1351079888211149 / 9007199254740992) * 255)))
      in if h < 60 then (217, v, 38)
         else if h < 120 then (v, 217, 38)
         else if h < 180 then (38, 217, v)
         else if h < 240 then (38, v, 217)
         else if h < 300 then (v, 38, 217)
         else (217, 38, v))"
proof -
  have s: "fl (70 / 100) = 3152519739159347 / 4503599627370496"
    by (rule fl_dyadic[where s = 53 and n = "6305039478318694"]) simp_all
  have l: "fl (50 / 100) = 1 / 2"
    by (rule fl_dyadic[where s = 53 and n = "4503599627370496"]) simp_all
  have l2: "fl (2 * (1 / 2)) = 1"
    by (rule fl_dyadic[where s = 52 and n = "4503599627370496"]) simp_all
  have d: "fl (1 - 1) = 0"
    by (simp add: fl_0)
  have a: "fl (1 - \<bar>0\<bar>) = 1"
    by (rule fl_dyadic[where s = 52 and n = "4503599627370496"]) simp_all
  have c: "fl (1 * (3152519739159347 / 4503599627370496)) = 3152519739159347 / 4503599627370496"
    by (rule fl_dyadic[where s = 53 and n = "6305039478318694"]) simp_all
  have c2: "fl (3152519739159347 / 4503599627370496 / 2) = 3152519739159347 / 9007199254740992"
    by (rule fl_dyadic[where s = 54 and n = "6305039478318694"]) simp_all
  have m: "fl (1 / 2 - 3152519739159347 / 9007199254740992) = 1351079888211149 / 9007199254740992"
    by (rule fl_dyadic[where s = 55 and n = "5404319552844596"]) simp_all
  have cm: "fl (7656119366529843 / 9007199254740992) = 7656119366529843 / 9007199254740992"
    by (rule fl_dyadic[where s = 53 and n = "7656119366529843"]) simp_all
  have cs: "fl (1952310438465109965 / 9007199254740992) = 867 / 4"
    by (rule fl_dyadic[where s = 45 and n = "7626212650254336"]) simp_all
  have cr: "round (867 / 4 :: real) = 217"
    by (rule round_near) simp_all
  have m0: "fl (1351079888211149 / 9007199254740992) = 1351079888211149 / 9007199254740992"
    by (rule fl_dyadic[where s = 55 and n = "5404319552844596"]) simp_all
  have ms: "fl (344525371493842995 / 9007199254740992) = 5383208929591297 / 140737488355328"
    by (rule fl_dyadic[where s = 47 and n = "5383208929591297"]) simp_all
  have mr: "round (5383208929591297 / 140737488355328 :: real) = 38"
    by (rule round_near) simp_all
  show ?thesis
    unfolding hslToRgb_def Let_def s l l2 d a c c2 m
    by (simp add: cm cs cr m0 ms mr)
qed

text \<open>
  The colour of the hue \<^verbatim>\<open>(i / k) * 360\<close>, for every fraction \<open>i / k\<close> in lowest terms with
  \<open>k \<le> 16\<close>. Each proof follows the doubles of the source: \<open>f\<close> is the quotient, \<open>h\<close> the
  hue, \<open>t\<close> the hue divided by 60, \<open>r\<close> its remainder by 2, \<open>u\<close>, \<open>w\<close> and \<open>x\<close> the
  operations up to \<^verbatim>\<open>x\<close>, \<open>y\<close> and \<open>z\<close> the channel before \<^verbatim>\<open>Math.round\<close>, and \<open>n\<close> its
  rounding.
\<close>

lemma hsl_0_1:
  "hslToRgb (fl (fl 0 * 360)) 70 50 = (217, 38, 38)"
proof -
  have f: "fl 0 = 0"
    by (rule fl_0)
  have h: "fl (0 * 360) = 0"
    by (simp add: fl_0)
  have t: "fl (0 / 60) = 0"
    by (simp add: fl_0)
  have r: "jsRem (0) 2 = 0"
    by (rule jsRem_quotient[where q = 0]) simp_all
  have u: "fl (0 - 1) = - 1"
    by (rule fl_dyadic[where s = 52 and n = "- 4503599627370496"]) simp_all
  have w: "fl (1 - \<bar>- 1\<bar>) = 0"
    by (simp add: fl_0)
  have x: "fl (3152519739159347 / 4503599627370496 * 0) = 0"
    by (simp add: fl_0)
  have y: "fl (0 + 1351079888211149 / 9007199254740992) = 1351079888211149 / 9007199254740992"
    by (rule fl_dyadic[where s = 55 and n = "5404319552844596"]) simp_all
  have z: "fl (1351079888211149 / 9007199254740992 * 255) = 5383208929591297 / 140737488355328"
    by (rule fl_dyadic[where s = 47 and n = "5383208929591297"]) simp_all
  have n: "round (5383208929591297 / 140737488355328 :: real) = 38"
    by (rule round_near) simp_all
  show ?thesis
    unfolding hslToRgb_70_50 Let_def f h t r u w x y z n by simp
qed

lemma hsl_1_16:
  "hslToRgb (fl (fl (1 / 16) * 360)) 70 50 = (217, 105, 38)"
proof -
  have f: "fl (1 / 16) = 1 / 16"
    by (rule fl_dyadic[where s = 56 and n = "4503599627370496"]) simp_all
  have h: "fl (1 / 16 * 360) = 45 / 2"
    by (rule fl_dyadic[where s = 48 and n = "6333186975989760"]) simp_all
  have t: "fl (45 / 2 / 60) = 3 / 8"
    by (rule fl_dyadic[where s = 54 and n = "6755399441055744"]) simp_all
  have r: "jsRem (3 / 8) 2 = 3 / 8"
    by (rule jsRem_quotient[where q = 0]) simp_all
  have u: "fl (3 / 8 - 1) = - (5 / 8)"
    by (rule fl_dyadic[where s = 53 and n = "- 5629499534213120"]) simp_all
  have w: "fl (1 - \<bar>- (5 / 8)\<bar>) = 3 / 8"
    by (rule fl_dyadic[where s = 54 and n = "6755399441055744"]) simp_all
  have x: "fl (3152519739159347 / 4503599627370496 * (3 / 8)) = 1182194902184755 / 4503599627370496"
    by (rule fl_dyadic_tie[where s = 54 and f = "4728779608739020"]) simp_all
  have y: "fl (1182194902184755 / 4503599627370496 + 1351079888211149 / 9007199254740992) = 3715469692580659 / 9007199254740992"
    by (rule fl_dyadic[where s = 54 and n = "7430939385161318"]) simp_all
  have z: "fl (3715469692580659 / 9007199254740992 * 255) = 1683 / 16"
    by (rule fl_dyadic[where s = 46 and n = "7401912278188032"]) simp_all
  have n: "round (1683 / 16 :: real) = 105"
    by (rule round_near) simp_all
  show ?thesis
    unfolding hslToRgb_70_50 Let_def f h t r u w x y z n by simp
qed

lemma hsl_1_15:
  "hslToRgb (fl (fl (1 / 15) * 360)) 70 50 = (217, 110, 38)"
proof -
  have f: "fl (1 / 15) = 4803839602528529 / 72057594037927936"
    by (rule fl_dyadic[where s = 56 and n = "4803839602528529"]) simp_all
  have h: "fl (4803839602528529 / 72057594037927936 * 360) = 24"
    by (rule fl_dyadic[where s = 48 and n = "6755399441055744"]) simp_all
  have t: "fl (24 / 60) = 3602879701896397 / 9007199254740992"
    by (rule fl_dyadic[where s = 54 and n = "7205759403792794"]) simp_all
  have r: "jsRem (3602879701896397 / 9007199254740992) 2 = 3602879701896397 / 9007199254740992"
    by (rule jsRem_quotient[where q = 0]) simp_all
  have u: "fl (3602879701896397 / 9007199254740992 - 1) = - (5404319552844595 / 9007199254740992)"
    by (rule fl_dyadic[where s = 53 and n = "- 5404319552844595"]) simp_all
  have w: "fl (1 - \<bar>- (5404319552844595 / 9007199254740992)\<bar>) = 3602879701896397 / 9007199254740992"
    by (rule fl_dyadic[where s = 54 and n = "7205759403792794"]) simp_all
  have x: "fl (3152519739159347 / 4503599627370496 * (3602879701896397 / 9007199254740992)) = 5044031582654955 / 18014398509481984"
    by (rule fl_dyadic[where s = 54 and n = "5044031582654955"]) simp_all
  have y: "fl (5044031582654955 / 18014398509481984 + 1351079888211149 / 9007199254740992) = 7746191359077253 / 18014398509481984"
    by (rule fl_dyadic[where s = 54 and n = "7746191359077253"]) simp_all
  have z: "fl (7746191359077253 / 18014398509481984 * 255) = 7715932799080857 / 70368744177664"
    by (rule fl_dyadic[where s = 46 and n = "7715932799080857"]) simp_all
  have n: "round (7715932799080857 / 70368744177664 :: real) = 110"
    by (rule round_near) simp_all
  show ?thesis
    unfolding hslToRgb_70_50 Let_def f h t r u w x y z n by simp
qed

lemma hsl_1_14:
  "hslToRgb (fl (fl (1 / 14) * 360)) 70 50 = (217, 115, 38)"
proof -
  have f: "fl (1 / 14) = 2573485501354569 / 36028797018963968"
    by (rule fl_dyadic[where s = 56 and n = "5146971002709138"]) simp_all
  have h: "fl (2573485501354569 / 36028797018963968 * 360) = 7237927972559725 / 281474976710656"
    by (rule fl_dyadic[where s = 48 and n = "7237927972559725"]) simp_all
  have t: "fl (7237927972559725 / 281474976710656 / 60) = 7720456504063707 / 18014398509481984"
    by (rule fl_dyadic[where s = 54 and n = "7720456504063707"]) simp_all
  have r: "jsRem (7720456504063707 / 18014398509481984) 2 = 7720456504063707 / 18014398509481984"
    by (rule jsRem_quotient[where q = 0]) simp_all
  have u: "fl (7720456504063707 / 18014398509481984 - 1) = - (2573485501354569 / 4503599627370496)"
    by (rule fl_dyadic_tie[where s = 53 and f = "- 5146971002709139"]) simp_all
  have w: "fl (1 - \<bar>- (2573485501354569 / 4503599627370496)\<bar>) = 1930114126015927 / 4503599627370496"
    by (rule fl_dyadic[where s = 54 and n = "7720456504063708"]) simp_all
  have x: "fl (3152519739159347 / 4503599627370496 * (1930114126015927 / 4503599627370496)) = 5404319552844595 / 18014398509481984"
    by (rule fl_dyadic[where s = 54 and n = "5404319552844595"]) simp_all
  have y: "fl (5404319552844595 / 18014398509481984 + 1351079888211149 / 9007199254740992) = 8106479329266893 / 18014398509481984"
    by (rule fl_dyadic[where s = 54 and n = "8106479329266893"]) simp_all
  have z: "fl (8106479329266893 / 18014398509481984 * 255) = 459 / 4"
    by (rule fl_dyadic[where s = 46 and n = "8074813394386944"]) simp_all
  have n: "round (459 / 4 :: real) = 115"
    by (rule round_near) simp_all
  show ?thesis
    unfolding hslToRgb_70_50 Let_def f h t r u w x y z n by simp
qed

lemma hsl_1_13:
  "hslToRgb (fl (fl (1 / 13) * 360)) 70 50 = (217, 121, 38)"
proof -
  have f: "fl (1 / 13) = 1385722962267845 / 18014398509481984"
    by (rule fl_dyadic[where s = 56 and n = "5542891849071380"]) simp_all
  have h: "fl (1385722962267845 / 18014398509481984 * 360) = 1948672915689157 / 70368744177664"
    by (rule fl_dyadic[where s = 48 and n = "7794691662756628"]) simp_all
  have t: "fl (1948672915689157 / 70368744177664 / 60) = 4157168886803535 / 9007199254740992"
    by (rule fl_dyadic[where s = 54 and n = "8314337773607070"]) simp_all
  have r: "jsRem (4157168886803535 / 9007199254740992) 2 = 4157168886803535 / 9007199254740992"
    by (rule jsRem_quotient[where q = 0]) simp_all
  have u: "fl (4157168886803535 / 9007199254740992 - 1) = - (4850030367937457 / 9007199254740992)"
    by (rule fl_dyadic[where s = 53 and n = "- 4850030367937457"]) simp_all
  have w: "fl (1 - \<bar>- (4850030367937457 / 9007199254740992)\<bar>) = 4157168886803535 / 9007199254740992"
    by (rule fl_dyadic[where s = 54 and n = "8314337773607070"]) simp_all
  have x: "fl (3152519739159347 / 4503599627370496 * (4157168886803535 / 9007199254740992)) = 5820036441524949 / 18014398509481984"
    by (rule fl_dyadic[where s = 54 and n = "5820036441524949"]) simp_all
  have y: "fl (5820036441524949 / 18014398509481984 + 1351079888211149 / 9007199254740992) = 8522196217947247 / 18014398509481984"
    by (rule fl_dyadic[where s = 54 and n = "8522196217947247"]) simp_all
  have z: "fl (8522196217947247 / 18014398509481984 * 255) = 8488906388970891 / 70368744177664"
    by (rule fl_dyadic[where s = 46 and n = "8488906388970891"]) simp_all
  have n: "round (8488906388970891 / 70368744177664 :: real) = 121"
    by (rule round_near) simp_all
  show ?thesis
    unfolding hslToRgb_70_50 Let_def f h t r u w x y z n by simp
qed

lemma hsl_1_12:
  "hslToRgb (fl (fl (1 / 12) * 360)) 70 50 = (217, 128, 38)"
proof -
  have f: "fl (1 / 12) = 6004799503160661 / 72057594037927936"
    by (rule fl_dyadic[where s = 56 and n = "6004799503160661"]) simp_all
  have h: "fl (6004799503160661 / 72057594037927936 * 360) = 30"
    by (rule fl_dyadic[where s = 48 and n = "8444249301319680"]) simp_all
  have t: "fl (30 / 60) = 1 / 2"
    by (rule fl_dyadic[where s = 53 and n = "4503599627370496"]) simp_all
  have r: "jsRem (1 / 2) 2 = 1 / 2"
    by (rule jsRem_quotient[where q = 0]) simp_all
  have u: "fl (1 / 2 - 1) = - (1 / 2)"
    by (rule fl_dyadic[where s = 53 and n = "- 4503599627370496"]) simp_all
  have w: "fl (1 - \<bar>- (1 / 2)\<bar>) = 1 / 2"
    by (rule fl_dyadic[where s = 53 and n = "4503599627370496"]) simp_all
  have x: "fl (3152519739159347 / 4503599627370496 * (1 / 2)) = 3152519739159347 / 9007199254740992"
    by (rule fl_dyadic[where s = 54 and n = "6305039478318694"]) simp_all
  have y: "fl (3152519739159347 / 9007199254740992 + 1351079888211149 / 9007199254740992) = 1 / 2"
    by (rule fl_dyadic[where s = 53 and n = "4503599627370496"]) simp_all
  have z: "fl (1 / 2 * 255) = 255 / 2"
    by (rule fl_dyadic[where s = 46 and n = "8972014882652160"]) simp_all
  have n: "round (255 / 2 :: real) = 128"
    by (rule round_near) simp_all
  show ?thesis
    unfolding hslToRgb_70_50 Let_def f h t r u w x y z n by simp
qed

lemma hsl_1_11:
  "hslToRgb (fl (fl (1 / 11) * 360)) 70 50 = (217, 136, 38)"
proof -
  have f: "fl (1 / 11) = 3275345183542179 / 36028797018963968"
    by (rule fl_dyadic[where s = 56 and n = "6550690367084358"]) simp_all
  have h: "fl (3275345183542179 / 36028797018963968 * 360) = 4605954164356189 / 140737488355328"
    by (rule fl_dyadic[where s = 47 and n = "4605954164356189"]) simp_all
  have t: "fl (4605954164356189 / 140737488355328 / 60) = 1228254443828317 / 2251799813685248"
    by (rule fl_dyadic[where s = 53 and n = "4913017775313268"]) simp_all
  have r: "jsRem (1228254443828317 / 2251799813685248) 2 = 1228254443828317 / 2251799813685248"
    by (rule jsRem_quotient[where q = 0]) simp_all
  have u: "fl (1228254443828317 / 2251799813685248 - 1) = - (1023545369856931 / 2251799813685248)"
    by (rule fl_dyadic[where s = 54 and n = "- 8188362958855448"]) simp_all
  have w: "fl (1 - \<bar>- (1023545369856931 / 2251799813685248)\<bar>) = 1228254443828317 / 2251799813685248"
    by (rule fl_dyadic[where s = 53 and n = "4913017775313268"]) simp_all
  have x: "fl (3152519739159347 / 4503599627370496 * (1228254443828317 / 2251799813685248)) = 6878224885438575 / 18014398509481984"
    by (rule fl_dyadic[where s = 54 and n = "6878224885438575"]) simp_all
  have y: "fl (6878224885438575 / 18014398509481984 + 1351079888211149 / 9007199254740992) = 1197548082732609 / 2251799813685248"
    by (rule fl_dyadic_tie[where s = 53 and f = "4790192330930436"]) simp_all
  have z: "fl (1197548082732609 / 2251799813685248 * 255) = 4771480642137739 / 35184372088832"
    by (rule fl_dyadic[where s = 45 and n = "4771480642137739"]) simp_all
  have n: "round (4771480642137739 / 35184372088832 :: real) = 136"
    by (rule round_near) simp_all
  show ?thesis
    unfolding hslToRgb_70_50 Let_def f h t r u w x y z n by simp
qed

lemma hsl_1_10:
  "hslToRgb (fl (fl (1 / 10) * 360)) 70 50 = (217, 145, 38)"
proof -
  have f: "fl (1 / 10) = 3602879701896397 / 36028797018963968"
    by (rule fl_dyadic[where s = 56 and n = "7205759403792794"]) simp_all
  have h: "fl (3602879701896397 / 36028797018963968 * 360) = 36"
    by (rule fl_dyadic[where s = 47 and n = "5066549580791808"]) simp_all
  have t: "fl (36 / 60) = 5404319552844595 / 9007199254740992"
    by (rule fl_dyadic[where s = 53 and n = "5404319552844595"]) simp_all
  have r: "jsRem (5404319552844595 / 9007199254740992) 2 = 5404319552844595 / 9007199254740992"
    by (rule jsRem_quotient[where q = 0]) simp_all
  have u: "fl (5404319552844595 / 9007199254740992 - 1) = - (3602879701896397 / 9007199254740992)"
    by (rule fl_dyadic[where s = 54 and n = "- 7205759403792794"]) simp_all
  have w: "fl (1 - \<bar>- (3602879701896397 / 9007199254740992)\<bar>) = 5404319552844595 / 9007199254740992"
    by (rule fl_dyadic[where s = 53 and n = "5404319552844595"]) simp_all
  have x: "fl (3152519739159347 / 4503599627370496 * (5404319552844595 / 9007199254740992)) = 7566047373982433 / 18014398509481984"
    by (rule fl_dyadic[where s = 54 and n = "7566047373982433"]) simp_all
  have y: "fl (7566047373982433 / 18014398509481984 + 1351079888211149 / 9007199254740992) = 2567051787601183 / 4503599627370496"
    by (rule fl_dyadic_tie[where s = 53 and f = "5134103575202365"]) simp_all
  have z: "fl (2567051787601183 / 4503599627370496 * 255) = 1278512120777933 / 8796093022208"
    by (rule fl_dyadic[where s = 45 and n = "5114048483111732"]) simp_all
  have n: "round (1278512120777933 / 8796093022208 :: real) = 145"
    by (rule round_near) simp_all
  show ?thesis
    unfolding hslToRgb_70_50 Let_def f h t r u w x y z n by simp
qed

lemma hsl_1_9:
  "hslToRgb (fl (fl (1 / 9) * 360)) 70 50 = (217, 157, 38)"
proof -
  have f: "fl (1 / 9) = 2001599834386887 / 18014398509481984"
    by (rule fl_dyadic[where s = 56 and n = "8006399337547548"]) simp_all
  have h: "fl (2001599834386887 / 18014398509481984 * 360) = 40"
    by (rule fl_dyadic[where s = 47 and n = "5629499534213120"]) simp_all
  have t: "fl (40 / 60) = 6004799503160661 / 9007199254740992"
    by (rule fl_dyadic[where s = 53 and n = "6004799503160661"]) simp_all
  have r: "jsRem (6004799503160661 / 9007199254740992) 2 = 6004799503160661 / 9007199254740992"
    by (rule jsRem_quotient[where q = 0]) simp_all
  have u: "fl (6004799503160661 / 9007199254740992 - 1) = - (3002399751580331 / 9007199254740992)"
    by (rule fl_dyadic[where s = 54 and n = "- 6004799503160662"]) simp_all
  have w: "fl (1 - \<bar>- (3002399751580331 / 9007199254740992)\<bar>) = 6004799503160661 / 9007199254740992"
    by (rule fl_dyadic[where s = 53 and n = "6004799503160661"]) simp_all
  have x: "fl (3152519739159347 / 4503599627370496 * (6004799503160661 / 9007199254740992)) = 8406719304424925 / 18014398509481984"
    by (rule fl_dyadic[where s = 54 and n = "8406719304424925"]) simp_all
  have y: "fl (8406719304424925 / 18014398509481984 + 1351079888211149 / 9007199254740992) = 1388609885105903 / 2251799813685248"
    by (rule fl_dyadic_tie[where s = 53 and f = "5554439540423611"]) simp_all
  have z: "fl (1388609885105903 / 2251799813685248 * 255) = 629 / 4"
    by (rule fl_dyadic[where s = 45 and n = "5532742510968832"]) simp_all
  have n: "round (629 / 4 :: real) = 157"
    by (rule round_near) simp_all
  show ?thesis
    unfolding hslToRgb_70_50 Let_def f h t r u w x y z n by simp
qed

lemma hsl_1_8:
  "hslToRgb (fl (fl (1 / 8) * 360)) 70 50 = (217, 172, 38)"
proof -
  have f: "fl (1 / 8) = 1 / 8"
    by (rule fl_dyadic[where s = 55 and n = "4503599627370496"]) simp_all
  have h: "fl (1 / 8 * 360) = 45"
    by (rule fl_dyadic[where s = 47 and n = "6333186975989760"]) simp_all
  have t: "fl (45 / 60) = 3 / 4"
    by (rule fl_dyadic[where s = 53 and n = "6755399441055744"]) simp_all
  have r: "jsRem (3 / 4) 2 = 3 / 4"
    by (rule jsRem_quotient[where q = 0]) simp_all
  have u: "fl (3 / 4 - 1) = - (1 / 4)"
    by (rule fl_dyadic[where s = 54 and n = "- 4503599627370496"]) simp_all
  have w: "fl (1 - \<bar>- (1 / 4)\<bar>) = 3 / 4"
    by (rule fl_dyadic[where s = 53 and n = "6755399441055744"]) simp_all
  have x: "fl (3152519739159347 / 4503599627370496 * (3 / 4)) = 1182194902184755 / 2251799813685248"
    by (rule fl_dyadic_tie[where s = 53 and f = "4728779608739020"]) simp_all
  have y: "fl (1182194902184755 / 2251799813685248 + 1351079888211149 / 9007199254740992) = 6079859496950169 / 9007199254740992"
    by (rule fl_dyadic[where s = 53 and n = "6079859496950169"]) simp_all
  have z: "fl (6079859496950169 / 9007199254740992 * 255) = 6056110045790207 / 35184372088832"
    by (rule fl_dyadic[where s = 45 and n = "6056110045790207"]) simp_all
  have n: "round (6056110045790207 / 35184372088832 :: real) = 172"
    by (rule round_near) simp_all
  show ?thesis
    unfolding hslToRgb_70_50 Let_def f h t r u w x y z n by simp
qed

lemma hsl_2_15:
  "hslToRgb (fl (fl (2 / 15) * 360)) 70 50 = (217, 181, 38)"
proof -
  have f: "fl (2 / 15) = 4803839602528529 / 36028797018963968"
    by (rule fl_dyadic[where s = 55 and n = "4803839602528529"]) simp_all
  have h: "fl (4803839602528529 / 36028797018963968 * 360) = 48"
    by (rule fl_dyadic[where s = 47 and n = "6755399441055744"]) simp_all
  have t: "fl (48 / 60) = 3602879701896397 / 4503599627370496"
    by (rule fl_dyadic[where s = 53 and n = "7205759403792794"]) simp_all
  have r: "jsRem (3602879701896397 / 4503599627370496) 2 = 3602879701896397 / 4503599627370496"
    by (rule jsRem_quotient[where q = 0]) simp_all
  have u: "fl (3602879701896397 / 4503599627370496 - 1) = - (900719925474099 / 4503599627370496)"
    by (rule fl_dyadic[where s = 55 and n = "- 7205759403792792"]) simp_all
  have w: "fl (1 - \<bar>- (900719925474099 / 4503599627370496)\<bar>) = 3602879701896397 / 4503599627370496"
    by (rule fl_dyadic[where s = 53 and n = "7205759403792794"]) simp_all
  have x: "fl (3152519739159347 / 4503599627370496 * (3602879701896397 / 4503599627370496)) = 5044031582654955 / 9007199254740992"
    by (rule fl_dyadic[where s = 53 and n = "5044031582654955"]) simp_all
  have y: "fl (5044031582654955 / 9007199254740992 + 1351079888211149 / 9007199254740992) = 799388933858263 / 1125899906842624"
    by (rule fl_dyadic[where s = 53 and n = "6395111470866104"]) simp_all
  have z: "fl (799388933858263 / 1125899906842624 * 255) = 6370130566683033 / 35184372088832"
    by (rule fl_dyadic[where s = 45 and n = "6370130566683033"]) simp_all
  have n: "round (6370130566683033 / 35184372088832 :: real) = 181"
    by (rule round_near) simp_all
  show ?thesis
    unfolding hslToRgb_70_50 Let_def f h t r u w x y z n by simp
qed

lemma hsl_1_7:
  "hslToRgb (fl (fl (1 / 7) * 360)) 70 50 = (217, 191, 38)"
proof -
  have f: "fl (1 / 7) = 2573485501354569 / 18014398509481984"
    by (rule fl_dyadic[where s = 55 and n = "5146971002709138"]) simp_all
  have h: "fl (2573485501354569 / 18014398509481984 * 360) = 7237927972559725 / 140737488355328"
    by (rule fl_dyadic[where s = 47 and n = "7237927972559725"]) simp_all
  have t: "fl (7237927972559725 / 140737488355328 / 60) = 7720456504063707 / 9007199254740992"
    by (rule fl_dyadic[where s = 53 and n = "7720456504063707"]) simp_all
  have r: "jsRem (7720456504063707 / 9007199254740992) 2 = 7720456504063707 / 9007199254740992"
    by (rule jsRem_quotient[where q = 0]) simp_all
  have u: "fl (7720456504063707 / 9007199254740992 - 1) = - (1286742750677285 / 9007199254740992)"
    by (rule fl_dyadic[where s = 55 and n = "- 5146971002709140"]) simp_all
  have w: "fl (1 - \<bar>- (1286742750677285 / 9007199254740992)\<bar>) = 7720456504063707 / 9007199254740992"
    by (rule fl_dyadic[where s = 53 and n = "7720456504063707"]) simp_all
  have x: "fl (3152519739159347 / 4503599627370496 * (7720456504063707 / 9007199254740992)) = 5404319552844595 / 9007199254740992"
    by (rule fl_dyadic[where s = 53 and n = "5404319552844595"]) simp_all
  have y: "fl (5404319552844595 / 9007199254740992 + 1351079888211149 / 9007199254740992) = 3 / 4"
    by (rule fl_dyadic[where s = 53 and n = "6755399441055744"]) simp_all
  have z: "fl (3 / 4 * 255) = 765 / 4"
    by (rule fl_dyadic[where s = 45 and n = "6729011161989120"]) simp_all
  have n: "round (765 / 4 :: real) = 191"
    by (rule round_near) simp_all
  show ?thesis
    unfolding hslToRgb_70_50 Let_def f h t r u w x y z n by simp
qed

lemma hsl_2_13:
  "hslToRgb (fl (fl (2 / 13) * 360)) 70 50 = (217, 203, 38)"
proof -
  have f: "fl (2 / 13) = 1385722962267845 / 9007199254740992"
    by (rule fl_dyadic[where s = 55 and n = "5542891849071380"]) simp_all
  have h: "fl (1385722962267845 / 9007199254740992 * 360) = 1948672915689157 / 35184372088832"
    by (rule fl_dyadic[where s = 47 and n = "7794691662756628"]) simp_all
  have t: "fl (1948672915689157 / 35184372088832 / 60) = 4157168886803535 / 4503599627370496"
    by (rule fl_dyadic[where s = 53 and n = "8314337773607070"]) simp_all
  have r: "jsRem (4157168886803535 / 4503599627370496) 2 = 4157168886803535 / 4503599627370496"
    by (rule jsRem_quotient[where q = 0]) simp_all
  have u: "fl (4157168886803535 / 4503599627370496 - 1) = - (346430740566961 / 4503599627370496)"
    by (rule fl_dyadic[where s = 56 and n = "- 5542891849071376"]) simp_all
  have w: "fl (1 - \<bar>- (346430740566961 / 4503599627370496)\<bar>) = 4157168886803535 / 4503599627370496"
    by (rule fl_dyadic[where s = 53 and n = "8314337773607070"]) simp_all
  have x: "fl (3152519739159347 / 4503599627370496 * (4157168886803535 / 4503599627370496)) = 5820036441524949 / 9007199254740992"
    by (rule fl_dyadic[where s = 53 and n = "5820036441524949"]) simp_all
  have y: "fl (5820036441524949 / 9007199254740992 + 1351079888211149 / 9007199254740992) = 3585558164868049 / 4503599627370496"
    by (rule fl_dyadic[where s = 53 and n = "7171116329736098"]) simp_all
  have z: "fl (3585558164868049 / 4503599627370496 * 255) = 3571552078286533 / 17592186044416"
    by (rule fl_dyadic[where s = 45 and n = "7143104156573066"]) simp_all
  have n: "round (3571552078286533 / 17592186044416 :: real) = 203"
    by (rule round_near) simp_all
  show ?thesis
    unfolding hslToRgb_70_50 Let_def f h t r u w x y z n by simp
qed

lemma hsl_1_6:
  "hslToRgb (fl (fl (1 / 6) * 360)) 70 50 = (217, 217, 38)"
proof -
  have f: "fl (1 / 6) = 6004799503160661 / 36028797018963968"
    by (rule fl_dyadic[where s = 55 and n = "6004799503160661"]) simp_all
  have h: "fl (6004799503160661 / 36028797018963968 * 360) = 60"
    by (rule fl_dyadic[where s = 47 and n = "8444249301319680"]) simp_all
  have t: "fl (60 / 60) = 1"
    by (rule fl_dyadic[where s = 52 and n = "4503599627370496"]) simp_all
  have r: "jsRem (1) 2 = 1"
    by (rule jsRem_quotient[where q = 0]) simp_all
  have u: "fl (1 - 1) = 0"
    by (simp add: fl_0)
  have w: "fl (1 - \<bar>0\<bar>) = 1"
    by (rule fl_dyadic[where s = 52 and n = "4503599627370496"]) simp_all
  have x: "fl (3152519739159347 / 4503599627370496 * 1) = 3152519739159347 / 4503599627370496"
    by (rule fl_dyadic[where s = 53 and n = "6305039478318694"]) simp_all
  have y: "fl (3152519739159347 / 4503599627370496 + 1351079888211149 / 9007199254740992) = 7656119366529843 / 9007199254740992"
    by (rule fl_dyadic[where s = 53 and n = "7656119366529843"]) simp_all
  have z: "fl (7656119366529843 / 9007199254740992 * 255) = 867 / 4"
    by (rule fl_dyadic[where s = 45 and n = "7626212650254336"]) simp_all
  have n: "round (867 / 4 :: real) = 217"
    by (rule round_near) simp_all
  show ?thesis
    unfolding hslToRgb_70_50 Let_def f h t r u w x y z n by simp
qed

lemma hsl_2_11:
  "hslToRgb (fl (fl (2 / 11) * 360)) 70 50 = (201, 217, 38)"
proof -
  have f: "fl (2 / 11) = 3275345183542179 / 18014398509481984"
    by (rule fl_dyadic[where s = 55 and n = "6550690367084358"]) simp_all
  have h: "fl (3275345183542179 / 18014398509481984 * 360) = 4605954164356189 / 70368744177664"
    by (rule fl_dyadic[where s = 46 and n = "4605954164356189"]) simp_all
  have t: "fl (4605954164356189 / 70368744177664 / 60) = 1228254443828317 / 1125899906842624"
    by (rule fl_dyadic[where s = 52 and n = "4913017775313268"]) simp_all
  have r: "jsRem (1228254443828317 / 1125899906842624) 2 = 1228254443828317 / 1125899906842624"
    by (rule jsRem_quotient[where q = 0]) simp_all
  have u: "fl (1228254443828317 / 1125899906842624 - 1) = 102354536985693 / 1125899906842624"
    by (rule fl_dyadic[where s = 56 and n = "6550690367084352"]) simp_all
  have w: "fl (1 - \<bar>102354536985693 / 1125899906842624\<bar>) = 1023545369856931 / 1125899906842624"
    by (rule fl_dyadic[where s = 53 and n = "8188362958855448"]) simp_all
  have x: "fl (3152519739159347 / 4503599627370496 * (1023545369856931 / 1125899906842624)) = 5731854071198813 / 9007199254740992"
    by (rule fl_dyadic[where s = 53 and n = "5731854071198813"]) simp_all
  have y: "fl (5731854071198813 / 9007199254740992 + 1351079888211149 / 9007199254740992) = 3541466979704981 / 4503599627370496"
    by (rule fl_dyadic[where s = 53 and n = "7082933959409962"]) simp_all
  have z: "fl (3541466979704981 / 4503599627370496 * 255) = 7055266248631017 / 35184372088832"
    by (rule fl_dyadic[where s = 45 and n = "7055266248631017"]) simp_all
  have n: "round (7055266248631017 / 35184372088832 :: real) = 201"
    by (rule round_near) simp_all
  show ?thesis
    unfolding hslToRgb_70_50 Let_def f h t r u w x y z n by simp
qed

lemma hsl_3_16:
  "hslToRgb (fl (fl (3 / 16) * 360)) 70 50 = (194, 217, 38)"
proof -
  have f: "fl (3 / 16) = 3 / 16"
    by (rule fl_dyadic[where s = 55 and n = "6755399441055744"]) simp_all
  have h: "fl (3 / 16 * 360) = 135 / 2"
    by (rule fl_dyadic[where s = 46 and n = "4749890231992320"]) simp_all
  have t: "fl (135 / 2 / 60) = 9 / 8"
    by (rule fl_dyadic[where s = 52 and n = "5066549580791808"]) simp_all
  have r: "jsRem (9 / 8) 2 = 9 / 8"
    by (rule jsRem_quotient[where q = 0]) simp_all
  have u: "fl (9 / 8 - 1) = 1 / 8"
    by (rule fl_dyadic[where s = 55 and n = "4503599627370496"]) simp_all
  have w: "fl (1 - \<bar>1 / 8\<bar>) = 7 / 8"
    by (rule fl_dyadic[where s = 53 and n = "7881299347898368"]) simp_all
  have x: "fl (3152519739159347 / 4503599627370496 * (7 / 8)) = 5516909543528857 / 9007199254740992"
    by (rule fl_dyadic[where s = 53 and n = "5516909543528857"]) simp_all
  have y: "fl (5516909543528857 / 9007199254740992 + 1351079888211149 / 9007199254740992) = 3433994715870003 / 4503599627370496"
    by (rule fl_dyadic[where s = 53 and n = "6867989431740006"]) simp_all
  have z: "fl (3433994715870003 / 4503599627370496 * 255) = 3111 / 16"
    by (rule fl_dyadic[where s = 45 and n = "6841161348022272"]) simp_all
  have n: "round (3111 / 16 :: real) = 194"
    by (rule round_near) simp_all
  show ?thesis
    unfolding hslToRgb_70_50 Let_def f h t r u w x y z n by simp
qed

lemma hsl_1_5:
  "hslToRgb (fl (fl (1 / 5) * 360)) 70 50 = (181, 217, 38)"
proof -
  have f: "fl (1 / 5) = 3602879701896397 / 18014398509481984"
    by (rule fl_dyadic[where s = 55 and n = "7205759403792794"]) simp_all
  have h: "fl (3602879701896397 / 18014398509481984 * 360) = 72"
    by (rule fl_dyadic[where s = 46 and n = "5066549580791808"]) simp_all
  have t: "fl (72 / 60) = 5404319552844595 / 4503599627370496"
    by (rule fl_dyadic[where s = 52 and n = "5404319552844595"]) simp_all
  have r: "jsRem (5404319552844595 / 4503599627370496) 2 = 5404319552844595 / 4503599627370496"
    by (rule jsRem_quotient[where q = 0]) simp_all
  have u: "fl (5404319552844595 / 4503599627370496 - 1) = 900719925474099 / 4503599627370496"
    by (rule fl_dyadic[where s = 55 and n = "7205759403792792"]) simp_all
  have w: "fl (1 - \<bar>900719925474099 / 4503599627370496\<bar>) = 3602879701896397 / 4503599627370496"
    by (rule fl_dyadic[where s = 53 and n = "7205759403792794"]) simp_all
  have x: "fl (3152519739159347 / 4503599627370496 * (3602879701896397 / 4503599627370496)) = 5044031582654955 / 9007199254740992"
    by (rule fl_dyadic[where s = 53 and n = "5044031582654955"]) simp_all
  have y: "fl (5044031582654955 / 9007199254740992 + 1351079888211149 / 9007199254740992) = 799388933858263 / 1125899906842624"
    by (rule fl_dyadic[where s = 53 and n = "6395111470866104"]) simp_all
  have z: "fl (799388933858263 / 1125899906842624 * 255) = 6370130566683033 / 35184372088832"
    by (rule fl_dyadic[where s = 45 and n = "6370130566683033"]) simp_all
  have n: "round (6370130566683033 / 35184372088832 :: real) = 181"
    by (rule round_near) simp_all
  show ?thesis
    unfolding hslToRgb_70_50 Let_def f h t r u w x y z n by simp
qed

lemma hsl_3_14:
  "hslToRgb (fl (fl (3 / 14) * 360)) 70 50 = (166, 217, 38)"
proof -
  have f: "fl (3 / 14) = 7720456504063707 / 36028797018963968"
    by (rule fl_dyadic[where s = 55 and n = "7720456504063707"]) simp_all
  have h: "fl (7720456504063707 / 36028797018963968 * 360) = 2714222989709897 / 35184372088832"
    by (rule fl_dyadic[where s = 46 and n = "5428445979419794"]) simp_all
  have t: "fl (2714222989709897 / 35184372088832 / 60) = 1447585594511945 / 1125899906842624"
    by (rule fl_dyadic[where s = 52 and n = "5790342378047780"]) simp_all
  have r: "jsRem (1447585594511945 / 1125899906842624) 2 = 1447585594511945 / 1125899906842624"
    by (rule jsRem_quotient[where q = 0]) simp_all
  have u: "fl (1447585594511945 / 1125899906842624 - 1) = 321685687669321 / 1125899906842624"
    by (rule fl_dyadic[where s = 54 and n = "5146971002709136"]) simp_all
  have w: "fl (1 - \<bar>321685687669321 / 1125899906842624\<bar>) = 804214219173303 / 1125899906842624"
    by (rule fl_dyadic[where s = 53 and n = "6433713753386424"]) simp_all
  have x: "fl (3152519739159347 / 4503599627370496 * (804214219173303 / 1125899906842624)) = 4503599627370497 / 9007199254740992"
    by (rule fl_dyadic[where s = 53 and n = "4503599627370497"]) simp_all
  have y: "fl (4503599627370497 / 9007199254740992 + 1351079888211149 / 9007199254740992) = 2927339757790823 / 4503599627370496"
    by (rule fl_dyadic[where s = 53 and n = "5854679515581646"]) simp_all
  have z: "fl (2927339757790823 / 4503599627370496 * 255) = 5831809673723905 / 35184372088832"
    by (rule fl_dyadic[where s = 45 and n = "5831809673723905"]) simp_all
  have n: "round (5831809673723905 / 35184372088832 :: real) = 166"
    by (rule round_near) simp_all
  show ?thesis
    unfolding hslToRgb_70_50 Let_def f h t r u w x y z n by simp
qed

lemma hsl_2_9:
  "hslToRgb (fl (fl (2 / 9) * 360)) 70 50 = (157, 217, 38)"
proof -
  have f: "fl (2 / 9) = 2001599834386887 / 9007199254740992"
    by (rule fl_dyadic[where s = 55 and n = "8006399337547548"]) simp_all
  have h: "fl (2001599834386887 / 9007199254740992 * 360) = 80"
    by (rule fl_dyadic[where s = 46 and n = "5629499534213120"]) simp_all
  have t: "fl (80 / 60) = 6004799503160661 / 4503599627370496"
    by (rule fl_dyadic[where s = 52 and n = "6004799503160661"]) simp_all
  have r: "jsRem (6004799503160661 / 4503599627370496) 2 = 6004799503160661 / 4503599627370496"
    by (rule jsRem_quotient[where q = 0]) simp_all
  have u: "fl (6004799503160661 / 4503599627370496 - 1) = 1501199875790165 / 4503599627370496"
    by (rule fl_dyadic[where s = 54 and n = "6004799503160660"]) simp_all
  have w: "fl (1 - \<bar>1501199875790165 / 4503599627370496\<bar>) = 3002399751580331 / 4503599627370496"
    by (rule fl_dyadic[where s = 53 and n = "6004799503160662"]) simp_all
  have x: "fl (3152519739159347 / 4503599627370496 * (3002399751580331 / 4503599627370496)) = 4203359652212463 / 9007199254740992"
    by (rule fl_dyadic[where s = 54 and n = "8406719304424926"]) simp_all
  have y: "fl (4203359652212463 / 9007199254740992 + 1351079888211149 / 9007199254740992) = 1388609885105903 / 2251799813685248"
    by (rule fl_dyadic[where s = 53 and n = "5554439540423612"]) simp_all
  have z: "fl (1388609885105903 / 2251799813685248 * 255) = 629 / 4"
    by (rule fl_dyadic[where s = 45 and n = "5532742510968832"]) simp_all
  have n: "round (629 / 4 :: real) = 157"
    by (rule round_near) simp_all
  show ?thesis
    unfolding hslToRgb_70_50 Let_def f h t r u w x y z n by simp
qed

lemma hsl_3_13:
  "hslToRgb (fl (fl (3 / 13) * 360)) 70 50 = (148, 217, 38)"
proof -
  have f: "fl (3 / 13) = 4157168886803535 / 18014398509481984"
    by (rule fl_dyadic[where s = 55 and n = "8314337773607070"]) simp_all
  have h: "fl (4157168886803535 / 18014398509481984 * 360) = 5846018747067471 / 70368744177664"
    by (rule fl_dyadic[where s = 46 and n = "5846018747067471"]) simp_all
  have t: "fl (5846018747067471 / 70368744177664 / 60) = 3117876665102651 / 2251799813685248"
    by (rule fl_dyadic[where s = 52 and n = "6235753330205302"]) simp_all
  have r: "jsRem (3117876665102651 / 2251799813685248) 2 = 3117876665102651 / 2251799813685248"
    by (rule jsRem_quotient[where q = 0]) simp_all
  have u: "fl (3117876665102651 / 2251799813685248 - 1) = 866076851417403 / 2251799813685248"
    by (rule fl_dyadic[where s = 54 and n = "6928614811339224"]) simp_all
  have w: "fl (1 - \<bar>866076851417403 / 2251799813685248\<bar>) = 1385722962267845 / 2251799813685248"
    by (rule fl_dyadic[where s = 53 and n = "5542891849071380"]) simp_all
  have x: "fl (3152519739159347 / 4503599627370496 * (1385722962267845 / 2251799813685248)) = 1940012147174983 / 4503599627370496"
    by (rule fl_dyadic[where s = 54 and n = "7760048588699932"]) simp_all
  have y: "fl (1940012147174983 / 4503599627370496 + 1351079888211149 / 9007199254740992) = 5231104182561115 / 9007199254740992"
    by (rule fl_dyadic[where s = 53 and n = "5231104182561115"]) simp_all
  have z: "fl (5231104182561115 / 9007199254740992 * 255) = 2605335090923993 / 17592186044416"
    by (rule fl_dyadic[where s = 45 and n = "5210670181847986"]) simp_all
  have n: "round (2605335090923993 / 17592186044416 :: real) = 148"
    by (rule round_near) simp_all
  show ?thesis
    unfolding hslToRgb_70_50 Let_def f h t r u w x y z n by simp
qed

lemma hsl_1_4:
  "hslToRgb (fl (fl (1 / 4) * 360)) 70 50 = (128, 217, 38)"
proof -
  have f: "fl (1 / 4) = 1 / 4"
    by (rule fl_dyadic[where s = 54 and n = "4503599627370496"]) simp_all
  have h: "fl (1 / 4 * 360) = 90"
    by (rule fl_dyadic[where s = 46 and n = "6333186975989760"]) simp_all
  have t: "fl (90 / 60) = 3 / 2"
    by (rule fl_dyadic[where s = 52 and n = "6755399441055744"]) simp_all
  have r: "jsRem (3 / 2) 2 = 3 / 2"
    by (rule jsRem_quotient[where q = 0]) simp_all
  have u: "fl (3 / 2 - 1) = 1 / 2"
    by (rule fl_dyadic[where s = 53 and n = "4503599627370496"]) simp_all
  have w: "fl (1 - \<bar>1 / 2\<bar>) = 1 / 2"
    by (rule fl_dyadic[where s = 53 and n = "4503599627370496"]) simp_all
  have x: "fl (3152519739159347 / 4503599627370496 * (1 / 2)) = 3152519739159347 / 9007199254740992"
    by (rule fl_dyadic[where s = 54 and n = "6305039478318694"]) simp_all
  have y: "fl (3152519739159347 / 9007199254740992 + 1351079888211149 / 9007199254740992) = 1 / 2"
    by (rule fl_dyadic[where s = 53 and n = "4503599627370496"]) simp_all
  have z: "fl (1 / 2 * 255) = 255 / 2"
    by (rule fl_dyadic[where s = 46 and n = "8972014882652160"]) simp_all
  have n: "round (255 / 2 :: real) = 128"
    by (rule round_near) simp_all
  show ?thesis
    unfolding hslToRgb_70_50 Let_def f h t r u w x y z n by simp
qed

lemma hsl_4_15:
  "hslToRgb (fl (fl (4 / 15) * 360)) 70 50 = (110, 217, 38)"
proof -
  have f: "fl (4 / 15) = 4803839602528529 / 18014398509481984"
    by (rule fl_dyadic[where s = 54 and n = "4803839602528529"]) simp_all
  have h: "fl (4803839602528529 / 18014398509481984 * 360) = 96"
    by (rule fl_dyadic[where s = 46 and n = "6755399441055744"]) simp_all
  have t: "fl (96 / 60) = 3602879701896397 / 2251799813685248"
    by (rule fl_dyadic[where s = 52 and n = "7205759403792794"]) simp_all
  have r: "jsRem (3602879701896397 / 2251799813685248) 2 = 3602879701896397 / 2251799813685248"
    by (rule jsRem_quotient[where q = 0]) simp_all
  have u: "fl (3602879701896397 / 2251799813685248 - 1) = 1351079888211149 / 2251799813685248"
    by (rule fl_dyadic[where s = 53 and n = "5404319552844596"]) simp_all
  have w: "fl (1 - \<bar>1351079888211149 / 2251799813685248\<bar>) = 900719925474099 / 2251799813685248"
    by (rule fl_dyadic[where s = 54 and n = "7205759403792792"]) simp_all
  have x: "fl (3152519739159347 / 4503599627370496 * (900719925474099 / 2251799813685248)) = 2522015791327477 / 9007199254740992"
    by (rule fl_dyadic[where s = 54 and n = "5044031582654954"]) simp_all
  have y: "fl (2522015791327477 / 9007199254740992 + 1351079888211149 / 9007199254740992) = 1936547839769313 / 4503599627370496"
    by (rule fl_dyadic[where s = 54 and n = "7746191359077252"]) simp_all
  have z: "fl (1936547839769313 / 4503599627370496 * 255) = 964491599885107 / 8796093022208"
    by (rule fl_dyadic[where s = 46 and n = "7715932799080856"]) simp_all
  have n: "round (964491599885107 / 8796093022208 :: real) = 110"
    by (rule round_near) simp_all
  show ?thesis
    unfolding hslToRgb_70_50 Let_def f h t r u w x y z n by simp
qed

lemma hsl_3_11:
  "hslToRgb (fl (fl (3 / 11) * 360)) 70 50 = (103, 217, 38)"
proof -
  have f: "fl (3 / 11) = 1228254443828317 / 4503599627370496"
    by (rule fl_dyadic[where s = 54 and n = "4913017775313268"]) simp_all
  have h: "fl (1228254443828317 / 4503599627370496 * 360) = 6908931246534283 / 70368744177664"
    by (rule fl_dyadic[where s = 46 and n = "6908931246534283"]) simp_all
  have t: "fl (6908931246534283 / 70368744177664 / 60) = 3684763331484951 / 2251799813685248"
    by (rule fl_dyadic[where s = 52 and n = "7369526662969902"]) simp_all
  have r: "jsRem (3684763331484951 / 2251799813685248) 2 = 3684763331484951 / 2251799813685248"
    by (rule jsRem_quotient[where q = 0]) simp_all
  have u: "fl (3684763331484951 / 2251799813685248 - 1) = 1432963517799703 / 2251799813685248"
    by (rule fl_dyadic[where s = 53 and n = "5731854071198812"]) simp_all
  have w: "fl (1 - \<bar>1432963517799703 / 2251799813685248\<bar>) = 818836295885545 / 2251799813685248"
    by (rule fl_dyadic[where s = 54 and n = "6550690367084360"]) simp_all
  have x: "fl (3152519739159347 / 4503599627370496 * (818836295885545 / 2251799813685248)) = 1146370814239763 / 4503599627370496"
    by (rule fl_dyadic[where s = 54 and n = "4585483256959052"]) simp_all
  have y: "fl (1146370814239763 / 4503599627370496 + 1351079888211149 / 9007199254740992) = 3643821516690675 / 9007199254740992"
    by (rule fl_dyadic[where s = 54 and n = "7287643033381350"]) simp_all
  have z: "fl (3643821516690675 / 9007199254740992 * 255) = 1814793919445551 / 17592186044416"
    by (rule fl_dyadic[where s = 46 and n = "7259175677782204"]) simp_all
  have n: "round (1814793919445551 / 17592186044416 :: real) = 103"
    by (rule round_near) simp_all
  show ?thesis
    unfolding hslToRgb_70_50 Let_def f h t r u w x y z n by simp
qed

lemma hsl_2_7:
  "hslToRgb (fl (fl (2 / 7) * 360)) 70 50 = (89, 217, 38)"
proof -
  have f: "fl (2 / 7) = 2573485501354569 / 9007199254740992"
    by (rule fl_dyadic[where s = 54 and n = "5146971002709138"]) simp_all
  have h: "fl (2573485501354569 / 9007199254740992 * 360) = 7237927972559725 / 70368744177664"
    by (rule fl_dyadic[where s = 46 and n = "7237927972559725"]) simp_all
  have t: "fl (7237927972559725 / 70368744177664 / 60) = 7720456504063707 / 4503599627370496"
    by (rule fl_dyadic[where s = 52 and n = "7720456504063707"]) simp_all
  have r: "jsRem (7720456504063707 / 4503599627370496) 2 = 7720456504063707 / 4503599627370496"
    by (rule jsRem_quotient[where q = 0]) simp_all
  have u: "fl (7720456504063707 / 4503599627370496 - 1) = 3216856876693211 / 4503599627370496"
    by (rule fl_dyadic[where s = 53 and n = "6433713753386422"]) simp_all
  have w: "fl (1 - \<bar>3216856876693211 / 4503599627370496\<bar>) = 1286742750677285 / 4503599627370496"
    by (rule fl_dyadic[where s = 54 and n = "5146971002709140"]) simp_all
  have x: "fl (3152519739159347 / 4503599627370496 * (1286742750677285 / 4503599627370496)) = 1801439850948199 / 9007199254740992"
    by (rule fl_dyadic[where s = 55 and n = "7205759403792796"]) simp_all
  have y: "fl (1801439850948199 / 9007199254740992 + 1351079888211149 / 9007199254740992) = 788129934789837 / 2251799813685248"
    by (rule fl_dyadic[where s = 54 and n = "6305039478318696"]) simp_all
  have z: "fl (788129934789837 / 2251799813685248 * 255) = 3140205208928257 / 35184372088832"
    by (rule fl_dyadic[where s = 46 and n = "6280410417856514"]) simp_all
  have n: "round (3140205208928257 / 35184372088832 :: real) = 89"
    by (rule round_near) simp_all
  show ?thesis
    unfolding hslToRgb_70_50 Let_def f h t r u w x y z n by simp
qed

lemma hsl_3_10:
  "hslToRgb (fl (fl (3 / 10) * 360)) 70 50 = (74, 217, 38)"
proof -
  have f: "fl (3 / 10) = 5404319552844595 / 18014398509481984"
    by (rule fl_dyadic[where s = 54 and n = "5404319552844595"]) simp_all
  have h: "fl (5404319552844595 / 18014398509481984 * 360) = 108"
    by (rule fl_dyadic[where s = 46 and n = "7599824371187712"]) simp_all
  have t: "fl (108 / 60) = 8106479329266893 / 4503599627370496"
    by (rule fl_dyadic[where s = 52 and n = "8106479329266893"]) simp_all
  have r: "jsRem (8106479329266893 / 4503599627370496) 2 = 8106479329266893 / 4503599627370496"
    by (rule jsRem_quotient[where q = 0]) simp_all
  have u: "fl (8106479329266893 / 4503599627370496 - 1) = 3602879701896397 / 4503599627370496"
    by (rule fl_dyadic[where s = 53 and n = "7205759403792794"]) simp_all
  have w: "fl (1 - \<bar>3602879701896397 / 4503599627370496\<bar>) = 900719925474099 / 4503599627370496"
    by (rule fl_dyadic[where s = 55 and n = "7205759403792792"]) simp_all
  have x: "fl (3152519739159347 / 4503599627370496 * (900719925474099 / 4503599627370496)) = 2522015791327477 / 18014398509481984"
    by (rule fl_dyadic[where s = 55 and n = "5044031582654954"]) simp_all
  have y: "fl (2522015791327477 / 18014398509481984 + 1351079888211149 / 9007199254740992) = 5224175567749775 / 18014398509481984"
    by (rule fl_dyadic[where s = 54 and n = "5224175567749775"]) simp_all
  have z: "fl (5224175567749775 / 18014398509481984 * 255) = 1300942157984563 / 17592186044416"
    by (rule fl_dyadic[where s = 46 and n = "5203768631938252"]) simp_all
  have n: "round (1300942157984563 / 17592186044416 :: real) = 74"
    by (rule round_near) simp_all
  show ?thesis
    unfolding hslToRgb_70_50 Let_def f h t r u w x y z n by simp
qed

lemma hsl_4_13:
  "hslToRgb (fl (fl (4 / 13) * 360)) 70 50 = (66, 217, 38)"
proof -
  have f: "fl (4 / 13) = 1385722962267845 / 4503599627370496"
    by (rule fl_dyadic[where s = 54 and n = "5542891849071380"]) simp_all
  have h: "fl (1385722962267845 / 4503599627370496 * 360) = 1948672915689157 / 17592186044416"
    by (rule fl_dyadic[where s = 46 and n = "7794691662756628"]) simp_all
  have t: "fl (1948672915689157 / 17592186044416 / 60) = 4157168886803535 / 2251799813685248"
    by (rule fl_dyadic[where s = 52 and n = "8314337773607070"]) simp_all
  have r: "jsRem (4157168886803535 / 2251799813685248) 2 = 4157168886803535 / 2251799813685248"
    by (rule jsRem_quotient[where q = 0]) simp_all
  have u: "fl (4157168886803535 / 2251799813685248 - 1) = 1905369073118287 / 2251799813685248"
    by (rule fl_dyadic[where s = 53 and n = "7621476292473148"]) simp_all
  have w: "fl (1 - \<bar>1905369073118287 / 2251799813685248\<bar>) = 346430740566961 / 2251799813685248"
    by (rule fl_dyadic[where s = 55 and n = "5542891849071376"]) simp_all
  have x: "fl (3152519739159347 / 4503599627370496 * (346430740566961 / 2251799813685248)) = 3880024294349963 / 36028797018963968"
    by (rule fl_dyadic[where s = 56 and n = "7760048588699926"]) simp_all
  have y: "fl (3880024294349963 / 36028797018963968 + 1351079888211149 / 9007199254740992) = 145067872612415 / 562949953421312"
    by (rule fl_dyadic_tie[where s = 54 and f = "4642171923597279"]) simp_all
  have z: "fl (145067872612415 / 562949953421312 * 255) = 578004804940091 / 8796093022208"
    by (rule fl_dyadic[where s = 46 and n = "4624038439520728"]) simp_all
  have n: "round (578004804940091 / 8796093022208 :: real) = 66"
    by (rule round_near) simp_all
  show ?thesis
    unfolding hslToRgb_70_50 Let_def f h t r u w x y z n by simp
qed

lemma hsl_5_16:
  "hslToRgb (fl (fl (5 / 16) * 360)) 70 50 = (61, 217, 38)"
proof -
  have f: "fl (5 / 16) = 5 / 16"
    by (rule fl_dyadic[where s = 54 and n = "5629499534213120"]) simp_all
  have h: "fl (5 / 16 * 360) = 225 / 2"
    by (rule fl_dyadic[where s = 46 and n = "7916483719987200"]) simp_all
  have t: "fl (225 / 2 / 60) = 15 / 8"
    by (rule fl_dyadic[where s = 52 and n = "8444249301319680"]) simp_all
  have r: "jsRem (15 / 8) 2 = 15 / 8"
    by (rule jsRem_quotient[where q = 0]) simp_all
  have u: "fl (15 / 8 - 1) = 7 / 8"
    by (rule fl_dyadic[where s = 53 and n = "7881299347898368"]) simp_all
  have w: "fl (1 - \<bar>7 / 8\<bar>) = 1 / 8"
    by (rule fl_dyadic[where s = 55 and n = "4503599627370496"]) simp_all
  have x: "fl (3152519739159347 / 4503599627370496 * (1 / 8)) = 3152519739159347 / 36028797018963968"
    by (rule fl_dyadic[where s = 56 and n = "6305039478318694"]) simp_all
  have y: "fl (3152519739159347 / 36028797018963968 + 1351079888211149 / 9007199254740992) = 8556839292003943 / 36028797018963968"
    by (rule fl_dyadic[where s = 55 and n = "8556839292003943"]) simp_all
  have z: "fl (8556839292003943 / 36028797018963968 * 255) = 8523414138519553 / 140737488355328"
    by (rule fl_dyadic[where s = 47 and n = "8523414138519553"]) simp_all
  have n: "round (8523414138519553 / 140737488355328 :: real) = 61"
    by (rule round_near) simp_all
  show ?thesis
    unfolding hslToRgb_70_50 Let_def f h t r u w x y z n by simp
qed

lemma hsl_1_3:
  "hslToRgb (fl (fl (1 / 3) * 360)) 70 50 = (38, 217, 38)"
proof -
  have f: "fl (1 / 3) = 6004799503160661 / 18014398509481984"
    by (rule fl_dyadic[where s = 54 and n = "6004799503160661"]) simp_all
  have h: "fl (6004799503160661 / 18014398509481984 * 360) = 120"
    by (rule fl_dyadic[where s = 46 and n = "8444249301319680"]) simp_all
  have t: "fl (120 / 60) = 2"
    by (rule fl_dyadic[where s = 51 and n = "4503599627370496"]) simp_all
  have r: "jsRem (2) 2 = 0"
    by (rule jsRem_quotient[where q = 1]) simp_all
  have u: "fl (0 - 1) = - 1"
    by (rule fl_dyadic[where s = 52 and n = "- 4503599627370496"]) simp_all
  have w: "fl (1 - \<bar>- 1\<bar>) = 0"
    by (simp add: fl_0)
  have x: "fl (3152519739159347 / 4503599627370496 * 0) = 0"
    by (simp add: fl_0)
  have y: "fl (0 + 1351079888211149 / 9007199254740992) = 1351079888211149 / 9007199254740992"
    by (rule fl_dyadic[where s = 55 and n = "5404319552844596"]) simp_all
  have z: "fl (1351079888211149 / 9007199254740992 * 255) = 5383208929591297 / 140737488355328"
    by (rule fl_dyadic[where s = 47 and n = "5383208929591297"]) simp_all
  have n: "round (5383208929591297 / 140737488355328 :: real) = 38"
    by (rule round_near) simp_all
  show ?thesis
    unfolding hslToRgb_70_50 Let_def f h t r u w x y z n by simp
qed

lemma hsl_5_14:
  "hslToRgb (fl (fl (5 / 14) * 360)) 70 50 = (38, 217, 64)"
proof -
  have f: "fl (5 / 14) = 6433713753386423 / 18014398509481984"
    by (rule fl_dyadic[where s = 54 and n = "6433713753386423"]) simp_all
  have h: "fl (6433713753386423 / 18014398509481984 * 360) = 4523704982849829 / 35184372088832"
    by (rule fl_dyadic[where s = 45 and n = "4523704982849829"]) simp_all
  have t: "fl (4523704982849829 / 35184372088832 / 60) = 2412642657519909 / 1125899906842624"
    by (rule fl_dyadic[where s = 51 and n = "4825285315039818"]) simp_all
  have r: "jsRem (2412642657519909 / 1125899906842624) 2 = 160842843834661 / 1125899906842624"
    by (rule jsRem_quotient[where q = 1]) simp_all
  have u: "fl (160842843834661 / 1125899906842624 - 1) = - (965057063007963 / 1125899906842624)"
    by (rule fl_dyadic[where s = 53 and n = "- 7720456504063704"]) simp_all
  have w: "fl (1 - \<bar>- (965057063007963 / 1125899906842624)\<bar>) = 160842843834661 / 1125899906842624"
    by (rule fl_dyadic[where s = 55 and n = "5146971002709152"]) simp_all
  have x: "fl (3152519739159347 / 4503599627370496 * (160842843834661 / 1125899906842624)) = 1801439850948203 / 18014398509481984"
    by (rule fl_dyadic[where s = 56 and n = "7205759403792812"]) simp_all
  have y: "fl (1801439850948203 / 18014398509481984 + 1351079888211149 / 9007199254740992) = 4503599627370501 / 18014398509481984"
    by (rule fl_dyadic[where s = 54 and n = "4503599627370501"]) simp_all
  have z: "fl (4503599627370501 / 18014398509481984 * 255) = 4486007441326085 / 70368744177664"
    by (rule fl_dyadic[where s = 47 and n = "8972014882652170"]) simp_all
  have n: "round (4486007441326085 / 70368744177664 :: real) = 64"
    by (rule round_near) simp_all
  show ?thesis
    unfolding hslToRgb_70_50 Let_def f h t r u w x y z n by simp
qed

lemma hsl_4_11:
  "hslToRgb (fl (fl (4 / 11) * 360)) 70 50 = (38, 217, 71)"
proof -
  have f: "fl (4 / 11) = 3275345183542179 / 9007199254740992"
    by (rule fl_dyadic[where s = 54 and n = "6550690367084358"]) simp_all
  have h: "fl (3275345183542179 / 9007199254740992 * 360) = 4605954164356189 / 35184372088832"
    by (rule fl_dyadic[where s = 45 and n = "4605954164356189"]) simp_all
  have t: "fl (4605954164356189 / 35184372088832 / 60) = 1228254443828317 / 562949953421312"
    by (rule fl_dyadic[where s = 51 and n = "4913017775313268"]) simp_all
  have r: "jsRem (1228254443828317 / 562949953421312) 2 = 102354536985693 / 562949953421312"
    by (rule jsRem_quotient[where q = 1]) simp_all
  have u: "fl (102354536985693 / 562949953421312 - 1) = - (460595416435619 / 562949953421312)"
    by (rule fl_dyadic[where s = 53 and n = "- 7369526662969904"]) simp_all
  have w: "fl (1 - \<bar>- (460595416435619 / 562949953421312)\<bar>) = 102354536985693 / 562949953421312"
    by (rule fl_dyadic[where s = 55 and n = "6550690367084352"]) simp_all
  have x: "fl (3152519739159347 / 4503599627370496 * (102354536985693 / 562949953421312)) = 2292741628479523 / 18014398509481984"
    by (rule fl_dyadic[where s = 55 and n = "4585483256959046"]) simp_all
  have y: "fl (2292741628479523 / 18014398509481984 + 1351079888211149 / 9007199254740992) = 4994901404901821 / 18014398509481984"
    by (rule fl_dyadic[where s = 54 and n = "4994901404901821"]) simp_all
  have z: "fl (4994901404901821 / 18014398509481984 * 255) = 4975390071288923 / 70368744177664"
    by (rule fl_dyadic[where s = 46 and n = "4975390071288923"]) simp_all
  have n: "round (4975390071288923 / 70368744177664 :: real) = 71"
    by (rule round_near) simp_all
  show ?thesis
    unfolding hslToRgb_70_50 Let_def f h t r u w x y z n by simp
qed

lemma hsl_3_8:
  "hslToRgb (fl (fl (3 / 8) * 360)) 70 50 = (38, 217, 83)"
proof -
  have f: "fl (3 / 8) = 3 / 8"
    by (rule fl_dyadic[where s = 54 and n = "6755399441055744"]) simp_all
  have h: "fl (3 / 8 * 360) = 135"
    by (rule fl_dyadic[where s = 45 and n = "4749890231992320"]) simp_all
  have t: "fl (135 / 60) = 9 / 4"
    by (rule fl_dyadic[where s = 51 and n = "5066549580791808"]) simp_all
  have r: "jsRem (9 / 4) 2 = 1 / 4"
    by (rule jsRem_quotient[where q = 1]) simp_all
  have u: "fl (1 / 4 - 1) = - (3 / 4)"
    by (rule fl_dyadic[where s = 53 and n = "- 6755399441055744"]) simp_all
  have w: "fl (1 - \<bar>- (3 / 4)\<bar>) = 1 / 4"
    by (rule fl_dyadic[where s = 54 and n = "4503599627370496"]) simp_all
  have x: "fl (3152519739159347 / 4503599627370496 * (1 / 4)) = 3152519739159347 / 18014398509481984"
    by (rule fl_dyadic[where s = 55 and n = "6305039478318694"]) simp_all
  have y: "fl (3152519739159347 / 18014398509481984 + 1351079888211149 / 9007199254740992) = 5854679515581645 / 18014398509481984"
    by (rule fl_dyadic[where s = 54 and n = "5854679515581645"]) simp_all
  have z: "fl (5854679515581645 / 18014398509481984 * 255) = 663 / 8"
    by (rule fl_dyadic[where s = 46 and n = "5831809673723904"]) simp_all
  have n: "round (663 / 8 :: real) = 83"
    by (rule round_near) simp_all
  show ?thesis
    unfolding hslToRgb_70_50 Let_def f h t r u w x y z n by simp
qed

lemma hsl_5_13:
  "hslToRgb (fl (fl (5 / 13) * 360)) 70 50 = (38, 217, 93)"
proof -
  have f: "fl (5 / 13) = 6928614811339225 / 18014398509481984"
    by (rule fl_dyadic[where s = 54 and n = "6928614811339225"]) simp_all
  have h: "fl (6928614811339225 / 18014398509481984 * 360) = 4871682289222893 / 35184372088832"
    by (rule fl_dyadic[where s = 45 and n = "4871682289222893"]) simp_all
  have t: "fl (4871682289222893 / 35184372088832 / 60) = 5196461108504419 / 2251799813685248"
    by (rule fl_dyadic[where s = 51 and n = "5196461108504419"]) simp_all
  have r: "jsRem (5196461108504419 / 2251799813685248) 2 = 692861481133923 / 2251799813685248"
    by (rule jsRem_quotient[where q = 1]) simp_all
  have u: "fl (692861481133923 / 2251799813685248 - 1) = - (1558938332551325 / 2251799813685248)"
    by (rule fl_dyadic[where s = 53 and n = "- 6235753330205300"]) simp_all
  have w: "fl (1 - \<bar>- (1558938332551325 / 2251799813685248)\<bar>) = 692861481133923 / 2251799813685248"
    by (rule fl_dyadic[where s = 54 and n = "5542891849071384"]) simp_all
  have x: "fl (3152519739159347 / 4503599627370496 * (692861481133923 / 2251799813685248)) = 7760048588699937 / 36028797018963968"
    by (rule fl_dyadic[where s = 55 and n = "7760048588699937"]) simp_all
  have y: "fl (7760048588699937 / 36028797018963968 + 1351079888211149 / 9007199254740992) = 3291092035386133 / 9007199254740992"
    by (rule fl_dyadic_tie[where s = 54 and f = "6582184070772266"]) simp_all
  have z: "fl (3291092035386133 / 9007199254740992 * 255) = 1639118103561453 / 17592186044416"
    by (rule fl_dyadic[where s = 46 and n = "6556472414245812"]) simp_all
  have n: "round (1639118103561453 / 17592186044416 :: real) = 93"
    by (rule round_near) simp_all
  show ?thesis
    unfolding hslToRgb_70_50 Let_def f h t r u w x y z n by simp
qed

lemma hsl_2_5:
  "hslToRgb (fl (fl (2 / 5) * 360)) 70 50 = (38, 217, 110)"
proof -
  have f: "fl (2 / 5) = 3602879701896397 / 9007199254740992"
    by (rule fl_dyadic[where s = 54 and n = "7205759403792794"]) simp_all
  have h: "fl (3602879701896397 / 9007199254740992 * 360) = 144"
    by (rule fl_dyadic[where s = 45 and n = "5066549580791808"]) simp_all
  have t: "fl (144 / 60) = 5404319552844595 / 2251799813685248"
    by (rule fl_dyadic[where s = 51 and n = "5404319552844595"]) simp_all
  have r: "jsRem (5404319552844595 / 2251799813685248) 2 = 900719925474099 / 2251799813685248"
    by (rule jsRem_quotient[where q = 1]) simp_all
  have u: "fl (900719925474099 / 2251799813685248 - 1) = - (1351079888211149 / 2251799813685248)"
    by (rule fl_dyadic[where s = 53 and n = "- 5404319552844596"]) simp_all
  have w: "fl (1 - \<bar>- (1351079888211149 / 2251799813685248)\<bar>) = 900719925474099 / 2251799813685248"
    by (rule fl_dyadic[where s = 54 and n = "7205759403792792"]) simp_all
  have x: "fl (3152519739159347 / 4503599627370496 * (900719925474099 / 2251799813685248)) = 2522015791327477 / 9007199254740992"
    by (rule fl_dyadic[where s = 54 and n = "5044031582654954"]) simp_all
  have y: "fl (2522015791327477 / 9007199254740992 + 1351079888211149 / 9007199254740992) = 1936547839769313 / 4503599627370496"
    by (rule fl_dyadic[where s = 54 and n = "7746191359077252"]) simp_all
  have z: "fl (1936547839769313 / 4503599627370496 * 255) = 964491599885107 / 8796093022208"
    by (rule fl_dyadic[where s = 46 and n = "7715932799080856"]) simp_all
  have n: "round (964491599885107 / 8796093022208 :: real) = 110"
    by (rule round_near) simp_all
  show ?thesis
    unfolding hslToRgb_70_50 Let_def f h t r u w x y z n by simp
qed

lemma hsl_5_12:
  "hslToRgb (fl (fl (5 / 12) * 360)) 70 50 = (38, 217, 128)"
proof -
  have f: "fl (5 / 12) = 7505999378950827 / 18014398509481984"
    by (rule fl_dyadic[where s = 54 and n = "7505999378950827"]) simp_all
  have h: "fl (7505999378950827 / 18014398509481984 * 360) = 150"
    by (rule fl_dyadic[where s = 45 and n = "5277655813324800"]) simp_all
  have t: "fl (150 / 60) = 5 / 2"
    by (rule fl_dyadic[where s = 51 and n = "5629499534213120"]) simp_all
  have r: "jsRem (5 / 2) 2 = 1 / 2"
    by (rule jsRem_quotient[where q = 1]) simp_all
  have u: "fl (1 / 2 - 1) = - (1 / 2)"
    by (rule fl_dyadic[where s = 53 and n = "- 4503599627370496"]) simp_all
  have w: "fl (1 - \<bar>- (1 / 2)\<bar>) = 1 / 2"
    by (rule fl_dyadic[where s = 53 and n = "4503599627370496"]) simp_all
  have x: "fl (3152519739159347 / 4503599627370496 * (1 / 2)) = 3152519739159347 / 9007199254740992"
    by (rule fl_dyadic[where s = 54 and n = "6305039478318694"]) simp_all
  have y: "fl (3152519739159347 / 9007199254740992 + 1351079888211149 / 9007199254740992) = 1 / 2"
    by (rule fl_dyadic[where s = 53 and n = "4503599627370496"]) simp_all
  have z: "fl (1 / 2 * 255) = 255 / 2"
    by (rule fl_dyadic[where s = 46 and n = "8972014882652160"]) simp_all
  have n: "round (255 / 2 :: real) = 128"
    by (rule round_near) simp_all
  show ?thesis
    unfolding hslToRgb_70_50 Let_def f h t r u w x y z n by simp
qed

lemma hsl_3_7:
  "hslToRgb (fl (fl (3 / 7) * 360)) 70 50 = (38, 217, 140)"
proof -
  have f: "fl (3 / 7) = 7720456504063707 / 18014398509481984"
    by (rule fl_dyadic[where s = 54 and n = "7720456504063707"]) simp_all
  have h: "fl (7720456504063707 / 18014398509481984 * 360) = 2714222989709897 / 17592186044416"
    by (rule fl_dyadic[where s = 45 and n = "5428445979419794"]) simp_all
  have t: "fl (2714222989709897 / 17592186044416 / 60) = 1447585594511945 / 562949953421312"
    by (rule fl_dyadic[where s = 51 and n = "5790342378047780"]) simp_all
  have r: "jsRem (1447585594511945 / 562949953421312) 2 = 321685687669321 / 562949953421312"
    by (rule jsRem_quotient[where q = 1]) simp_all
  have u: "fl (321685687669321 / 562949953421312 - 1) = - (241264265751991 / 562949953421312)"
    by (rule fl_dyadic[where s = 54 and n = "- 7720456504063712"]) simp_all
  have w: "fl (1 - \<bar>- (241264265751991 / 562949953421312)\<bar>) = 321685687669321 / 562949953421312"
    by (rule fl_dyadic[where s = 53 and n = "5146971002709136"]) simp_all
  have x: "fl (3152519739159347 / 4503599627370496 * (321685687669321 / 562949953421312)) = 3602879701896395 / 9007199254740992"
    by (rule fl_dyadic[where s = 54 and n = "7205759403792790"]) simp_all
  have y: "fl (3602879701896395 / 9007199254740992 + 1351079888211149 / 9007199254740992) = 619244948763443 / 1125899906842624"
    by (rule fl_dyadic[where s = 53 and n = "4953959590107544"]) simp_all
  have z: "fl (619244948763443 / 1125899906842624 * 255) = 2467304092729343 / 17592186044416"
    by (rule fl_dyadic[where s = 45 and n = "4934608185458686"]) simp_all
  have n: "round (2467304092729343 / 17592186044416 :: real) = 140"
    by (rule round_near) simp_all
  show ?thesis
    unfolding hslToRgb_70_50 Let_def f h t r u w x y z n by simp
qed

lemma hsl_7_16:
  "hslToRgb (fl (fl (7 / 16) * 360)) 70 50 = (38, 217, 150)"
proof -
  have f: "fl (7 / 16) = 7 / 16"
    by (rule fl_dyadic[where s = 54 and n = "7881299347898368"]) simp_all
  have h: "fl (7 / 16 * 360) = 315 / 2"
    by (rule fl_dyadic[where s = 45 and n = "5541538603991040"]) simp_all
  have t: "fl (315 / 2 / 60) = 21 / 8"
    by (rule fl_dyadic[where s = 51 and n = "5910974510923776"]) simp_all
  have r: "jsRem (21 / 8) 2 = 5 / 8"
    by (rule jsRem_quotient[where q = 1]) simp_all
  have u: "fl (5 / 8 - 1) = - (3 / 8)"
    by (rule fl_dyadic[where s = 54 and n = "- 6755399441055744"]) simp_all
  have w: "fl (1 - \<bar>- (3 / 8)\<bar>) = 5 / 8"
    by (rule fl_dyadic[where s = 53 and n = "5629499534213120"]) simp_all
  have x: "fl (3152519739159347 / 4503599627370496 * (5 / 8)) = 7 / 16"
    by (rule fl_dyadic_tie[where s = 54 and f = "7881299347898367"]) simp_all
  have y: "fl (7 / 16 + 1351079888211149 / 9007199254740992) = 5291729562160333 / 9007199254740992"
    by (rule fl_dyadic[where s = 53 and n = "5291729562160333"]) simp_all
  have z: "fl (5291729562160333 / 9007199254740992 * 255) = 2397 / 16"
    by (rule fl_dyadic[where s = 45 and n = "5271058743558144"]) simp_all
  have n: "round (2397 / 16 :: real) = 150"
    by (rule round_near) simp_all
  show ?thesis
    unfolding hslToRgb_70_50 Let_def f h t r u w x y z n by simp
qed

lemma hsl_4_9:
  "hslToRgb (fl (fl (4 / 9) * 360)) 70 50 = (38, 217, 157)"
proof -
  have f: "fl (4 / 9) = 2001599834386887 / 4503599627370496"
    by (rule fl_dyadic[where s = 54 and n = "8006399337547548"]) simp_all
  have h: "fl (2001599834386887 / 4503599627370496 * 360) = 160"
    by (rule fl_dyadic[where s = 45 and n = "5629499534213120"]) simp_all
  have t: "fl (160 / 60) = 6004799503160661 / 2251799813685248"
    by (rule fl_dyadic[where s = 51 and n = "6004799503160661"]) simp_all
  have r: "jsRem (6004799503160661 / 2251799813685248) 2 = 1501199875790165 / 2251799813685248"
    by (rule jsRem_quotient[where q = 1]) simp_all
  have u: "fl (1501199875790165 / 2251799813685248 - 1) = - (750599937895083 / 2251799813685248)"
    by (rule fl_dyadic[where s = 54 and n = "- 6004799503160664"]) simp_all
  have w: "fl (1 - \<bar>- (750599937895083 / 2251799813685248)\<bar>) = 1501199875790165 / 2251799813685248"
    by (rule fl_dyadic[where s = 53 and n = "6004799503160660"]) simp_all
  have x: "fl (3152519739159347 / 4503599627370496 * (1501199875790165 / 2251799813685248)) = 8406719304424923 / 18014398509481984"
    by (rule fl_dyadic[where s = 54 and n = "8406719304424923"]) simp_all
  have y: "fl (8406719304424923 / 18014398509481984 + 1351079888211149 / 9007199254740992) = 2777219770211805 / 4503599627370496"
    by (rule fl_dyadic_tie[where s = 53 and f = "5554439540423610"]) simp_all
  have z: "fl (2777219770211805 / 4503599627370496 * 255) = 2766371255484415 / 17592186044416"
    by (rule fl_dyadic[where s = 45 and n = "5532742510968830"]) simp_all
  have n: "round (2766371255484415 / 17592186044416 :: real) = 157"
    by (rule round_near) simp_all
  show ?thesis
    unfolding hslToRgb_70_50 Let_def f h t r u w x y z n by simp
qed

lemma hsl_5_11:
  "hslToRgb (fl (fl (5 / 11) * 360)) 70 50 = (38, 217, 168)"
proof -
  have f: "fl (5 / 11) = 8188362958855447 / 18014398509481984"
    by (rule fl_dyadic[where s = 54 and n = "8188362958855447"]) simp_all
  have h: "fl (8188362958855447 / 18014398509481984 * 360) = 1439360676361309 / 8796093022208"
    by (rule fl_dyadic[where s = 45 and n = "5757442705445236"]) simp_all
  have t: "fl (1439360676361309 / 8796093022208 / 60) = 6141272219141585 / 2251799813685248"
    by (rule fl_dyadic[where s = 51 and n = "6141272219141585"]) simp_all
  have r: "jsRem (6141272219141585 / 2251799813685248) 2 = 1637672591771089 / 2251799813685248"
    by (rule jsRem_quotient[where q = 1]) simp_all
  have u: "fl (1637672591771089 / 2251799813685248 - 1) = - (614127221914159 / 2251799813685248)"
    by (rule fl_dyadic[where s = 54 and n = "- 4913017775313272"]) simp_all
  have w: "fl (1 - \<bar>- (614127221914159 / 2251799813685248)\<bar>) = 1637672591771089 / 2251799813685248"
    by (rule fl_dyadic[where s = 53 and n = "6550690367084356"]) simp_all
  have x: "fl (3152519739159347 / 4503599627370496 * (1637672591771089 / 2251799813685248)) = 4585483256959049 / 9007199254740992"
    by (rule fl_dyadic[where s = 53 and n = "4585483256959049"]) simp_all
  have y: "fl (4585483256959049 / 9007199254740992 + 1351079888211149 / 9007199254740992) = 2968281572585099 / 4503599627370496"
    by (rule fl_dyadic[where s = 53 and n = "5936563145170198"]) simp_all
  have z: "fl (2968281572585099 / 4503599627370496 * 255) = 5913373445384377 / 35184372088832"
    by (rule fl_dyadic[where s = 45 and n = "5913373445384377"]) simp_all
  have n: "round (5913373445384377 / 35184372088832 :: real) = 168"
    by (rule round_near) simp_all
  show ?thesis
    unfolding hslToRgb_70_50 Let_def f h t r u w x y z n by simp
qed

lemma hsl_6_13:
  "hslToRgb (fl (fl (6 / 13) * 360)) 70 50 = (38, 217, 176)"
proof -
  have f: "fl (6 / 13) = 4157168886803535 / 9007199254740992"
    by (rule fl_dyadic[where s = 54 and n = "8314337773607070"]) simp_all
  have h: "fl (4157168886803535 / 9007199254740992 * 360) = 5846018747067471 / 35184372088832"
    by (rule fl_dyadic[where s = 45 and n = "5846018747067471"]) simp_all
  have t: "fl (5846018747067471 / 35184372088832 / 60) = 3117876665102651 / 1125899906842624"
    by (rule fl_dyadic[where s = 51 and n = "6235753330205302"]) simp_all
  have r: "jsRem (3117876665102651 / 1125899906842624) 2 = 866076851417403 / 1125899906842624"
    by (rule jsRem_quotient[where q = 1]) simp_all
  have u: "fl (866076851417403 / 1125899906842624 - 1) = - (259823055425221 / 1125899906842624)"
    by (rule fl_dyadic[where s = 55 and n = "- 8314337773607072"]) simp_all
  have w: "fl (1 - \<bar>- (259823055425221 / 1125899906842624)\<bar>) = 866076851417403 / 1125899906842624"
    by (rule fl_dyadic[where s = 53 and n = "6928614811339224"]) simp_all
  have x: "fl (3152519739159347 / 4503599627370496 * (866076851417403 / 1125899906842624)) = 303126897996091 / 562949953421312"
    by (rule fl_dyadic[where s = 53 and n = "4850030367937456"]) simp_all
  have y: "fl (303126897996091 / 562949953421312 + 1351079888211149 / 9007199254740992) = 6201110256148605 / 9007199254740992"
    by (rule fl_dyadic[where s = 53 and n = "6201110256148605"]) simp_all
  have z: "fl (6201110256148605 / 9007199254740992 * 255) = 6176887169210525 / 35184372088832"
    by (rule fl_dyadic[where s = 45 and n = "6176887169210525"]) simp_all
  have n: "round (6176887169210525 / 35184372088832 :: real) = 176"
    by (rule round_near) simp_all
  show ?thesis
    unfolding hslToRgb_70_50 Let_def f h t r u w x y z n by simp
qed

lemma hsl_7_15:
  "hslToRgb (fl (fl (7 / 15) * 360)) 70 50 = (38, 217, 181)"
proof -
  have f: "fl (7 / 15) = 4203359652212463 / 9007199254740992"
    by (rule fl_dyadic[where s = 54 and n = "8406719304424926"]) simp_all
  have h: "fl (4203359652212463 / 9007199254740992 * 360) = 168"
    by (rule fl_dyadic[where s = 45 and n = "5910974510923776"]) simp_all
  have t: "fl (168 / 60) = 3152519739159347 / 1125899906842624"
    by (rule fl_dyadic[where s = 51 and n = "6305039478318694"]) simp_all
  have r: "jsRem (3152519739159347 / 1125899906842624) 2 = 900719925474099 / 1125899906842624"
    by (rule jsRem_quotient[where q = 1]) simp_all
  have u: "fl (900719925474099 / 1125899906842624 - 1) = - (225179981368525 / 1125899906842624)"
    by (rule fl_dyadic[where s = 55 and n = "- 7205759403792800"]) simp_all
  have w: "fl (1 - \<bar>- (225179981368525 / 1125899906842624)\<bar>) = 900719925474099 / 1125899906842624"
    by (rule fl_dyadic[where s = 53 and n = "7205759403792792"]) simp_all
  have x: "fl (3152519739159347 / 4503599627370496 * (900719925474099 / 1125899906842624)) = 2522015791327477 / 4503599627370496"
    by (rule fl_dyadic[where s = 53 and n = "5044031582654954"]) simp_all
  have y: "fl (2522015791327477 / 4503599627370496 + 1351079888211149 / 9007199254740992) = 6395111470866103 / 9007199254740992"
    by (rule fl_dyadic[where s = 53 and n = "6395111470866103"]) simp_all
  have z: "fl (6395111470866103 / 9007199254740992 * 255) = 796266320835379 / 4398046511104"
    by (rule fl_dyadic[where s = 45 and n = "6370130566683032"]) simp_all
  have n: "round (796266320835379 / 4398046511104 :: real) = 181"
    by (rule round_near) simp_all
  show ?thesis
    unfolding hslToRgb_70_50 Let_def f h t r u w x y z n by simp
qed

lemma hsl_1_2:
  "hslToRgb (fl (fl (1 / 2) * 360)) 70 50 = (38, 217, 217)"
proof -
  have f: "fl (1 / 2) = 1 / 2"
    by (rule fl_dyadic[where s = 53 and n = "4503599627370496"]) simp_all
  have h: "fl (1 / 2 * 360) = 180"
    by (rule fl_dyadic[where s = 45 and n = "6333186975989760"]) simp_all
  have t: "fl (180 / 60) = 3"
    by (rule fl_dyadic[where s = 51 and n = "6755399441055744"]) simp_all
  have r: "jsRem (3) 2 = 1"
    by (rule jsRem_quotient[where q = 1]) simp_all
  have u: "fl (1 - 1) = 0"
    by (simp add: fl_0)
  have w: "fl (1 - \<bar>0\<bar>) = 1"
    by (rule fl_dyadic[where s = 52 and n = "4503599627370496"]) simp_all
  have x: "fl (3152519739159347 / 4503599627370496 * 1) = 3152519739159347 / 4503599627370496"
    by (rule fl_dyadic[where s = 53 and n = "6305039478318694"]) simp_all
  have y: "fl (3152519739159347 / 4503599627370496 + 1351079888211149 / 9007199254740992) = 7656119366529843 / 9007199254740992"
    by (rule fl_dyadic[where s = 53 and n = "7656119366529843"]) simp_all
  have z: "fl (7656119366529843 / 9007199254740992 * 255) = 867 / 4"
    by (rule fl_dyadic[where s = 45 and n = "7626212650254336"]) simp_all
  have n: "round (867 / 4 :: real) = 217"
    by (rule round_near) simp_all
  show ?thesis
    unfolding hslToRgb_70_50 Let_def f h t r u w x y z n by simp
qed

lemma hsl_8_15:
  "hslToRgb (fl (fl (8 / 15) * 360)) 70 50 = (38, 181, 217)"
proof -
  have f: "fl (8 / 15) = 4803839602528529 / 9007199254740992"
    by (rule fl_dyadic[where s = 53 and n = "4803839602528529"]) simp_all
  have h: "fl (4803839602528529 / 9007199254740992 * 360) = 192"
    by (rule fl_dyadic[where s = 45 and n = "6755399441055744"]) simp_all
  have t: "fl (192 / 60) = 3602879701896397 / 1125899906842624"
    by (rule fl_dyadic[where s = 51 and n = "7205759403792794"]) simp_all
  have r: "jsRem (3602879701896397 / 1125899906842624) 2 = 1351079888211149 / 1125899906842624"
    by (rule jsRem_quotient[where q = 1]) simp_all
  have u: "fl (1351079888211149 / 1125899906842624 - 1) = 225179981368525 / 1125899906842624"
    by (rule fl_dyadic[where s = 55 and n = "7205759403792800"]) simp_all
  have w: "fl (1 - \<bar>225179981368525 / 1125899906842624\<bar>) = 900719925474099 / 1125899906842624"
    by (rule fl_dyadic[where s = 53 and n = "7205759403792792"]) simp_all
  have x: "fl (3152519739159347 / 4503599627370496 * (900719925474099 / 1125899906842624)) = 2522015791327477 / 4503599627370496"
    by (rule fl_dyadic[where s = 53 and n = "5044031582654954"]) simp_all
  have y: "fl (2522015791327477 / 4503599627370496 + 1351079888211149 / 9007199254740992) = 6395111470866103 / 9007199254740992"
    by (rule fl_dyadic[where s = 53 and n = "6395111470866103"]) simp_all
  have z: "fl (6395111470866103 / 9007199254740992 * 255) = 796266320835379 / 4398046511104"
    by (rule fl_dyadic[where s = 45 and n = "6370130566683032"]) simp_all
  have n: "round (796266320835379 / 4398046511104 :: real) = 181"
    by (rule round_near) simp_all
  show ?thesis
    unfolding hslToRgb_70_50 Let_def f h t r u w x y z n by simp
qed

lemma hsl_7_13:
  "hslToRgb (fl (fl (7 / 13) * 360)) 70 50 = (38, 176, 217)"
proof -
  have f: "fl (7 / 13) = 4850030367937457 / 9007199254740992"
    by (rule fl_dyadic[where s = 53 and n = "4850030367937457"]) simp_all
  have h: "fl (4850030367937457 / 9007199254740992 * 360) = 6820355204912049 / 35184372088832"
    by (rule fl_dyadic[where s = 45 and n = "6820355204912049"]) simp_all
  have t: "fl (6820355204912049 / 35184372088832 / 60) = 3637522775953093 / 1125899906842624"
    by (rule fl_dyadic[where s = 51 and n = "7275045551906186"]) simp_all
  have r: "jsRem (3637522775953093 / 1125899906842624) 2 = 1385722962267845 / 1125899906842624"
    by (rule jsRem_quotient[where q = 1]) simp_all
  have u: "fl (1385722962267845 / 1125899906842624 - 1) = 259823055425221 / 1125899906842624"
    by (rule fl_dyadic[where s = 55 and n = "8314337773607072"]) simp_all
  have w: "fl (1 - \<bar>259823055425221 / 1125899906842624\<bar>) = 866076851417403 / 1125899906842624"
    by (rule fl_dyadic[where s = 53 and n = "6928614811339224"]) simp_all
  have x: "fl (3152519739159347 / 4503599627370496 * (866076851417403 / 1125899906842624)) = 303126897996091 / 562949953421312"
    by (rule fl_dyadic[where s = 53 and n = "4850030367937456"]) simp_all
  have y: "fl (303126897996091 / 562949953421312 + 1351079888211149 / 9007199254740992) = 6201110256148605 / 9007199254740992"
    by (rule fl_dyadic[where s = 53 and n = "6201110256148605"]) simp_all
  have z: "fl (6201110256148605 / 9007199254740992 * 255) = 6176887169210525 / 35184372088832"
    by (rule fl_dyadic[where s = 45 and n = "6176887169210525"]) simp_all
  have n: "round (6176887169210525 / 35184372088832 :: real) = 176"
    by (rule round_near) simp_all
  show ?thesis
    unfolding hslToRgb_70_50 Let_def f h t r u w x y z n by simp
qed

lemma hsl_6_11:
  "hslToRgb (fl (fl (6 / 11) * 360)) 70 50 = (38, 168, 217)"
proof -
  have f: "fl (6 / 11) = 1228254443828317 / 2251799813685248"
    by (rule fl_dyadic[where s = 53 and n = "4913017775313268"]) simp_all
  have h: "fl (1228254443828317 / 2251799813685248 * 360) = 6908931246534283 / 35184372088832"
    by (rule fl_dyadic[where s = 45 and n = "6908931246534283"]) simp_all
  have t: "fl (6908931246534283 / 35184372088832 / 60) = 3684763331484951 / 1125899906842624"
    by (rule fl_dyadic[where s = 51 and n = "7369526662969902"]) simp_all
  have r: "jsRem (3684763331484951 / 1125899906842624) 2 = 1432963517799703 / 1125899906842624"
    by (rule jsRem_quotient[where q = 1]) simp_all
  have u: "fl (1432963517799703 / 1125899906842624 - 1) = 307063610957079 / 1125899906842624"
    by (rule fl_dyadic[where s = 54 and n = "4913017775313264"]) simp_all
  have w: "fl (1 - \<bar>307063610957079 / 1125899906842624\<bar>) = 818836295885545 / 1125899906842624"
    by (rule fl_dyadic[where s = 53 and n = "6550690367084360"]) simp_all
  have x: "fl (3152519739159347 / 4503599627370496 * (818836295885545 / 1125899906842624)) = 1146370814239763 / 2251799813685248"
    by (rule fl_dyadic[where s = 53 and n = "4585483256959052"]) simp_all
  have y: "fl (1146370814239763 / 2251799813685248 + 1351079888211149 / 9007199254740992) = 5936563145170201 / 9007199254740992"
    by (rule fl_dyadic[where s = 53 and n = "5936563145170201"]) simp_all
  have z: "fl (5936563145170201 / 9007199254740992 * 255) = 1478343361346095 / 8796093022208"
    by (rule fl_dyadic[where s = 45 and n = "5913373445384380"]) simp_all
  have n: "round (1478343361346095 / 8796093022208 :: real) = 168"
    by (rule round_near) simp_all
  show ?thesis
    unfolding hslToRgb_70_50 Let_def f h t r u w x y z n by simp
qed

lemma hsl_5_9:
  "hslToRgb (fl (fl (5 / 9) * 360)) 70 50 = (38, 157, 217)"
proof -
  have f: "fl (5 / 9) = 2501999792983609 / 4503599627370496"
    by (rule fl_dyadic[where s = 53 and n = "5003999585967218"]) simp_all
  have h: "fl (2501999792983609 / 4503599627370496 * 360) = 200"
    by (rule fl_dyadic[where s = 45 and n = "7036874417766400"]) simp_all
  have t: "fl (200 / 60) = 7505999378950827 / 2251799813685248"
    by (rule fl_dyadic[where s = 51 and n = "7505999378950827"]) simp_all
  have r: "jsRem (7505999378950827 / 2251799813685248) 2 = 3002399751580331 / 2251799813685248"
    by (rule jsRem_quotient[where q = 1]) simp_all
  have u: "fl (3002399751580331 / 2251799813685248 - 1) = 750599937895083 / 2251799813685248"
    by (rule fl_dyadic[where s = 54 and n = "6004799503160664"]) simp_all
  have w: "fl (1 - \<bar>750599937895083 / 2251799813685248\<bar>) = 1501199875790165 / 2251799813685248"
    by (rule fl_dyadic[where s = 53 and n = "6004799503160660"]) simp_all
  have x: "fl (3152519739159347 / 4503599627370496 * (1501199875790165 / 2251799813685248)) = 8406719304424923 / 18014398509481984"
    by (rule fl_dyadic[where s = 54 and n = "8406719304424923"]) simp_all
  have y: "fl (8406719304424923 / 18014398509481984 + 1351079888211149 / 9007199254740992) = 2777219770211805 / 4503599627370496"
    by (rule fl_dyadic_tie[where s = 53 and f = "5554439540423610"]) simp_all
  have z: "fl (2777219770211805 / 4503599627370496 * 255) = 2766371255484415 / 17592186044416"
    by (rule fl_dyadic[where s = 45 and n = "5532742510968830"]) simp_all
  have n: "round (2766371255484415 / 17592186044416 :: real) = 157"
    by (rule round_near) simp_all
  show ?thesis
    unfolding hslToRgb_70_50 Let_def f h t r u w x y z n by simp
qed

lemma hsl_9_16:
  "hslToRgb (fl (fl (9 / 16) * 360)) 70 50 = (38, 150, 217)"
proof -
  have f: "fl (9 / 16) = 9 / 16"
    by (rule fl_dyadic[where s = 53 and n = "5066549580791808"]) simp_all
  have h: "fl (9 / 16 * 360) = 405 / 2"
    by (rule fl_dyadic[where s = 45 and n = "7124835347988480"]) simp_all
  have t: "fl (405 / 2 / 60) = 27 / 8"
    by (rule fl_dyadic[where s = 51 and n = "7599824371187712"]) simp_all
  have r: "jsRem (27 / 8) 2 = 11 / 8"
    by (rule jsRem_quotient[where q = 1]) simp_all
  have u: "fl (11 / 8 - 1) = 3 / 8"
    by (rule fl_dyadic[where s = 54 and n = "6755399441055744"]) simp_all
  have w: "fl (1 - \<bar>3 / 8\<bar>) = 5 / 8"
    by (rule fl_dyadic[where s = 53 and n = "5629499534213120"]) simp_all
  have x: "fl (3152519739159347 / 4503599627370496 * (5 / 8)) = 7 / 16"
    by (rule fl_dyadic_tie[where s = 54 and f = "7881299347898367"]) simp_all
  have y: "fl (7 / 16 + 1351079888211149 / 9007199254740992) = 5291729562160333 / 9007199254740992"
    by (rule fl_dyadic[where s = 53 and n = "5291729562160333"]) simp_all
  have z: "fl (5291729562160333 / 9007199254740992 * 255) = 2397 / 16"
    by (rule fl_dyadic[where s = 45 and n = "5271058743558144"]) simp_all
  have n: "round (2397 / 16 :: real) = 150"
    by (rule round_near) simp_all
  show ?thesis
    unfolding hslToRgb_70_50 Let_def f h t r u w x y z n by simp
qed

lemma hsl_4_7:
  "hslToRgb (fl (fl (4 / 7) * 360)) 70 50 = (38, 140, 217)"
proof -
  have f: "fl (4 / 7) = 2573485501354569 / 4503599627370496"
    by (rule fl_dyadic[where s = 53 and n = "5146971002709138"]) simp_all
  have h: "fl (2573485501354569 / 4503599627370496 * 360) = 7237927972559725 / 35184372088832"
    by (rule fl_dyadic[where s = 45 and n = "7237927972559725"]) simp_all
  have t: "fl (7237927972559725 / 35184372088832 / 60) = 7720456504063707 / 2251799813685248"
    by (rule fl_dyadic[where s = 51 and n = "7720456504063707"]) simp_all
  have r: "jsRem (7720456504063707 / 2251799813685248) 2 = 3216856876693211 / 2251799813685248"
    by (rule jsRem_quotient[where q = 1]) simp_all
  have u: "fl (3216856876693211 / 2251799813685248 - 1) = 965057063007963 / 2251799813685248"
    by (rule fl_dyadic[where s = 54 and n = "7720456504063704"]) simp_all
  have w: "fl (1 - \<bar>965057063007963 / 2251799813685248\<bar>) = 1286742750677285 / 2251799813685248"
    by (rule fl_dyadic[where s = 53 and n = "5146971002709140"]) simp_all
  have x: "fl (3152519739159347 / 4503599627370496 * (1286742750677285 / 2251799813685248)) = 1801439850948199 / 4503599627370496"
    by (rule fl_dyadic[where s = 54 and n = "7205759403792796"]) simp_all
  have y: "fl (1801439850948199 / 4503599627370496 + 1351079888211149 / 9007199254740992) = 4953959590107547 / 9007199254740992"
    by (rule fl_dyadic[where s = 53 and n = "4953959590107547"]) simp_all
  have z: "fl (4953959590107547 / 9007199254740992 * 255) = 4934608185458689 / 35184372088832"
    by (rule fl_dyadic[where s = 45 and n = "4934608185458689"]) simp_all
  have n: "round (4934608185458689 / 35184372088832 :: real) = 140"
    by (rule round_near) simp_all
  show ?thesis
    unfolding hslToRgb_70_50 Let_def f h t r u w x y z n by simp
qed

lemma hsl_7_12:
  "hslToRgb (fl (fl (7 / 12) * 360)) 70 50 = (38, 128, 217)"
proof -
  have f: "fl (7 / 12) = 5254199565265579 / 9007199254740992"
    by (rule fl_dyadic[where s = 53 and n = "5254199565265579"]) simp_all
  have h: "fl (5254199565265579 / 9007199254740992 * 360) = 210"
    by (rule fl_dyadic[where s = 45 and n = "7388718138654720"]) simp_all
  have t: "fl (210 / 60) = 7 / 2"
    by (rule fl_dyadic[where s = 51 and n = "7881299347898368"]) simp_all
  have r: "jsRem (7 / 2) 2 = 3 / 2"
    by (rule jsRem_quotient[where q = 1]) simp_all
  have u: "fl (3 / 2 - 1) = 1 / 2"
    by (rule fl_dyadic[where s = 53 and n = "4503599627370496"]) simp_all
  have w: "fl (1 - \<bar>1 / 2\<bar>) = 1 / 2"
    by (rule fl_dyadic[where s = 53 and n = "4503599627370496"]) simp_all
  have x: "fl (3152519739159347 / 4503599627370496 * (1 / 2)) = 3152519739159347 / 9007199254740992"
    by (rule fl_dyadic[where s = 54 and n = "6305039478318694"]) simp_all
  have y: "fl (3152519739159347 / 9007199254740992 + 1351079888211149 / 9007199254740992) = 1 / 2"
    by (rule fl_dyadic[where s = 53 and n = "4503599627370496"]) simp_all
  have z: "fl (1 / 2 * 255) = 255 / 2"
    by (rule fl_dyadic[where s = 46 and n = "8972014882652160"]) simp_all
  have n: "round (255 / 2 :: real) = 128"
    by (rule round_near) simp_all
  show ?thesis
    unfolding hslToRgb_70_50 Let_def f h t r u w x y z n by simp
qed

lemma hsl_3_5:
  "hslToRgb (fl (fl (3 / 5) * 360)) 70 50 = (38, 110, 217)"
proof -
  have f: "fl (3 / 5) = 5404319552844595 / 9007199254740992"
    by (rule fl_dyadic[where s = 53 and n = "5404319552844595"]) simp_all
  have h: "fl (5404319552844595 / 9007199254740992 * 360) = 216"
    by (rule fl_dyadic[where s = 45 and n = "7599824371187712"]) simp_all
  have t: "fl (216 / 60) = 8106479329266893 / 2251799813685248"
    by (rule fl_dyadic[where s = 51 and n = "8106479329266893"]) simp_all
  have r: "jsRem (8106479329266893 / 2251799813685248) 2 = 3602879701896397 / 2251799813685248"
    by (rule jsRem_quotient[where q = 1]) simp_all
  have u: "fl (3602879701896397 / 2251799813685248 - 1) = 1351079888211149 / 2251799813685248"
    by (rule fl_dyadic[where s = 53 and n = "5404319552844596"]) simp_all
  have w: "fl (1 - \<bar>1351079888211149 / 2251799813685248\<bar>) = 900719925474099 / 2251799813685248"
    by (rule fl_dyadic[where s = 54 and n = "7205759403792792"]) simp_all
  have x: "fl (3152519739159347 / 4503599627370496 * (900719925474099 / 2251799813685248)) = 2522015791327477 / 9007199254740992"
    by (rule fl_dyadic[where s = 54 and n = "5044031582654954"]) simp_all
  have y: "fl (2522015791327477 / 9007199254740992 + 1351079888211149 / 9007199254740992) = 1936547839769313 / 4503599627370496"
    by (rule fl_dyadic[where s = 54 and n = "7746191359077252"]) simp_all
  have z: "fl (1936547839769313 / 4503599627370496 * 255) = 964491599885107 / 8796093022208"
    by (rule fl_dyadic[where s = 46 and n = "7715932799080856"]) simp_all
  have n: "round (964491599885107 / 8796093022208 :: real) = 110"
    by (rule round_near) simp_all
  show ?thesis
    unfolding hslToRgb_70_50 Let_def f h t r u w x y z n by simp
qed

lemma hsl_8_13:
  "hslToRgb (fl (fl (8 / 13) * 360)) 70 50 = (38, 93, 217)"
proof -
  have f: "fl (8 / 13) = 1385722962267845 / 2251799813685248"
    by (rule fl_dyadic[where s = 53 and n = "5542891849071380"]) simp_all
  have h: "fl (1385722962267845 / 2251799813685248 * 360) = 1948672915689157 / 8796093022208"
    by (rule fl_dyadic[where s = 45 and n = "7794691662756628"]) simp_all
  have t: "fl (1948672915689157 / 8796093022208 / 60) = 4157168886803535 / 1125899906842624"
    by (rule fl_dyadic[where s = 51 and n = "8314337773607070"]) simp_all
  have r: "jsRem (4157168886803535 / 1125899906842624) 2 = 1905369073118287 / 1125899906842624"
    by (rule jsRem_quotient[where q = 1]) simp_all
  have u: "fl (1905369073118287 / 1125899906842624 - 1) = 779469166275663 / 1125899906842624"
    by (rule fl_dyadic[where s = 53 and n = "6235753330205304"]) simp_all
  have w: "fl (1 - \<bar>779469166275663 / 1125899906842624\<bar>) = 346430740566961 / 1125899906842624"
    by (rule fl_dyadic[where s = 54 and n = "5542891849071376"]) simp_all
  have x: "fl (3152519739159347 / 4503599627370496 * (346430740566961 / 1125899906842624)) = 3880024294349963 / 18014398509481984"
    by (rule fl_dyadic[where s = 55 and n = "7760048588699926"]) simp_all
  have y: "fl (3880024294349963 / 18014398509481984 + 1351079888211149 / 9007199254740992) = 6582184070772261 / 18014398509481984"
    by (rule fl_dyadic[where s = 54 and n = "6582184070772261"]) simp_all
  have z: "fl (6582184070772261 / 18014398509481984 * 255) = 6556472414245807 / 70368744177664"
    by (rule fl_dyadic[where s = 46 and n = "6556472414245807"]) simp_all
  have n: "round (6556472414245807 / 70368744177664 :: real) = 93"
    by (rule round_near) simp_all
  show ?thesis
    unfolding hslToRgb_70_50 Let_def f h t r u w x y z n by simp
qed

lemma hsl_5_8:
  "hslToRgb (fl (fl (5 / 8) * 360)) 70 50 = (38, 83, 217)"
proof -
  have f: "fl (5 / 8) = 5 / 8"
    by (rule fl_dyadic[where s = 53 and n = "5629499534213120"]) simp_all
  have h: "fl (5 / 8 * 360) = 225"
    by (rule fl_dyadic[where s = 45 and n = "7916483719987200"]) simp_all
  have t: "fl (225 / 60) = 15 / 4"
    by (rule fl_dyadic[where s = 51 and n = "8444249301319680"]) simp_all
  have r: "jsRem (15 / 4) 2 = 7 / 4"
    by (rule jsRem_quotient[where q = 1]) simp_all
  have u: "fl (7 / 4 - 1) = 3 / 4"
    by (rule fl_dyadic[where s = 53 and n = "6755399441055744"]) simp_all
  have w: "fl (1 - \<bar>3 / 4\<bar>) = 1 / 4"
    by (rule fl_dyadic[where s = 54 and n = "4503599627370496"]) simp_all
  have x: "fl (3152519739159347 / 4503599627370496 * (1 / 4)) = 3152519739159347 / 18014398509481984"
    by (rule fl_dyadic[where s = 55 and n = "6305039478318694"]) simp_all
  have y: "fl (3152519739159347 / 18014398509481984 + 1351079888211149 / 9007199254740992) = 5854679515581645 / 18014398509481984"
    by (rule fl_dyadic[where s = 54 and n = "5854679515581645"]) simp_all
  have z: "fl (5854679515581645 / 18014398509481984 * 255) = 663 / 8"
    by (rule fl_dyadic[where s = 46 and n = "5831809673723904"]) simp_all
  have n: "round (663 / 8 :: real) = 83"
    by (rule round_near) simp_all
  show ?thesis
    unfolding hslToRgb_70_50 Let_def f h t r u w x y z n by simp
qed

lemma hsl_7_11:
  "hslToRgb (fl (fl (7 / 11) * 360)) 70 50 = (38, 71, 217)"
proof -
  have f: "fl (7 / 11) = 5731854071198813 / 9007199254740992"
    by (rule fl_dyadic[where s = 53 and n = "5731854071198813"]) simp_all
  have h: "fl (5731854071198813 / 9007199254740992 * 360) = 8060419787623331 / 35184372088832"
    by (rule fl_dyadic[where s = 45 and n = "8060419787623331"]) simp_all
  have t: "fl (8060419787623331 / 35184372088832 / 60) = 2149445276699555 / 562949953421312"
    by (rule fl_dyadic[where s = 51 and n = "8597781106798220"]) simp_all
  have r: "jsRem (2149445276699555 / 562949953421312) 2 = 1023545369856931 / 562949953421312"
    by (rule jsRem_quotient[where q = 1]) simp_all
  have u: "fl (1023545369856931 / 562949953421312 - 1) = 460595416435619 / 562949953421312"
    by (rule fl_dyadic[where s = 53 and n = "7369526662969904"]) simp_all
  have w: "fl (1 - \<bar>460595416435619 / 562949953421312\<bar>) = 102354536985693 / 562949953421312"
    by (rule fl_dyadic[where s = 55 and n = "6550690367084352"]) simp_all
  have x: "fl (3152519739159347 / 4503599627370496 * (102354536985693 / 562949953421312)) = 2292741628479523 / 18014398509481984"
    by (rule fl_dyadic[where s = 55 and n = "4585483256959046"]) simp_all
  have y: "fl (2292741628479523 / 18014398509481984 + 1351079888211149 / 9007199254740992) = 4994901404901821 / 18014398509481984"
    by (rule fl_dyadic[where s = 54 and n = "4994901404901821"]) simp_all
  have z: "fl (4994901404901821 / 18014398509481984 * 255) = 4975390071288923 / 70368744177664"
    by (rule fl_dyadic[where s = 46 and n = "4975390071288923"]) simp_all
  have n: "round (4975390071288923 / 70368744177664 :: real) = 71"
    by (rule round_near) simp_all
  show ?thesis
    unfolding hslToRgb_70_50 Let_def f h t r u w x y z n by simp
qed

lemma hsl_9_14:
  "hslToRgb (fl (fl (9 / 14) * 360)) 70 50 = (38, 64, 217)"
proof -
  have f: "fl (9 / 14) = 5790342378047781 / 9007199254740992"
    by (rule fl_dyadic[where s = 53 and n = "5790342378047781"]) simp_all
  have h: "fl (5790342378047781 / 9007199254740992 * 360) = 2035667242282423 / 8796093022208"
    by (rule fl_dyadic[where s = 45 and n = "8142668969129692"]) simp_all
  have t: "fl (2035667242282423 / 8796093022208 / 60) = 8685513567071671 / 2251799813685248"
    by (rule fl_dyadic[where s = 51 and n = "8685513567071671"]) simp_all
  have r: "jsRem (8685513567071671 / 2251799813685248) 2 = 4181913939701175 / 2251799813685248"
    by (rule jsRem_quotient[where q = 1]) simp_all
  have u: "fl (4181913939701175 / 2251799813685248 - 1) = 1930114126015927 / 2251799813685248"
    by (rule fl_dyadic[where s = 53 and n = "7720456504063708"]) simp_all
  have w: "fl (1 - \<bar>1930114126015927 / 2251799813685248\<bar>) = 321685687669321 / 2251799813685248"
    by (rule fl_dyadic[where s = 55 and n = "5146971002709136"]) simp_all
  have x: "fl (3152519739159347 / 4503599627370496 * (321685687669321 / 2251799813685248)) = 3602879701896395 / 36028797018963968"
    by (rule fl_dyadic[where s = 56 and n = "7205759403792790"]) simp_all
  have y: "fl (3602879701896395 / 36028797018963968 + 1351079888211149 / 9007199254740992) = 9007199254740991 / 36028797018963968"
    by (rule fl_dyadic[where s = 55 and n = "9007199254740991"]) simp_all
  have z: "fl (9007199254740991 / 36028797018963968 * 255) = 8972014882652159 / 140737488355328"
    by (rule fl_dyadic[where s = 47 and n = "8972014882652159"]) simp_all
  have n: "round (8972014882652159 / 140737488355328 :: real) = 64"
    by (rule round_near) simp_all
  show ?thesis
    unfolding hslToRgb_70_50 Let_def f h t r u w x y z n by simp
qed

lemma hsl_2_3:
  "hslToRgb (fl (fl (2 / 3) * 360)) 70 50 = (38, 38, 217)"
proof -
  have f: "fl (2 / 3) = 6004799503160661 / 9007199254740992"
    by (rule fl_dyadic[where s = 53 and n = "6004799503160661"]) simp_all
  have h: "fl (6004799503160661 / 9007199254740992 * 360) = 240"
    by (rule fl_dyadic[where s = 45 and n = "8444249301319680"]) simp_all
  have t: "fl (240 / 60) = 4"
    by (rule fl_dyadic[where s = 50 and n = "4503599627370496"]) simp_all
  have r: "jsRem (4) 2 = 0"
    by (rule jsRem_quotient[where q = 2]) simp_all
  have u: "fl (0 - 1) = - 1"
    by (rule fl_dyadic[where s = 52 and n = "- 4503599627370496"]) simp_all
  have w: "fl (1 - \<bar>- 1\<bar>) = 0"
    by (simp add: fl_0)
  have x: "fl (3152519739159347 / 4503599627370496 * 0) = 0"
    by (simp add: fl_0)
  have y: "fl (0 + 1351079888211149 / 9007199254740992) = 1351079888211149 / 9007199254740992"
    by (rule fl_dyadic[where s = 55 and n = "5404319552844596"]) simp_all
  have z: "fl (1351079888211149 / 9007199254740992 * 255) = 5383208929591297 / 140737488355328"
    by (rule fl_dyadic[where s = 47 and n = "5383208929591297"]) simp_all
  have n: "round (5383208929591297 / 140737488355328 :: real) = 38"
    by (rule round_near) simp_all
  show ?thesis
    unfolding hslToRgb_70_50 Let_def f h t r u w x y z n by simp
qed

lemma hsl_11_16:
  "hslToRgb (fl (fl (11 / 16) * 360)) 70 50 = (61, 38, 217)"
proof -
  have f: "fl (11 / 16) = 11 / 16"
    by (rule fl_dyadic[where s = 53 and n = "6192449487634432"]) simp_all
  have h: "fl (11 / 16 * 360) = 495 / 2"
    by (rule fl_dyadic[where s = 45 and n = "8708132091985920"]) simp_all
  have t: "fl (495 / 2 / 60) = 33 / 8"
    by (rule fl_dyadic[where s = 50 and n = "4644337115725824"]) simp_all
  have r: "jsRem (33 / 8) 2 = 1 / 8"
    by (rule jsRem_quotient[where q = 2]) simp_all
  have u: "fl (1 / 8 - 1) = - (7 / 8)"
    by (rule fl_dyadic[where s = 53 and n = "- 7881299347898368"]) simp_all
  have w: "fl (1 - \<bar>- (7 / 8)\<bar>) = 1 / 8"
    by (rule fl_dyadic[where s = 55 and n = "4503599627370496"]) simp_all
  have x: "fl (3152519739159347 / 4503599627370496 * (1 / 8)) = 3152519739159347 / 36028797018963968"
    by (rule fl_dyadic[where s = 56 and n = "6305039478318694"]) simp_all
  have y: "fl (3152519739159347 / 36028797018963968 + 1351079888211149 / 9007199254740992) = 8556839292003943 / 36028797018963968"
    by (rule fl_dyadic[where s = 55 and n = "8556839292003943"]) simp_all
  have z: "fl (8556839292003943 / 36028797018963968 * 255) = 8523414138519553 / 140737488355328"
    by (rule fl_dyadic[where s = 47 and n = "8523414138519553"]) simp_all
  have n: "round (8523414138519553 / 140737488355328 :: real) = 61"
    by (rule round_near) simp_all
  show ?thesis
    unfolding hslToRgb_70_50 Let_def f h t r u w x y z n by simp
qed

lemma hsl_9_13:
  "hslToRgb (fl (fl (9 / 13) * 360)) 70 50 = (66, 38, 217)"
proof -
  have f: "fl (9 / 13) = 3117876665102651 / 4503599627370496"
    by (rule fl_dyadic[where s = 53 and n = "6235753330205302"]) simp_all
  have h: "fl (3117876665102651 / 4503599627370496 * 360) = 4384514060300603 / 17592186044416"
    by (rule fl_dyadic[where s = 45 and n = "8769028120601206"]) simp_all
  have t: "fl (4384514060300603 / 17592186044416 / 60) = 4676814997653977 / 1125899906842624"
    by (rule fl_dyadic[where s = 50 and n = "4676814997653977"]) simp_all
  have r: "jsRem (4676814997653977 / 1125899906842624) 2 = 173215370283481 / 1125899906842624"
    by (rule jsRem_quotient[where q = 2]) simp_all
  have u: "fl (173215370283481 / 1125899906842624 - 1) = - (952684536559143 / 1125899906842624)"
    by (rule fl_dyadic[where s = 53 and n = "- 7621476292473144"]) simp_all
  have w: "fl (1 - \<bar>- (952684536559143 / 1125899906842624)\<bar>) = 173215370283481 / 1125899906842624"
    by (rule fl_dyadic[where s = 55 and n = "5542891849071392"]) simp_all
  have x: "fl (3152519739159347 / 4503599627370496 * (173215370283481 / 1125899906842624)) = 1940012147174987 / 18014398509481984"
    by (rule fl_dyadic[where s = 56 and n = "7760048588699948"]) simp_all
  have y: "fl (1940012147174987 / 18014398509481984 + 1351079888211149 / 9007199254740992) = 4642171923597285 / 18014398509481984"
    by (rule fl_dyadic[where s = 54 and n = "4642171923597285"]) simp_all
  have z: "fl (4642171923597285 / 18014398509481984 * 255) = 4624038439520733 / 70368744177664"
    by (rule fl_dyadic[where s = 46 and n = "4624038439520733"]) simp_all
  have n: "round (4624038439520733 / 70368744177664 :: real) = 66"
    by (rule round_near) simp_all
  show ?thesis
    unfolding hslToRgb_70_50 Let_def f h t r u w x y z n by simp
qed

lemma hsl_7_10:
  "hslToRgb (fl (fl (7 / 10) * 360)) 70 50 = (74, 38, 217)"
proof -
  have f: "fl (7 / 10) = 3152519739159347 / 4503599627370496"
    by (rule fl_dyadic[where s = 53 and n = "6305039478318694"]) simp_all
  have h: "fl (3152519739159347 / 4503599627370496 * 360) = 8866461766385663 / 35184372088832"
    by (rule fl_dyadic[where s = 45 and n = "8866461766385663"]) simp_all
  have t: "fl (8866461766385663 / 35184372088832 / 60) = 1182194902184755 / 281474976710656"
    by (rule fl_dyadic[where s = 50 and n = "4728779608739020"]) simp_all
  have r: "jsRem (1182194902184755 / 281474976710656) 2 = 56294995342131 / 281474976710656"
    by (rule jsRem_quotient[where q = 2]) simp_all
  have u: "fl (56294995342131 / 281474976710656 - 1) = - (225179981368525 / 281474976710656)"
    by (rule fl_dyadic[where s = 53 and n = "- 7205759403792800"]) simp_all
  have w: "fl (1 - \<bar>- (225179981368525 / 281474976710656)\<bar>) = 56294995342131 / 281474976710656"
    by (rule fl_dyadic[where s = 55 and n = "7205759403792768"]) simp_all
  have x: "fl (3152519739159347 / 4503599627370496 * (56294995342131 / 281474976710656)) = 5044031582654937 / 36028797018963968"
    by (rule fl_dyadic[where s = 55 and n = "5044031582654937"]) simp_all
  have y: "fl (5044031582654937 / 36028797018963968 + 1351079888211149 / 9007199254740992) = 2612087783874883 / 9007199254740992"
    by (rule fl_dyadic_tie[where s = 54 and f = "5224175567749766"]) simp_all
  have z: "fl (2612087783874883 / 9007199254740992 * 255) = 5203768631938243 / 70368744177664"
    by (rule fl_dyadic[where s = 46 and n = "5203768631938243"]) simp_all
  have n: "round (5203768631938243 / 70368744177664 :: real) = 74"
    by (rule round_near) simp_all
  show ?thesis
    unfolding hslToRgb_70_50 Let_def f h t r u w x y z n by simp
qed

lemma hsl_5_7:
  "hslToRgb (fl (fl (5 / 7) * 360)) 70 50 = (89, 38, 217)"
proof -
  have f: "fl (5 / 7) = 6433713753386423 / 9007199254740992"
    by (rule fl_dyadic[where s = 53 and n = "6433713753386423"]) simp_all
  have h: "fl (6433713753386423 / 9007199254740992 * 360) = 4523704982849829 / 17592186044416"
    by (rule fl_dyadic[where s = 44 and n = "4523704982849829"]) simp_all
  have t: "fl (4523704982849829 / 17592186044416 / 60) = 2412642657519909 / 562949953421312"
    by (rule fl_dyadic[where s = 50 and n = "4825285315039818"]) simp_all
  have r: "jsRem (2412642657519909 / 562949953421312) 2 = 160842843834661 / 562949953421312"
    by (rule jsRem_quotient[where q = 2]) simp_all
  have u: "fl (160842843834661 / 562949953421312 - 1) = - (402107109586651 / 562949953421312)"
    by (rule fl_dyadic[where s = 53 and n = "- 6433713753386416"]) simp_all
  have w: "fl (1 - \<bar>- (402107109586651 / 562949953421312)\<bar>) = 160842843834661 / 562949953421312"
    by (rule fl_dyadic[where s = 54 and n = "5146971002709152"]) simp_all
  have x: "fl (3152519739159347 / 4503599627370496 * (160842843834661 / 562949953421312)) = 1801439850948203 / 9007199254740992"
    by (rule fl_dyadic[where s = 55 and n = "7205759403792812"]) simp_all
  have y: "fl (1801439850948203 / 9007199254740992 + 1351079888211149 / 9007199254740992) = 394064967394919 / 1125899906842624"
    by (rule fl_dyadic[where s = 54 and n = "6305039478318704"]) simp_all
  have z: "fl (394064967394919 / 1125899906842624 * 255) = 3140205208928261 / 35184372088832"
    by (rule fl_dyadic[where s = 46 and n = "6280410417856522"]) simp_all
  have n: "round (3140205208928261 / 35184372088832 :: real) = 89"
    by (rule round_near) simp_all
  show ?thesis
    unfolding hslToRgb_70_50 Let_def f h t r u w x y z n by simp
qed

lemma hsl_8_11:
  "hslToRgb (fl (fl (8 / 11) * 360)) 70 50 = (103, 38, 217)"
proof -
  have f: "fl (8 / 11) = 3275345183542179 / 4503599627370496"
    by (rule fl_dyadic[where s = 53 and n = "6550690367084358"]) simp_all
  have h: "fl (3275345183542179 / 4503599627370496 * 360) = 4605954164356189 / 17592186044416"
    by (rule fl_dyadic[where s = 44 and n = "4605954164356189"]) simp_all
  have t: "fl (4605954164356189 / 17592186044416 / 60) = 1228254443828317 / 281474976710656"
    by (rule fl_dyadic[where s = 50 and n = "4913017775313268"]) simp_all
  have r: "jsRem (1228254443828317 / 281474976710656) 2 = 102354536985693 / 281474976710656"
    by (rule jsRem_quotient[where q = 2]) simp_all
  have u: "fl (102354536985693 / 281474976710656 - 1) = - (179120439724963 / 281474976710656)"
    by (rule fl_dyadic[where s = 53 and n = "- 5731854071198816"]) simp_all
  have w: "fl (1 - \<bar>- (179120439724963 / 281474976710656)\<bar>) = 102354536985693 / 281474976710656"
    by (rule fl_dyadic[where s = 54 and n = "6550690367084352"]) simp_all
  have x: "fl (3152519739159347 / 4503599627370496 * (102354536985693 / 281474976710656)) = 2292741628479523 / 9007199254740992"
    by (rule fl_dyadic[where s = 54 and n = "4585483256959046"]) simp_all
  have y: "fl (2292741628479523 / 9007199254740992 + 1351079888211149 / 9007199254740992) = 227738844793167 / 562949953421312"
    by (rule fl_dyadic[where s = 54 and n = "7287643033381344"]) simp_all
  have z: "fl (227738844793167 / 562949953421312 * 255) = 3629587838891099 / 35184372088832"
    by (rule fl_dyadic[where s = 46 and n = "7259175677782198"]) simp_all
  have n: "round (3629587838891099 / 35184372088832 :: real) = 103"
    by (rule round_near) simp_all
  show ?thesis
    unfolding hslToRgb_70_50 Let_def f h t r u w x y z n by simp
qed

lemma hsl_11_15:
  "hslToRgb (fl (fl (11 / 15) * 360)) 70 50 = (110, 38, 217)"
proof -
  have f: "fl (11 / 15) = 6605279453476727 / 9007199254740992"
    by (rule fl_dyadic[where s = 53 and n = "6605279453476727"]) simp_all
  have h: "fl (6605279453476727 / 9007199254740992 * 360) = 264"
    by (rule fl_dyadic[where s = 44 and n = "4644337115725824"]) simp_all
  have t: "fl (264 / 60) = 2476979795053773 / 562949953421312"
    by (rule fl_dyadic[where s = 50 and n = "4953959590107546"]) simp_all
  have r: "jsRem (2476979795053773 / 562949953421312) 2 = 225179981368525 / 562949953421312"
    by (rule jsRem_quotient[where q = 2]) simp_all
  have u: "fl (225179981368525 / 562949953421312 - 1) = - (337769972052787 / 562949953421312)"
    by (rule fl_dyadic[where s = 53 and n = "- 5404319552844592"]) simp_all
  have w: "fl (1 - \<bar>- (337769972052787 / 562949953421312)\<bar>) = 225179981368525 / 562949953421312"
    by (rule fl_dyadic[where s = 54 and n = "7205759403792800"]) simp_all
  have x: "fl (3152519739159347 / 4503599627370496 * (225179981368525 / 562949953421312)) = 315251973915935 / 1125899906842624"
    by (rule fl_dyadic[where s = 54 and n = "5044031582654960"]) simp_all
  have y: "fl (315251973915935 / 1125899906842624 + 1351079888211149 / 9007199254740992) = 3873095679538629 / 9007199254740992"
    by (rule fl_dyadic[where s = 54 and n = "7746191359077258"]) simp_all
  have z: "fl (3873095679538629 / 9007199254740992 * 255) = 3857966399540431 / 35184372088832"
    by (rule fl_dyadic[where s = 46 and n = "7715932799080862"]) simp_all
  have n: "round (3857966399540431 / 35184372088832 :: real) = 110"
    by (rule round_near) simp_all
  show ?thesis
    unfolding hslToRgb_70_50 Let_def f h t r u w x y z n by simp
qed

lemma hsl_3_4:
  "hslToRgb (fl (fl (3 / 4) * 360)) 70 50 = (128, 38, 217)"
proof -
  have f: "fl (3 / 4) = 3 / 4"
    by (rule fl_dyadic[where s = 53 and n = "6755399441055744"]) simp_all
  have h: "fl (3 / 4 * 360) = 270"
    by (rule fl_dyadic[where s = 44 and n = "4749890231992320"]) simp_all
  have t: "fl (270 / 60) = 9 / 2"
    by (rule fl_dyadic[where s = 50 and n = "5066549580791808"]) simp_all
  have r: "jsRem (9 / 2) 2 = 1 / 2"
    by (rule jsRem_quotient[where q = 2]) simp_all
  have u: "fl (1 / 2 - 1) = - (1 / 2)"
    by (rule fl_dyadic[where s = 53 and n = "- 4503599627370496"]) simp_all
  have w: "fl (1 - \<bar>- (1 / 2)\<bar>) = 1 / 2"
    by (rule fl_dyadic[where s = 53 and n = "4503599627370496"]) simp_all
  have x: "fl (3152519739159347 / 4503599627370496 * (1 / 2)) = 3152519739159347 / 9007199254740992"
    by (rule fl_dyadic[where s = 54 and n = "6305039478318694"]) simp_all
  have y: "fl (3152519739159347 / 9007199254740992 + 1351079888211149 / 9007199254740992) = 1 / 2"
    by (rule fl_dyadic[where s = 53 and n = "4503599627370496"]) simp_all
  have z: "fl (1 / 2 * 255) = 255 / 2"
    by (rule fl_dyadic[where s = 46 and n = "8972014882652160"]) simp_all
  have n: "round (255 / 2 :: real) = 128"
    by (rule round_near) simp_all
  show ?thesis
    unfolding hslToRgb_70_50 Let_def f h t r u w x y z n by simp
qed

lemma hsl_10_13:
  "hslToRgb (fl (fl (10 / 13) * 360)) 70 50 = (148, 38, 217)"
proof -
  have f: "fl (10 / 13) = 6928614811339225 / 9007199254740992"
    by (rule fl_dyadic[where s = 53 and n = "6928614811339225"]) simp_all
  have h: "fl (6928614811339225 / 9007199254740992 * 360) = 4871682289222893 / 17592186044416"
    by (rule fl_dyadic[where s = 44 and n = "4871682289222893"]) simp_all
  have t: "fl (4871682289222893 / 17592186044416 / 60) = 5196461108504419 / 1125899906842624"
    by (rule fl_dyadic[where s = 50 and n = "5196461108504419"]) simp_all
  have r: "jsRem (5196461108504419 / 1125899906842624) 2 = 692861481133923 / 1125899906842624"
    by (rule jsRem_quotient[where q = 2]) simp_all
  have u: "fl (692861481133923 / 1125899906842624 - 1) = - (433038425708701 / 1125899906842624)"
    by (rule fl_dyadic[where s = 54 and n = "- 6928614811339216"]) simp_all
  have w: "fl (1 - \<bar>- (433038425708701 / 1125899906842624)\<bar>) = 692861481133923 / 1125899906842624"
    by (rule fl_dyadic[where s = 53 and n = "5542891849071384"]) simp_all
  have x: "fl (3152519739159347 / 4503599627370496 * (692861481133923 / 1125899906842624)) = 7760048588699937 / 18014398509481984"
    by (rule fl_dyadic[where s = 54 and n = "7760048588699937"]) simp_all
  have y: "fl (7760048588699937 / 18014398509481984 + 1351079888211149 / 9007199254740992) = 2615552091280559 / 4503599627370496"
    by (rule fl_dyadic_tie[where s = 53 and f = "5231104182561117"]) simp_all
  have z: "fl (2615552091280559 / 4503599627370496 * 255) = 5210670181847989 / 35184372088832"
    by (rule fl_dyadic[where s = 45 and n = "5210670181847989"]) simp_all
  have n: "round (5210670181847989 / 35184372088832 :: real) = 148"
    by (rule round_near) simp_all
  show ?thesis
    unfolding hslToRgb_70_50 Let_def f h t r u w x y z n by simp
qed

lemma hsl_7_9:
  "hslToRgb (fl (fl (7 / 9) * 360)) 70 50 = (157, 38, 217)"
proof -
  have f: "fl (7 / 9) = 7005599420354105 / 9007199254740992"
    by (rule fl_dyadic[where s = 53 and n = "7005599420354105"]) simp_all
  have h: "fl (7005599420354105 / 9007199254740992 * 360) = 280"
    by (rule fl_dyadic[where s = 44 and n = "4925812092436480"]) simp_all
  have t: "fl (280 / 60) = 5254199565265579 / 1125899906842624"
    by (rule fl_dyadic[where s = 50 and n = "5254199565265579"]) simp_all
  have r: "jsRem (5254199565265579 / 1125899906842624) 2 = 750599937895083 / 1125899906842624"
    by (rule jsRem_quotient[where q = 2]) simp_all
  have u: "fl (750599937895083 / 1125899906842624 - 1) = - (375299968947541 / 1125899906842624)"
    by (rule fl_dyadic[where s = 54 and n = "- 6004799503160656"]) simp_all
  have w: "fl (1 - \<bar>- (375299968947541 / 1125899906842624)\<bar>) = 750599937895083 / 1125899906842624"
    by (rule fl_dyadic[where s = 53 and n = "6004799503160664"]) simp_all
  have x: "fl (3152519739159347 / 4503599627370496 * (750599937895083 / 1125899906842624)) = 8406719304424929 / 18014398509481984"
    by (rule fl_dyadic[where s = 54 and n = "8406719304424929"]) simp_all
  have y: "fl (8406719304424929 / 18014398509481984 + 1351079888211149 / 9007199254740992) = 2777219770211807 / 4503599627370496"
    by (rule fl_dyadic_tie[where s = 53 and f = "5554439540423613"]) simp_all
  have z: "fl (2777219770211807 / 4503599627370496 * 255) = 2766371255484417 / 17592186044416"
    by (rule fl_dyadic[where s = 45 and n = "5532742510968834"]) simp_all
  have n: "round (2766371255484417 / 17592186044416 :: real) = 157"
    by (rule round_near) simp_all
  show ?thesis
    unfolding hslToRgb_70_50 Let_def f h t r u w x y z n by simp
qed

lemma hsl_11_14:
  "hslToRgb (fl (fl (11 / 14) * 360)) 70 50 = (166, 38, 217)"
proof -
  have f: "fl (11 / 14) = 7077085128725065 / 9007199254740992"
    by (rule fl_dyadic[where s = 53 and n = "7077085128725065"]) simp_all
  have h: "fl (7077085128725065 / 9007199254740992 * 360) = 4976075481134811 / 17592186044416"
    by (rule fl_dyadic[where s = 44 and n = "4976075481134811"]) simp_all
  have t: "fl (4976075481134811 / 17592186044416 / 60) = 2653906923271899 / 562949953421312"
    by (rule fl_dyadic[where s = 50 and n = "5307813846543798"]) simp_all
  have r: "jsRem (2653906923271899 / 562949953421312) 2 = 402107109586651 / 562949953421312"
    by (rule jsRem_quotient[where q = 2]) simp_all
  have u: "fl (402107109586651 / 562949953421312 - 1) = - (160842843834661 / 562949953421312)"
    by (rule fl_dyadic[where s = 54 and n = "- 5146971002709152"]) simp_all
  have w: "fl (1 - \<bar>- (160842843834661 / 562949953421312)\<bar>) = 402107109586651 / 562949953421312"
    by (rule fl_dyadic[where s = 53 and n = "6433713753386416"]) simp_all
  have x: "fl (3152519739159347 / 4503599627370496 * (402107109586651 / 562949953421312)) = 4503599627370491 / 9007199254740992"
    by (rule fl_dyadic[where s = 54 and n = "9007199254740982"]) simp_all
  have y: "fl (4503599627370491 / 9007199254740992 + 1351079888211149 / 9007199254740992) = 731834939447705 / 1125899906842624"
    by (rule fl_dyadic[where s = 53 and n = "5854679515581640"]) simp_all
  have z: "fl (731834939447705 / 1125899906842624 * 255) = 5831809673723899 / 35184372088832"
    by (rule fl_dyadic[where s = 45 and n = "5831809673723899"]) simp_all
  have n: "round (5831809673723899 / 35184372088832 :: real) = 166"
    by (rule round_near) simp_all
  show ?thesis
    unfolding hslToRgb_70_50 Let_def f h t r u w x y z n by simp
qed

lemma hsl_4_5:
  "hslToRgb (fl (fl (4 / 5) * 360)) 70 50 = (181, 38, 217)"
proof -
  have f: "fl (4 / 5) = 3602879701896397 / 4503599627370496"
    by (rule fl_dyadic[where s = 53 and n = "7205759403792794"]) simp_all
  have h: "fl (3602879701896397 / 4503599627370496 * 360) = 288"
    by (rule fl_dyadic[where s = 44 and n = "5066549580791808"]) simp_all
  have t: "fl (288 / 60) = 5404319552844595 / 1125899906842624"
    by (rule fl_dyadic[where s = 50 and n = "5404319552844595"]) simp_all
  have r: "jsRem (5404319552844595 / 1125899906842624) 2 = 900719925474099 / 1125899906842624"
    by (rule jsRem_quotient[where q = 2]) simp_all
  have u: "fl (900719925474099 / 1125899906842624 - 1) = - (225179981368525 / 1125899906842624)"
    by (rule fl_dyadic[where s = 55 and n = "- 7205759403792800"]) simp_all
  have w: "fl (1 - \<bar>- (225179981368525 / 1125899906842624)\<bar>) = 900719925474099 / 1125899906842624"
    by (rule fl_dyadic[where s = 53 and n = "7205759403792792"]) simp_all
  have x: "fl (3152519739159347 / 4503599627370496 * (900719925474099 / 1125899906842624)) = 2522015791327477 / 4503599627370496"
    by (rule fl_dyadic[where s = 53 and n = "5044031582654954"]) simp_all
  have y: "fl (2522015791327477 / 4503599627370496 + 1351079888211149 / 9007199254740992) = 6395111470866103 / 9007199254740992"
    by (rule fl_dyadic[where s = 53 and n = "6395111470866103"]) simp_all
  have z: "fl (6395111470866103 / 9007199254740992 * 255) = 796266320835379 / 4398046511104"
    by (rule fl_dyadic[where s = 45 and n = "6370130566683032"]) simp_all
  have n: "round (796266320835379 / 4398046511104 :: real) = 181"
    by (rule round_near) simp_all
  show ?thesis
    unfolding hslToRgb_70_50 Let_def f h t r u w x y z n by simp
qed

lemma hsl_13_16:
  "hslToRgb (fl (fl (13 / 16) * 360)) 70 50 = (194, 38, 217)"
proof -
  have f: "fl (13 / 16) = 13 / 16"
    by (rule fl_dyadic[where s = 53 and n = "7318349394477056"]) simp_all
  have h: "fl (13 / 16 * 360) = 585 / 2"
    by (rule fl_dyadic[where s = 44 and n = "5145714417991680"]) simp_all
  have t: "fl (585 / 2 / 60) = 39 / 8"
    by (rule fl_dyadic[where s = 50 and n = "5488762045857792"]) simp_all
  have r: "jsRem (39 / 8) 2 = 7 / 8"
    by (rule jsRem_quotient[where q = 2]) simp_all
  have u: "fl (7 / 8 - 1) = - (1 / 8)"
    by (rule fl_dyadic[where s = 55 and n = "- 4503599627370496"]) simp_all
  have w: "fl (1 - \<bar>- (1 / 8)\<bar>) = 7 / 8"
    by (rule fl_dyadic[where s = 53 and n = "7881299347898368"]) simp_all
  have x: "fl (3152519739159347 / 4503599627370496 * (7 / 8)) = 5516909543528857 / 9007199254740992"
    by (rule fl_dyadic[where s = 53 and n = "5516909543528857"]) simp_all
  have y: "fl (5516909543528857 / 9007199254740992 + 1351079888211149 / 9007199254740992) = 3433994715870003 / 4503599627370496"
    by (rule fl_dyadic[where s = 53 and n = "6867989431740006"]) simp_all
  have z: "fl (3433994715870003 / 4503599627370496 * 255) = 3111 / 16"
    by (rule fl_dyadic[where s = 45 and n = "6841161348022272"]) simp_all
  have n: "round (3111 / 16 :: real) = 194"
    by (rule round_near) simp_all
  show ?thesis
    unfolding hslToRgb_70_50 Let_def f h t r u w x y z n by simp
qed

lemma hsl_9_11:
  "hslToRgb (fl (fl (9 / 11) * 360)) 70 50 = (201, 38, 217)"
proof -
  have f: "fl (9 / 11) = 7369526662969903 / 9007199254740992"
    by (rule fl_dyadic[where s = 53 and n = "7369526662969903"]) simp_all
  have h: "fl (7369526662969903 / 9007199254740992 * 360) = 5181698434900713 / 17592186044416"
    by (rule fl_dyadic[where s = 44 and n = "5181698434900713"]) simp_all
  have t: "fl (5181698434900713 / 17592186044416 / 60) = 5527144997227427 / 1125899906842624"
    by (rule fl_dyadic[where s = 50 and n = "5527144997227427"]) simp_all
  have r: "jsRem (5527144997227427 / 1125899906842624) 2 = 1023545369856931 / 1125899906842624"
    by (rule jsRem_quotient[where q = 2]) simp_all
  have u: "fl (1023545369856931 / 1125899906842624 - 1) = - (102354536985693 / 1125899906842624)"
    by (rule fl_dyadic[where s = 56 and n = "- 6550690367084352"]) simp_all
  have w: "fl (1 - \<bar>- (102354536985693 / 1125899906842624)\<bar>) = 1023545369856931 / 1125899906842624"
    by (rule fl_dyadic[where s = 53 and n = "8188362958855448"]) simp_all
  have x: "fl (3152519739159347 / 4503599627370496 * (1023545369856931 / 1125899906842624)) = 5731854071198813 / 9007199254740992"
    by (rule fl_dyadic[where s = 53 and n = "5731854071198813"]) simp_all
  have y: "fl (5731854071198813 / 9007199254740992 + 1351079888211149 / 9007199254740992) = 3541466979704981 / 4503599627370496"
    by (rule fl_dyadic[where s = 53 and n = "7082933959409962"]) simp_all
  have z: "fl (3541466979704981 / 4503599627370496 * 255) = 7055266248631017 / 35184372088832"
    by (rule fl_dyadic[where s = 45 and n = "7055266248631017"]) simp_all
  have n: "round (7055266248631017 / 35184372088832 :: real) = 201"
    by (rule round_near) simp_all
  show ?thesis
    unfolding hslToRgb_70_50 Let_def f h t r u w x y z n by simp
qed

lemma hsl_5_6:
  "hslToRgb (fl (fl (5 / 6) * 360)) 70 50 = (217, 38, 217)"
proof -
  have f: "fl (5 / 6) = 7505999378950827 / 9007199254740992"
    by (rule fl_dyadic[where s = 53 and n = "7505999378950827"]) simp_all
  have h: "fl (7505999378950827 / 9007199254740992 * 360) = 300"
    by (rule fl_dyadic[where s = 44 and n = "5277655813324800"]) simp_all
  have t: "fl (300 / 60) = 5"
    by (rule fl_dyadic[where s = 50 and n = "5629499534213120"]) simp_all
  have r: "jsRem (5) 2 = 1"
    by (rule jsRem_quotient[where q = 2]) simp_all
  have u: "fl (1 - 1) = 0"
    by (simp add: fl_0)
  have w: "fl (1 - \<bar>0\<bar>) = 1"
    by (rule fl_dyadic[where s = 52 and n = "4503599627370496"]) simp_all
  have x: "fl (3152519739159347 / 4503599627370496 * 1) = 3152519739159347 / 4503599627370496"
    by (rule fl_dyadic[where s = 53 and n = "6305039478318694"]) simp_all
  have y: "fl (3152519739159347 / 4503599627370496 + 1351079888211149 / 9007199254740992) = 7656119366529843 / 9007199254740992"
    by (rule fl_dyadic[where s = 53 and n = "7656119366529843"]) simp_all
  have z: "fl (7656119366529843 / 9007199254740992 * 255) = 867 / 4"
    by (rule fl_dyadic[where s = 45 and n = "7626212650254336"]) simp_all
  have n: "round (867 / 4 :: real) = 217"
    by (rule round_near) simp_all
  show ?thesis
    unfolding hslToRgb_70_50 Let_def f h t r u w x y z n by simp
qed

lemma hsl_11_13:
  "hslToRgb (fl (fl (11 / 13) * 360)) 70 50 = (217, 38, 203)"
proof -
  have f: "fl (11 / 13) = 7621476292473147 / 9007199254740992"
    by (rule fl_dyadic[where s = 53 and n = "7621476292473147"]) simp_all
  have h: "fl (7621476292473147 / 9007199254740992 * 360) = 5358850518145181 / 17592186044416"
    by (rule fl_dyadic[where s = 44 and n = "5358850518145181"]) simp_all
  have t: "fl (5358850518145181 / 17592186044416 / 60) = 1429026804838715 / 281474976710656"
    by (rule fl_dyadic[where s = 50 and n = "5716107219354860"]) simp_all
  have r: "jsRem (1429026804838715 / 281474976710656) 2 = 303126897996091 / 281474976710656"
    by (rule jsRem_quotient[where q = 2]) simp_all
  have u: "fl (303126897996091 / 281474976710656 - 1) = 21651921285435 / 281474976710656"
    by (rule fl_dyadic[where s = 56 and n = "5542891849071360"]) simp_all
  have w: "fl (1 - \<bar>21651921285435 / 281474976710656\<bar>) = 259823055425221 / 281474976710656"
    by (rule fl_dyadic[where s = 53 and n = "8314337773607072"]) simp_all
  have x: "fl (3152519739159347 / 4503599627370496 * (259823055425221 / 281474976710656)) = 2910018220762475 / 4503599627370496"
    by (rule fl_dyadic[where s = 53 and n = "5820036441524950"]) simp_all
  have y: "fl (2910018220762475 / 4503599627370496 + 1351079888211149 / 9007199254740992) = 7171116329736099 / 9007199254740992"
    by (rule fl_dyadic[where s = 53 and n = "7171116329736099"]) simp_all
  have z: "fl (7171116329736099 / 9007199254740992 * 255) = 7143104156573067 / 35184372088832"
    by (rule fl_dyadic[where s = 45 and n = "7143104156573067"]) simp_all
  have n: "round (7143104156573067 / 35184372088832 :: real) = 203"
    by (rule round_near) simp_all
  show ?thesis
    unfolding hslToRgb_70_50 Let_def f h t r u w x y z n by simp
qed

lemma hsl_6_7:
  "hslToRgb (fl (fl (6 / 7) * 360)) 70 50 = (217, 38, 191)"
proof -
  have f: "fl (6 / 7) = 7720456504063707 / 9007199254740992"
    by (rule fl_dyadic[where s = 53 and n = "7720456504063707"]) simp_all
  have h: "fl (7720456504063707 / 9007199254740992 * 360) = 2714222989709897 / 8796093022208"
    by (rule fl_dyadic[where s = 44 and n = "5428445979419794"]) simp_all
  have t: "fl (2714222989709897 / 8796093022208 / 60) = 1447585594511945 / 281474976710656"
    by (rule fl_dyadic[where s = 50 and n = "5790342378047780"]) simp_all
  have r: "jsRem (1447585594511945 / 281474976710656) 2 = 321685687669321 / 281474976710656"
    by (rule jsRem_quotient[where q = 2]) simp_all
  have u: "fl (321685687669321 / 281474976710656 - 1) = 40210710958665 / 281474976710656"
    by (rule fl_dyadic[where s = 55 and n = "5146971002709120"]) simp_all
  have w: "fl (1 - \<bar>40210710958665 / 281474976710656\<bar>) = 241264265751991 / 281474976710656"
    by (rule fl_dyadic[where s = 53 and n = "7720456504063712"]) simp_all
  have x: "fl (3152519739159347 / 4503599627370496 * (241264265751991 / 281474976710656)) = 2702159776422299 / 4503599627370496"
    by (rule fl_dyadic[where s = 53 and n = "5404319552844598"]) simp_all
  have y: "fl (2702159776422299 / 4503599627370496 + 1351079888211149 / 9007199254740992) = 6755399441055747 / 9007199254740992"
    by (rule fl_dyadic[where s = 53 and n = "6755399441055747"]) simp_all
  have z: "fl (6755399441055747 / 9007199254740992 * 255) = 6729011161989123 / 35184372088832"
    by (rule fl_dyadic[where s = 45 and n = "6729011161989123"]) simp_all
  have n: "round (6729011161989123 / 35184372088832 :: real) = 191"
    by (rule round_near) simp_all
  show ?thesis
    unfolding hslToRgb_70_50 Let_def f h t r u w x y z n by simp
qed

lemma hsl_13_15:
  "hslToRgb (fl (fl (13 / 15) * 360)) 70 50 = (217, 38, 181)"
proof -
  have f: "fl (13 / 15) = 1951559838527215 / 2251799813685248"
    by (rule fl_dyadic[where s = 53 and n = "7806239354108860"]) simp_all
  have h: "fl (1951559838527215 / 2251799813685248 * 360) = 312"
    by (rule fl_dyadic[where s = 44 and n = "5488762045857792"]) simp_all
  have t: "fl (312 / 60) = 5854679515581645 / 1125899906842624"
    by (rule fl_dyadic[where s = 50 and n = "5854679515581645"]) simp_all
  have r: "jsRem (5854679515581645 / 1125899906842624) 2 = 1351079888211149 / 1125899906842624"
    by (rule jsRem_quotient[where q = 2]) simp_all
  have u: "fl (1351079888211149 / 1125899906842624 - 1) = 225179981368525 / 1125899906842624"
    by (rule fl_dyadic[where s = 55 and n = "7205759403792800"]) simp_all
  have w: "fl (1 - \<bar>225179981368525 / 1125899906842624\<bar>) = 900719925474099 / 1125899906842624"
    by (rule fl_dyadic[where s = 53 and n = "7205759403792792"]) simp_all
  have x: "fl (3152519739159347 / 4503599627370496 * (900719925474099 / 1125899906842624)) = 2522015791327477 / 4503599627370496"
    by (rule fl_dyadic[where s = 53 and n = "5044031582654954"]) simp_all
  have y: "fl (2522015791327477 / 4503599627370496 + 1351079888211149 / 9007199254740992) = 6395111470866103 / 9007199254740992"
    by (rule fl_dyadic[where s = 53 and n = "6395111470866103"]) simp_all
  have z: "fl (6395111470866103 / 9007199254740992 * 255) = 796266320835379 / 4398046511104"
    by (rule fl_dyadic[where s = 45 and n = "6370130566683032"]) simp_all
  have n: "round (796266320835379 / 4398046511104 :: real) = 181"
    by (rule round_near) simp_all
  show ?thesis
    unfolding hslToRgb_70_50 Let_def f h t r u w x y z n by simp
qed

lemma hsl_7_8:
  "hslToRgb (fl (fl (7 / 8) * 360)) 70 50 = (217, 38, 172)"
proof -
  have f: "fl (7 / 8) = 7 / 8"
    by (rule fl_dyadic[where s = 53 and n = "7881299347898368"]) simp_all
  have h: "fl (7 / 8 * 360) = 315"
    by (rule fl_dyadic[where s = 44 and n = "5541538603991040"]) simp_all
  have t: "fl (315 / 60) = 21 / 4"
    by (rule fl_dyadic[where s = 50 and n = "5910974510923776"]) simp_all
  have r: "jsRem (21 / 4) 2 = 5 / 4"
    by (rule jsRem_quotient[where q = 2]) simp_all
  have u: "fl (5 / 4 - 1) = 1 / 4"
    by (rule fl_dyadic[where s = 54 and n = "4503599627370496"]) simp_all
  have w: "fl (1 - \<bar>1 / 4\<bar>) = 3 / 4"
    by (rule fl_dyadic[where s = 53 and n = "6755399441055744"]) simp_all
  have x: "fl (3152519739159347 / 4503599627370496 * (3 / 4)) = 1182194902184755 / 2251799813685248"
    by (rule fl_dyadic_tie[where s = 53 and f = "4728779608739020"]) simp_all
  have y: "fl (1182194902184755 / 2251799813685248 + 1351079888211149 / 9007199254740992) = 6079859496950169 / 9007199254740992"
    by (rule fl_dyadic[where s = 53 and n = "6079859496950169"]) simp_all
  have z: "fl (6079859496950169 / 9007199254740992 * 255) = 6056110045790207 / 35184372088832"
    by (rule fl_dyadic[where s = 45 and n = "6056110045790207"]) simp_all
  have n: "round (6056110045790207 / 35184372088832 :: real) = 172"
    by (rule round_near) simp_all
  show ?thesis
    unfolding hslToRgb_70_50 Let_def f h t r u w x y z n by simp
qed

lemma hsl_8_9:
  "hslToRgb (fl (fl (8 / 9) * 360)) 70 50 = (217, 38, 157)"
proof -
  have f: "fl (8 / 9) = 2001599834386887 / 2251799813685248"
    by (rule fl_dyadic[where s = 53 and n = "8006399337547548"]) simp_all
  have h: "fl (2001599834386887 / 2251799813685248 * 360) = 320"
    by (rule fl_dyadic[where s = 44 and n = "5629499534213120"]) simp_all
  have t: "fl (320 / 60) = 6004799503160661 / 1125899906842624"
    by (rule fl_dyadic[where s = 50 and n = "6004799503160661"]) simp_all
  have r: "jsRem (6004799503160661 / 1125899906842624) 2 = 1501199875790165 / 1125899906842624"
    by (rule jsRem_quotient[where q = 2]) simp_all
  have u: "fl (1501199875790165 / 1125899906842624 - 1) = 375299968947541 / 1125899906842624"
    by (rule fl_dyadic[where s = 54 and n = "6004799503160656"]) simp_all
  have w: "fl (1 - \<bar>375299968947541 / 1125899906842624\<bar>) = 750599937895083 / 1125899906842624"
    by (rule fl_dyadic[where s = 53 and n = "6004799503160664"]) simp_all
  have x: "fl (3152519739159347 / 4503599627370496 * (750599937895083 / 1125899906842624)) = 8406719304424929 / 18014398509481984"
    by (rule fl_dyadic[where s = 54 and n = "8406719304424929"]) simp_all
  have y: "fl (8406719304424929 / 18014398509481984 + 1351079888211149 / 9007199254740992) = 2777219770211807 / 4503599627370496"
    by (rule fl_dyadic_tie[where s = 53 and f = "5554439540423613"]) simp_all
  have z: "fl (2777219770211807 / 4503599627370496 * 255) = 2766371255484417 / 17592186044416"
    by (rule fl_dyadic[where s = 45 and n = "5532742510968834"]) simp_all
  have n: "round (2766371255484417 / 17592186044416 :: real) = 157"
    by (rule round_near) simp_all
  show ?thesis
    unfolding hslToRgb_70_50 Let_def f h t r u w x y z n by simp
qed

lemma hsl_9_10:
  "hslToRgb (fl (fl (9 / 10) * 360)) 70 50 = (217, 38, 145)"
proof -
  have f: "fl (9 / 10) = 8106479329266893 / 9007199254740992"
    by (rule fl_dyadic[where s = 53 and n = "8106479329266893"]) simp_all
  have h: "fl (8106479329266893 / 9007199254740992 * 360) = 324"
    by (rule fl_dyadic[where s = 44 and n = "5699868278390784"]) simp_all
  have t: "fl (324 / 60) = 3039929748475085 / 562949953421312"
    by (rule fl_dyadic[where s = 50 and n = "6079859496950170"]) simp_all
  have r: "jsRem (3039929748475085 / 562949953421312) 2 = 788129934789837 / 562949953421312"
    by (rule jsRem_quotient[where q = 2]) simp_all
  have u: "fl (788129934789837 / 562949953421312 - 1) = 225179981368525 / 562949953421312"
    by (rule fl_dyadic[where s = 54 and n = "7205759403792800"]) simp_all
  have w: "fl (1 - \<bar>225179981368525 / 562949953421312\<bar>) = 337769972052787 / 562949953421312"
    by (rule fl_dyadic[where s = 53 and n = "5404319552844592"]) simp_all
  have x: "fl (3152519739159347 / 4503599627370496 * (337769972052787 / 562949953421312)) = 1891511843495607 / 4503599627370496"
    by (rule fl_dyadic[where s = 54 and n = "7566047373982428"]) simp_all
  have y: "fl (1891511843495607 / 4503599627370496 + 1351079888211149 / 9007199254740992) = 5134103575202363 / 9007199254740992"
    by (rule fl_dyadic[where s = 53 and n = "5134103575202363"]) simp_all
  have z: "fl (5134103575202363 / 9007199254740992 * 255) = 5114048483111729 / 35184372088832"
    by (rule fl_dyadic[where s = 45 and n = "5114048483111729"]) simp_all
  have n: "round (5114048483111729 / 35184372088832 :: real) = 145"
    by (rule round_near) simp_all
  show ?thesis
    unfolding hslToRgb_70_50 Let_def f h t r u w x y z n by simp
qed

lemma hsl_10_11:
  "hslToRgb (fl (fl (10 / 11) * 360)) 70 50 = (217, 38, 136)"
proof -
  have f: "fl (10 / 11) = 8188362958855447 / 9007199254740992"
    by (rule fl_dyadic[where s = 53 and n = "8188362958855447"]) simp_all
  have h: "fl (8188362958855447 / 9007199254740992 * 360) = 1439360676361309 / 4398046511104"
    by (rule fl_dyadic[where s = 44 and n = "5757442705445236"]) simp_all
  have t: "fl (1439360676361309 / 4398046511104 / 60) = 6141272219141585 / 1125899906842624"
    by (rule fl_dyadic[where s = 50 and n = "6141272219141585"]) simp_all
  have r: "jsRem (6141272219141585 / 1125899906842624) 2 = 1637672591771089 / 1125899906842624"
    by (rule jsRem_quotient[where q = 2]) simp_all
  have u: "fl (1637672591771089 / 1125899906842624 - 1) = 511772684928465 / 1125899906842624"
    by (rule fl_dyadic[where s = 54 and n = "8188362958855440"]) simp_all
  have w: "fl (1 - \<bar>511772684928465 / 1125899906842624\<bar>) = 614127221914159 / 1125899906842624"
    by (rule fl_dyadic[where s = 53 and n = "4913017775313272"]) simp_all
  have x: "fl (3152519739159347 / 4503599627370496 * (614127221914159 / 1125899906842624)) = 1719556221359645 / 4503599627370496"
    by (rule fl_dyadic[where s = 54 and n = "6878224885438580"]) simp_all
  have y: "fl (1719556221359645 / 4503599627370496 + 1351079888211149 / 9007199254740992) = 4790192330930439 / 9007199254740992"
    by (rule fl_dyadic[where s = 53 and n = "4790192330930439"]) simp_all
  have z: "fl (4790192330930439 / 9007199254740992 * 255) = 2385740321068871 / 17592186044416"
    by (rule fl_dyadic[where s = 45 and n = "4771480642137742"]) simp_all
  have n: "round (2385740321068871 / 17592186044416 :: real) = 136"
    by (rule round_near) simp_all
  show ?thesis
    unfolding hslToRgb_70_50 Let_def f h t r u w x y z n by simp
qed

lemma hsl_11_12:
  "hslToRgb (fl (fl (11 / 12) * 360)) 70 50 = (217, 38, 128)"
proof -
  have f: "fl (11 / 12) = 8256599316845909 / 9007199254740992"
    by (rule fl_dyadic[where s = 53 and n = "8256599316845909"]) simp_all
  have h: "fl (8256599316845909 / 9007199254740992 * 360) = 330"
    by (rule fl_dyadic[where s = 44 and n = "5805421394657280"]) simp_all
  have t: "fl (330 / 60) = 11 / 2"
    by (rule fl_dyadic[where s = 50 and n = "6192449487634432"]) simp_all
  have r: "jsRem (11 / 2) 2 = 3 / 2"
    by (rule jsRem_quotient[where q = 2]) simp_all
  have u: "fl (3 / 2 - 1) = 1 / 2"
    by (rule fl_dyadic[where s = 53 and n = "4503599627370496"]) simp_all
  have w: "fl (1 - \<bar>1 / 2\<bar>) = 1 / 2"
    by (rule fl_dyadic[where s = 53 and n = "4503599627370496"]) simp_all
  have x: "fl (3152519739159347 / 4503599627370496 * (1 / 2)) = 3152519739159347 / 9007199254740992"
    by (rule fl_dyadic[where s = 54 and n = "6305039478318694"]) simp_all
  have y: "fl (3152519739159347 / 9007199254740992 + 1351079888211149 / 9007199254740992) = 1 / 2"
    by (rule fl_dyadic[where s = 53 and n = "4503599627370496"]) simp_all
  have z: "fl (1 / 2 * 255) = 255 / 2"
    by (rule fl_dyadic[where s = 46 and n = "8972014882652160"]) simp_all
  have n: "round (255 / 2 :: real) = 128"
    by (rule round_near) simp_all
  show ?thesis
    unfolding hslToRgb_70_50 Let_def f h t r u w x y z n by simp
qed

lemma hsl_12_13:
  "hslToRgb (fl (fl (12 / 13) * 360)) 70 50 = (217, 38, 121)"
proof -
  have f: "fl (12 / 13) = 4157168886803535 / 4503599627370496"
    by (rule fl_dyadic[where s = 53 and n = "8314337773607070"]) simp_all
  have h: "fl (4157168886803535 / 4503599627370496 * 360) = 5846018747067471 / 17592186044416"
    by (rule fl_dyadic[where s = 44 and n = "5846018747067471"]) simp_all
  have t: "fl (5846018747067471 / 17592186044416 / 60) = 3117876665102651 / 562949953421312"
    by (rule fl_dyadic[where s = 50 and n = "6235753330205302"]) simp_all
  have r: "jsRem (3117876665102651 / 562949953421312) 2 = 866076851417403 / 562949953421312"
    by (rule jsRem_quotient[where q = 2]) simp_all
  have u: "fl (866076851417403 / 562949953421312 - 1) = 303126897996091 / 562949953421312"
    by (rule fl_dyadic[where s = 53 and n = "4850030367937456"]) simp_all
  have w: "fl (1 - \<bar>303126897996091 / 562949953421312\<bar>) = 259823055425221 / 562949953421312"
    by (rule fl_dyadic[where s = 54 and n = "8314337773607072"]) simp_all
  have x: "fl (3152519739159347 / 4503599627370496 * (259823055425221 / 562949953421312)) = 2910018220762475 / 9007199254740992"
    by (rule fl_dyadic[where s = 54 and n = "5820036441524950"]) simp_all
  have y: "fl (2910018220762475 / 9007199254740992 + 1351079888211149 / 9007199254740992) = 532637263621703 / 1125899906842624"
    by (rule fl_dyadic[where s = 54 and n = "8522196217947248"]) simp_all
  have z: "fl (532637263621703 / 1125899906842624 * 255) = 2122226597242723 / 17592186044416"
    by (rule fl_dyadic[where s = 46 and n = "8488906388970892"]) simp_all
  have n: "round (2122226597242723 / 17592186044416 :: real) = 121"
    by (rule round_near) simp_all
  show ?thesis
    unfolding hslToRgb_70_50 Let_def f h t r u w x y z n by simp
qed

lemma hsl_13_14:
  "hslToRgb (fl (fl (13 / 14) * 360)) 70 50 = (217, 38, 115)"
proof -
  have f: "fl (13 / 14) = 4181913939701175 / 4503599627370496"
    by (rule fl_dyadic[where s = 53 and n = "8363827879402350"]) simp_all
  have h: "fl (4181913939701175 / 4503599627370496 * 360) = 5880816477704777 / 17592186044416"
    by (rule fl_dyadic[where s = 44 and n = "5880816477704777"]) simp_all
  have t: "fl (5880816477704777 / 17592186044416 / 60) = 3136435454775881 / 562949953421312"
    by (rule fl_dyadic[where s = 50 and n = "6272870909551762"]) simp_all
  have r: "jsRem (3136435454775881 / 562949953421312) 2 = 884635641090633 / 562949953421312"
    by (rule jsRem_quotient[where q = 2]) simp_all
  have u: "fl (884635641090633 / 562949953421312 - 1) = 321685687669321 / 562949953421312"
    by (rule fl_dyadic[where s = 53 and n = "5146971002709136"]) simp_all
  have w: "fl (1 - \<bar>321685687669321 / 562949953421312\<bar>) = 241264265751991 / 562949953421312"
    by (rule fl_dyadic[where s = 54 and n = "7720456504063712"]) simp_all
  have x: "fl (3152519739159347 / 4503599627370496 * (241264265751991 / 562949953421312)) = 2702159776422299 / 9007199254740992"
    by (rule fl_dyadic[where s = 54 and n = "5404319552844598"]) simp_all
  have y: "fl (2702159776422299 / 9007199254740992 + 1351079888211149 / 9007199254740992) = 506654958079181 / 1125899906842624"
    by (rule fl_dyadic[where s = 54 and n = "8106479329266896"]) simp_all
  have z: "fl (506654958079181 / 1125899906842624 * 255) = 8074813394386947 / 70368744177664"
    by (rule fl_dyadic[where s = 46 and n = "8074813394386947"]) simp_all
  have n: "round (8074813394386947 / 70368744177664 :: real) = 115"
    by (rule round_near) simp_all
  show ?thesis
    unfolding hslToRgb_70_50 Let_def f h t r u w x y z n by simp
qed

lemma hsl_14_15:
  "hslToRgb (fl (fl (14 / 15) * 360)) 70 50 = (217, 38, 110)"
proof -
  have f: "fl (14 / 15) = 4203359652212463 / 4503599627370496"
    by (rule fl_dyadic[where s = 53 and n = "8406719304424926"]) simp_all
  have h: "fl (4203359652212463 / 4503599627370496 * 360) = 336"
    by (rule fl_dyadic[where s = 44 and n = "5910974510923776"]) simp_all
  have t: "fl (336 / 60) = 3152519739159347 / 562949953421312"
    by (rule fl_dyadic[where s = 50 and n = "6305039478318694"]) simp_all
  have r: "jsRem (3152519739159347 / 562949953421312) 2 = 900719925474099 / 562949953421312"
    by (rule jsRem_quotient[where q = 2]) simp_all
  have u: "fl (900719925474099 / 562949953421312 - 1) = 337769972052787 / 562949953421312"
    by (rule fl_dyadic[where s = 53 and n = "5404319552844592"]) simp_all
  have w: "fl (1 - \<bar>337769972052787 / 562949953421312\<bar>) = 225179981368525 / 562949953421312"
    by (rule fl_dyadic[where s = 54 and n = "7205759403792800"]) simp_all
  have x: "fl (3152519739159347 / 4503599627370496 * (225179981368525 / 562949953421312)) = 315251973915935 / 1125899906842624"
    by (rule fl_dyadic[where s = 54 and n = "5044031582654960"]) simp_all
  have y: "fl (315251973915935 / 1125899906842624 + 1351079888211149 / 9007199254740992) = 3873095679538629 / 9007199254740992"
    by (rule fl_dyadic[where s = 54 and n = "7746191359077258"]) simp_all
  have z: "fl (3873095679538629 / 9007199254740992 * 255) = 3857966399540431 / 35184372088832"
    by (rule fl_dyadic[where s = 46 and n = "7715932799080862"]) simp_all
  have n: "round (3857966399540431 / 35184372088832 :: real) = 110"
    by (rule round_near) simp_all
  show ?thesis
    unfolding hslToRgb_70_50 Let_def f h t r u w x y z n by simp
qed

lemma hsl_15_16:
  "hslToRgb (fl (fl (15 / 16) * 360)) 70 50 = (217, 38, 105)"
proof -
  have f: "fl (15 / 16) = 15 / 16"
    by (rule fl_dyadic[where s = 53 and n = "8444249301319680"]) simp_all
  have h: "fl (15 / 16 * 360) = 675 / 2"
    by (rule fl_dyadic[where s = 44 and n = "5937362789990400"]) simp_all
  have t: "fl (675 / 2 / 60) = 45 / 8"
    by (rule fl_dyadic[where s = 50 and n = "6333186975989760"]) simp_all
  have r: "jsRem (45 / 8) 2 = 13 / 8"
    by (rule jsRem_quotient[where q = 2]) simp_all
  have u: "fl (13 / 8 - 1) = 5 / 8"
    by (rule fl_dyadic[where s = 53 and n = "5629499534213120"]) simp_all
  have w: "fl (1 - \<bar>5 / 8\<bar>) = 3 / 8"
    by (rule fl_dyadic[where s = 54 and n = "6755399441055744"]) simp_all
  have x: "fl (3152519739159347 / 4503599627370496 * (3 / 8)) = 1182194902184755 / 4503599627370496"
    by (rule fl_dyadic_tie[where s = 54 and f = "4728779608739020"]) simp_all
  have y: "fl (1182194902184755 / 4503599627370496 + 1351079888211149 / 9007199254740992) = 3715469692580659 / 9007199254740992"
    by (rule fl_dyadic[where s = 54 and n = "7430939385161318"]) simp_all
  have z: "fl (3715469692580659 / 9007199254740992 * 255) = 1683 / 16"
    by (rule fl_dyadic[where s = 46 and n = "7401912278188032"]) simp_all
  have n: "round (1683 / 16 :: real) = 105"
    by (rule round_near) simp_all
  show ?thesis
    unfolding hslToRgb_70_50 Let_def f h t r u w x y z n by simp
qed

text \<open>
  The palettes of 1 to 16 colours, of the source and of the specification.
\<close>

lemma upt_0_1: "[0..<1] = [0]"
  by (simp add: upt_rec)

lemma generateDefaultPalette_1:
  "generateDefaultPalette 1 =
      [(217, 38, 38)]"
  by (simp add: generateDefaultPalette_map upt_0_1
      hsl_0_1)

lemma fallbackPalette_1:
  "fallbackPalette 1 =
      [(217, 38, 38)]"
  by (simp add: fallbackPalette_def standardHslToRgb_def Let_def upt_0_1 round_def)

lemma upt_0_2: "[0..<2] = [0, 1]"
  by (simp add: upt_rec)

lemma generateDefaultPalette_2:
  "generateDefaultPalette 2 =
      [(217, 38, 38), (38, 217, 217)]"
  by (simp add: generateDefaultPalette_map upt_0_2
      hsl_0_1 hsl_1_2)

lemma fallbackPalette_2:
  "fallbackPalette 2 =
      [(217, 38, 38), (38, 217, 217)]"
  by (simp add: fallbackPalette_def standardHslToRgb_def Let_def upt_0_2 round_def)

lemma upt_0_3: "[0..<3] = [0, 1, 2]"
  by (simp add: upt_rec)

lemma generateDefaultPalette_3:
  "generateDefaultPalette 3 =
      [(217, 38, 38), (38, 217, 38), (38, 38, 217)]"
  by (simp add: generateDefaultPalette_map upt_0_3
      hsl_0_1 hsl_1_3 hsl_2_3)

lemma fallbackPalette_3:
  "fallbackPalette 3 =
      [(217, 38, 38), (38, 217, 38), (38, 38, 217)]"
  by (simp add: fallbackPalette_def standardHslToRgb_def Let_def upt_0_3 round_def)

lemma upt_0_4: "[0..<4] = [0, 1, 2, 3]"
  by (simp add: upt_rec)

lemma generateDefaultPalette_4:
  "generateDefaultPalette 4 =
      [(217, 38, 38), (128, 217, 38), (38, 217, 217), (128, 38, 217)]"
  by (simp add: generateDefaultPalette_map upt_0_4
      hsl_0_1 hsl_1_2 hsl_1_4 hsl_3_4)

lemma fallbackPalette_4:
  "fallbackPalette 4 =
      [(217, 38, 38), (128, 217, 38), (38, 217, 217), (128, 38, 217)]"
  by (simp add: fallbackPalette_def standardHslToRgb_def Let_def upt_0_4 round_def)

lemma upt_0_5: "[0..<5] = [0, 1, 2, 3, 4]"
  by (simp add: upt_rec)

lemma generateDefaultPalette_5:
  "generateDefaultPalette 5 =
      [(217, 38, 38), (181, 217, 38), (38, 217, 110), (38, 110, 217), (181, 38, 217)]"
  by (simp add: generateDefaultPalette_map upt_0_5
      hsl_0_1 hsl_1_5 hsl_2_5 hsl_3_5 hsl_4_5)

lemma fallbackPalette_5:
  "fallbackPalette 5 =
      [(217, 38, 38), (181, 217, 38), (38, 217, 110), (38, 110, 217), (181, 38, 217)]"
  by (simp add: fallbackPalette_def standardHslToRgb_def Let_def upt_0_5 round_def)

lemma upt_0_6: "[0..<6] = [0, 1, 2, 3, 4, 5]"
  by (simp add: upt_rec)

lemma generateDefaultPalette_6:
  "generateDefaultPalette 6 =
      [(217, 38, 38), (217, 217, 38), (38, 217, 38), (38, 217, 217), (38, 38, 217),
       (217, 38, 217)]"
  by (simp add: generateDefaultPalette_map upt_0_6
      hsl_0_1 hsl_1_2 hsl_1_3 hsl_2_3 hsl_1_6 hsl_5_6)

lemma fallbackPalette_6:
  "fallbackPalette 6 =
      [(217, 38, 38), (217, 217, 38), (38, 217, 38), (38, 217, 217), (38, 38, 217),
       (217, 38, 217)]"
  by (simp add: fallbackPalette_def standardHslToRgb_def Let_def upt_0_6 round_def)

lemma upt_0_7: "[0..<7] = [0, 1, 2, 3, 4, 5, 6]"
  by (simp add: upt_rec)

lemma generateDefaultPalette_7:
  "generateDefaultPalette 7 =
      [(217, 38, 38), (217, 191, 38), (89, 217, 38), (38, 217, 140), (38, 140, 217),
       (89, 38, 217), (217, 38, 191)]"
  by (simp add: generateDefaultPalette_map upt_0_7
      hsl_0_1 hsl_1_7 hsl_2_7 hsl_3_7 hsl_4_7 hsl_5_7 hsl_6_7)

lemma fallbackPalette_7:
  "fallbackPalette 7 =
      [(217, 38, 38), (217, 191, 38), (89, 217, 38), (38, 217, 140), (38, 140, 217),
       (89, 38, 217), (217, 38, 191)]"
  by (simp add: fallbackPalette_def standardHslToRgb_def Let_def upt_0_7 round_def)

lemma upt_0_8: "[0..<8] = [0, 1, 2, 3, 4, 5, 6, 7]"
  by (simp add: upt_rec)

lemma generateDefaultPalette_8:
  "generateDefaultPalette 8 =
      [(217, 38, 38), (217, 172, 38), (128, 217, 38), (38, 217, 83), (38, 217, 217),
       (38, 83, 217), (128, 38, 217), (217, 38, 172)]"
  by (simp add: generateDefaultPalette_map upt_0_8
      hsl_0_1 hsl_1_2 hsl_1_4 hsl_3_4 hsl_1_8 hsl_3_8 hsl_5_8 hsl_7_8)

lemma fallbackPalette_8:
  "fallbackPalette 8 =
      [(217, 38, 38), (217, 172, 38), (128, 217, 38), (38, 217, 83), (38, 217, 217),
       (38, 83, 217), (128, 38, 217), (217, 38, 172)]"
  by (simp add: fallbackPalette_def standardHslToRgb_def Let_def upt_0_8 round_def)

lemma upt_0_9: "[0..<9] = [0, 1, 2, 3, 4, 5, 6, 7, 8]"
  by (simp add: upt_rec)

lemma generateDefaultPalette_9:
  "generateDefaultPalette 9 =
      [(217, 38, 38), (217, 157, 38), (157, 217, 38), (38, 217, 38), (38, 217, 157),
       (38, 157, 217), (38, 38, 217), (157, 38, 217), (217, 38, 157)]"
  by (simp add: generateDefaultPalette_map upt_0_9
      hsl_0_1 hsl_1_3 hsl_2_3 hsl_1_9 hsl_2_9 hsl_4_9 hsl_5_9 hsl_7_9 hsl_8_9)

lemma fallbackPalette_9:
  "fallbackPalette 9 =
      [(217, 38, 38), (217, 157, 38), (157, 217, 38), (38, 217, 38), (38, 217, 157),
       (38, 157, 217), (38, 38, 217), (157, 38, 217), (217, 38, 157)]"
  by (simp add: fallbackPalette_def standardHslToRgb_def Let_def upt_0_9 round_def)

lemma upt_0_10: "[0..<10] = [0, 1, 2, 3, 4, 5, 6, 7, 8, 9]"
  by (simp add: upt_rec)

lemma generateDefaultPalette_10:
  "generateDefaultPalette 10 =
      [(217, 38, 38), (217, 145, 38), (181, 217, 38), (74, 217, 38), (38, 217, 110),
       (38, 217, 217), (38, 110, 217), (74, 38, 217), (181, 38, 217), (217, 38, 145)]"
  by (simp add: generateDefaultPalette_map upt_0_10
      hsl_0_1 hsl_1_2 hsl_1_5 hsl_2_5 hsl_3_5 hsl_4_5 hsl_1_10 hsl_3_10
      hsl_7_10 hsl_9_10)

lemma fallbackPalette_10:
  "fallbackPalette 10 =
      [(217, 38, 38), (217, 145, 38), (181, 217, 38), (74, 217, 38), (38, 217, 110),
       (38, 217, 217), (38, 110, 217), (74, 38, 217), (181, 38, 217), (217, 38, 145)]"
  by (simp add: fallbackPalette_def standardHslToRgb_def Let_def upt_0_10 round_def)

lemma upt_0_11: "[0..<11] = [0, 1, 2, 3, 4, 5, 6, 7, 8, 9, 10]"
  by (simp add: upt_rec)

lemma generateDefaultPalette_11:
  "generateDefaultPalette 11 =
      [(217, 38, 38), (217, 136, 38), (201, 217, 38), (103, 217, 38), (38, 217, 71),
       (38, 217, 168), (38, 168, 217), (38, 71, 217), (103, 38, 217), (201, 38, 217),
       (217, 38, 136)]"
  by (simp add: generateDefaultPalette_map upt_0_11
      hsl_0_1 hsl_1_11 hsl_2_11 hsl_3_11 hsl_4_11 hsl_5_11 hsl_6_11 hsl_7_11
      hsl_8_11 hsl_9_11 hsl_10_11)

lemma fallbackPalette_11:
  "fallbackPalette 11 =
      [(217, 38, 38), (217, 136, 38), (201, 217, 38), (103, 217, 38), (38, 217, 71),
       (38, 217, 168), (38, 168, 217), (38, 71, 217), (103, 38, 217), (201, 38, 217),
       (217, 38, 136)]"
  by (simp add: fallbackPalette_def standardHslToRgb_def Let_def upt_0_11 round_def)

lemma upt_0_12: "[0..<12] = [0, 1, 2, 3, 4, 5, 6, 7, 8, 9, 10, 11]"
  by (simp add: upt_rec)

lemma generateDefaultPalette_12:
  "generateDefaultPalette 12 =
      [(217, 38, 38), (217, 128, 38), (217, 217, 38), (128, 217, 38), (38, 217, 38),
       (38, 217, 128), (38, 217, 217), (38, 128, 217), (38, 38, 217), (128, 38, 217),
       (217, 38, 217), (217, 38, 128)]"
  by (simp add: generateDefaultPalette_map upt_0_12
      hsl_0_1 hsl_1_2 hsl_1_3 hsl_2_3 hsl_1_4 hsl_3_4 hsl_1_6 hsl_5_6 hsl_1_12
      hsl_5_12 hsl_7_12 hsl_11_12)

lemma fallbackPalette_12:
  "fallbackPalette 12 =
      [(217, 38, 38), (217, 128, 38), (217, 217, 38), (128, 217, 38), (38, 217, 38),
       (38, 217, 128), (38, 217, 217), (38, 128, 217), (38, 38, 217), (128, 38, 217),
       (217, 38, 217), (217, 38, 128)]"
  by (simp add: fallbackPalette_def standardHslToRgb_def Let_def upt_0_12 round_def)

lemma upt_0_13: "[0..<13] = [0, 1, 2, 3, 4, 5, 6, 7, 8, 9, 10, 11, 12]"
  by (simp add: upt_rec)

lemma generateDefaultPalette_13:
  "generateDefaultPalette 13 =
      [(217, 38, 38), (217, 121, 38), (217, 203, 38), (148, 217, 38), (66, 217, 38),
       (38, 217, 93), (38, 217, 176), (38, 176, 217), (38, 93, 217), (66, 38, 217),
       (148, 38, 217), (217, 38, 203), (217, 38, 121)]"
  by (simp add: generateDefaultPalette_map upt_0_13
      hsl_0_1 hsl_1_13 hsl_2_13 hsl_3_13 hsl_4_13 hsl_5_13 hsl_6_13 hsl_7_13
      hsl_8_13 hsl_9_13 hsl_10_13 hsl_11_13 hsl_12_13)

lemma fallbackPalette_13:
  "fallbackPalette 13 =
      [(217, 38, 38), (217, 121, 38), (217, 203, 38), (148, 217, 38), (66, 217, 38),
       (38, 217, 93), (38, 217, 176), (38, 176, 217), (38, 93, 217), (66, 38, 217),
       (148, 38, 217), (217, 38, 203), (217, 38, 121)]"
  by (simp add: fallbackPalette_def standardHslToRgb_def Let_def upt_0_13 round_def)

lemma upt_0_14: "[0..<14] = [0, 1, 2, 3, 4, 5, 6, 7, 8, 9, 10, 11, 12, 13]"
  by (simp add: upt_rec)

lemma generateDefaultPalette_14:
  "generateDefaultPalette 14 =
      [(217, 38, 38), (217, 115, 38), (217, 191, 38), (166, 217, 38), (89, 217, 38),
       (38, 217, 64), (38, 217, 140), (38, 217, 217), (38, 140, 217), (38, 64, 217),
       (89, 38, 217), (166, 38, 217), (217, 38, 191), (217, 38, 115)]"
  by (simp add: generateDefaultPalette_map upt_0_14
      hsl_0_1 hsl_1_2 hsl_1_7 hsl_2_7 hsl_3_7 hsl_4_7 hsl_5_7 hsl_6_7 hsl_1_14
      hsl_3_14 hsl_5_14 hsl_9_14 hsl_11_14 hsl_13_14)

lemma fallbackPalette_14:
  "fallbackPalette 14 =
      [(217, 38, 38), (217, 115, 38), (217, 191, 38), (166, 217, 38), (89, 217, 38),
       (38, 217, 64), (38, 217, 140), (38, 217, 217), (38, 140, 217), (38, 64, 217),
       (89, 38, 217), (166, 38, 217), (217, 38, 191), (217, 38, 115)]"
  by (simp add: fallbackPalette_def standardHslToRgb_def Let_def upt_0_14 round_def)

lemma upt_0_15: "[0..<15] = [0, 1, 2, 3, 4, 5, 6, 7, 8, 9, 10, 11, 12, 13, 14]"
  by (simp add: upt_rec)

lemma generateDefaultPalette_15:
  "generateDefaultPalette 15 =
      [(217, 38, 38), (217, 110, 38), (217, 181, 38), (181, 217, 38), (110, 217, 38),
       (38, 217, 38), (38, 217, 110), (38, 217, 181), (38, 181, 217), (38, 110, 217),
       (38, 38, 217), (110, 38, 217), (181, 38, 217), (217, 38, 181), (217, 38, 110)]"
  by (simp add: generateDefaultPalette_map upt_0_15
      hsl_0_1 hsl_1_3 hsl_2_3 hsl_1_5 hsl_2_5 hsl_3_5 hsl_4_5 hsl_1_15
      hsl_2_15 hsl_4_15 hsl_7_15 hsl_8_15 hsl_11_15 hsl_13_15 hsl_14_15)

lemma fallbackPalette_15:
  "fallbackPalette 15 =
      [(217, 38, 38), (217, 110, 38), (217, 181, 38), (181, 217, 38), (110, 217, 38),
       (38, 217, 38), (38, 217, 110), (38, 217, 181), (38, 181, 217), (38, 110, 217),
       (38, 38, 217), (110, 38, 217), (181, 38, 217), (217, 38, 181), (217, 38, 110)]"
  by (simp add: fallbackPalette_def standardHslToRgb_def Let_def upt_0_15 round_def)

lemma upt_0_16: "[0..<16] = [0, 1, 2, 3, 4, 5, 6, 7, 8, 9, 10, 11, 12, 13, 14, 15]"
  by (simp add: upt_rec)

lemma generateDefaultPalette_16:
  "generateDefaultPalette 16 =
      [(217, 38, 38), (217, 105, 38), (217, 172, 38), (194, 217, 38), (128, 217, 38),
       (61, 217, 38), (38, 217, 83), (38, 217, 150), (38, 217, 217), (38, 150, 217),
       (38, 83, 217), (61, 38, 217), (128, 38, 217), (194, 38, 217), (217, 38, 172),
       (217, 38, 105)]"
  by (simp add: generateDefaultPalette_map upt_0_16
      hsl_0_1 hsl_1_2 hsl_1_4 hsl_3_4 hsl_1_8 hsl_3_8 hsl_5_8 hsl_7_8 hsl_1_16
      hsl_3_16 hsl_5_16 hsl_7_16 hsl_9_16 hsl_11_16 hsl_13_16 hsl_15_16)

lemma fallbackPalette_16:
  "fallbackPalette 16 =
      [(217, 38, 38), (217, 105, 38), (217, 172, 38), (194, 217, 38), (128, 217, 38),
       (61, 217, 38), (38, 217, 83), (38, 217, 150), (38, 217, 217), (38, 150, 217),
       (38, 83, 217), (61, 38, 217), (128, 38, 217), (194, 38, 217), (217, 38, 172),
       (217, 38, 105)]"
  by (simp add: fallbackPalette_def standardHslToRgb_def Let_def upt_0_16 round_def)
lemma generateDefaultPalette_fallback:
  assumes "k \<le> 16"
  shows "generateDefaultPalette k = fallbackPalette k"
proof -
  have z: "generateDefaultPalette 0 = fallbackPalette 0"
    by (simp add: generateDefaultPalette_map fallbackPalette_def)
  from assms have "k \<in> {0, 1, 2, 3, 4, 5, 6, 7, 8, 9, 10, 11, 12, 13, 14, 15, 16}"
    by (simp only: insert_iff empty_iff) presburger
  then show ?thesis
    by (elim insertE emptyE)
      (simp_all only: z
        generateDefaultPalette_1 fallbackPalette_1
        generateDefaultPalette_2 fallbackPalette_2
        generateDefaultPalette_3 fallbackPalette_3
        generateDefaultPalette_4 fallbackPalette_4
        generateDefaultPalette_5 fallbackPalette_5
        generateDefaultPalette_6 fallbackPalette_6
        generateDefaultPalette_7 fallbackPalette_7
        generateDefaultPalette_8 fallbackPalette_8
        generateDefaultPalette_9 fallbackPalette_9
        generateDefaultPalette_10 fallbackPalette_10
        generateDefaultPalette_11 fallbackPalette_11
        generateDefaultPalette_12 fallbackPalette_12
        generateDefaultPalette_13 fallbackPalette_13
        generateDefaultPalette_14 fallbackPalette_14
        generateDefaultPalette_15 fallbackPalette_15
        generateDefaultPalette_16 fallbackPalette_16)
qed

text \<open>
  Beyond 16 colours the two can differ by one in a channel. At \<open>k = 28\<close> the colour of index
  13 has the exact blue channel \<open>178.5\<close>, which rounds to 179; the doubles of the source
  arrive just below it, and \<^verbatim>\<open>Math.round\<close> returns 178.
\<close>

lemma hsl_13_28:
  "hslToRgb (fl (fl (13 / 28) * 360)) 70 50 = (38, 217, 178)"
proof -
  have f: "fl (13 / 28) = 4181913939701175 / 9007199254740992"
    by (rule fl_dyadic[where s = 54 and n = "8363827879402350"]) simp_all
  have h: "fl (4181913939701175 / 9007199254740992 * 360) = 5880816477704777 / 35184372088832"
    by (rule fl_dyadic[where s = 45 and n = "5880816477704777"]) simp_all
  have t: "fl (5880816477704777 / 35184372088832 / 60) = 3136435454775881 / 1125899906842624"
    by (rule fl_dyadic[where s = 51 and n = "6272870909551762"]) simp_all
  have r: "jsRem (3136435454775881 / 1125899906842624) 2 = 884635641090633 / 1125899906842624"
    by (rule jsRem_quotient[where q = 1]) simp_all
  have u: "fl (884635641090633 / 1125899906842624 - 1) = - (241264265751991 / 1125899906842624)"
    by (rule fl_dyadic[where s = 55 and n = "- 7720456504063712"]) simp_all
  have w: "fl (1 - \<bar>- (241264265751991 / 1125899906842624)\<bar>) = 884635641090633 / 1125899906842624"
    by (rule fl_dyadic[where s = 53 and n = "7077085128725064"]) simp_all
  have x: "fl (3152519739159347 / 4503599627370496 * (884635641090633 / 1125899906842624)) = 619244948763443 / 1125899906842624"
    by (rule fl_dyadic[where s = 53 and n = "4953959590107544"]) simp_all
  have y: "fl (619244948763443 / 1125899906842624 + 1351079888211149 / 9007199254740992) = 6305039478318693 / 9007199254740992"
    by (rule fl_dyadic[where s = 53 and n = "6305039478318693"]) simp_all
  have z: "fl (6305039478318693 / 9007199254740992 * 255) = 6280410417856511 / 35184372088832"
    by (rule fl_dyadic[where s = 45 and n = "6280410417856511"]) simp_all
  have n: "round (6280410417856511 / 35184372088832 :: real) = 178"
    by (rule round_near) simp_all
  show ?thesis
    unfolding hslToRgb_70_50 Let_def f h t r u w x y z n by simp
qed

lemma generateDefaultPalette_28_13: "generateDefaultPalette 28 ! 13 = (38, 217, 178)"
  by (simp add: generateDefaultPalette_map hsl_13_28)

lemma fallbackPalette_28_13: "fallbackPalette 28 ! 13 = (38, 217, 179)"
  by (simp add: fallbackPalette_def standardHslToRgb_def Let_def round_def)
lemma nextCentroid_length:
  "length centroids \<le> length (nextCentroid r pixels centroids)"
  "length (nextCentroid r pixels centroids) \<le> length centroids + 1"
  by (simp_all add: nextCentroid_def Let_def split: option.splits)

lemma seeding_length:
  "length centroids \<le> length (fold (\<lambda>i centroids. nextCentroid (rnd i) pixels centroids) is centroids)
   \<and> length (fold (\<lambda>i centroids. nextCentroid (rnd i) pixels centroids) is centroids)
       \<le> length centroids + length is"
proof (induction "is" arbitrary: centroids)
  case Nil
  show ?case by simp
next
  case (Cons i "is")
  from Cons.IH[of "nextCentroid (rnd i) pixels centroids"]
    nextCentroid_length[where centroids = centroids and r = "rnd i" and pixels = pixels]
  show ?case by simp
qed

lemma initializeCentroids_length:
  assumes "initializeCentroidsKMeansPlusPlus rnd pixels k = Inr centroids" and "1 \<le> k"
  shows "1 \<le> length centroids" and "length centroids \<le> k"
proof -
  from assms(1) have c: "centroids = fold (\<lambda>i centroids. nextCentroid (rnd i) pixels centroids)
      [1..<k] [pixels ! nat \<lfloor>fl (rnd 0 * real (length pixels))\<rfloor>]"
    by (simp add: initializeCentroidsKMeansPlusPlus_def Let_def split: if_splits)
  from seeding_length[of "[pixels ! nat \<lfloor>fl (rnd 0 * real (length pixels))\<rfloor>]" rnd pixels "[1..<k]"]
    assms(2)
  show "1 \<le> length centroids" and "length centroids \<le> k"
    unfolding c by simp_all
qed




text \<open>
  A round of the loop of \<^verbatim>\<open>kMeans\<close>: the clusters are filled below the number of
  centroids only, and the new centroids are as many as the clusters unless a cluster
  beyond the centroids is empty.
\<close>

lemma nearest_fold_index:
  "snd (fold (\<lambda>i (minDist, nearestIndex).
                  let dist = f i
                  in if lessThanMin dist minDist then (Some dist, i)
                     else (minDist, nearestIndex)) is (m, j)) \<in> insert j (set is)"
proof (induction "is" arbitrary: m j)
  case Nil
  then show ?case by simp
next
  case (Cons i "is")
  show ?case
  proof (cases "lessThanMin (f i) m")
    case True
    with Cons.IH[of "Some (f i)" i] show ?thesis by auto
  next
    case False
    with Cons.IH[of m j] show ?thesis by auto
  qed
qed

lemma findNearestCentroid_less:
  assumes "centroids \<noteq> []"
  shows "findNearestCentroid pixel centroids < length centroids"
proof -
  from nearest_fold_index[of "\<lambda>i. colorDistance pixel (centroids ! i)"
      "[0..<length centroids]" None 0]
  have "findNearestCentroid pixel centroids \<in> insert 0 (set [0..<length centroids])"
    by (simp add: findNearestCentroid_def)
  with assms show ?thesis by auto
qed


lemma assignClusters_ok:
  assumes "centroids \<noteq> []" and "length centroids \<le> length clusters"
  shows "\<exists>cl. assignClusters pixels centroids clusters = Inr cl
           \<and> length cl = length clusters
           \<and> (\<forall>j. length centroids \<le> j \<and> j < length clusters \<longrightarrow> cl ! j = clusters ! j)"
  using assms(2)
proof (induction pixels arbitrary: clusters)
  case Nil
  then show ?case by simp
next
  case (Cons pixel pixels)
  define n where "n = findNearestCentroid pixel centroids"
  from findNearestCentroid_less[OF assms(1), of pixel] have n: "n < length centroids"
    by (simp add: n_def)
  with Cons.prems have nl: "n < length clusters" by simp
  define clusters' where "clusters' = clusters[n := clusters ! n @ [pixel]]"
  have len: "length clusters' = length clusters" by (simp add: clusters'_def)
  with Cons.prems have "length centroids \<le> length clusters'" by simp
  from Cons.IH[OF this] obtain cl where cl:
    "assignClusters pixels centroids clusters' = Inr cl" "length cl = length clusters'"
    "\<forall>j. length centroids \<le> j \<and> j < length clusters' \<longrightarrow> cl ! j = clusters' ! j"
    by blast
  have "cl ! j = clusters ! j" if "length centroids \<le> j" "j < length clusters" for j
  proof -
    from that n have "j \<noteq> n" by simp
    with cl(3) that len show ?thesis by (simp add: clusters'_def)
  qed
  with cl(1,2) nl len show ?case
    by (simp add: n_def[symmetric] clusters'_def[symmetric] Let_def)
qed



lemma newCentroidsOf_fails:
  assumes "j < length clusters" and "clusters ! j = []" and "\<not> i + j < length centroids"
  shows "newCentroidsOf clusters centroids i = Inl TypeError"
  using assms
proof (induction clusters arbitrary: i j)
  case Nil
  then show ?case by simp
next
  case (Cons cluster clusters)
  show ?case
  proof (cases "length cluster = 0 \<and> \<not> i < length centroids")
    case True
    then show ?thesis by simp
  next
    case False
    with Cons.prems have "j \<noteq> 0" by (auto intro: ccontr)
    then obtain j' where j': "j = Suc j'" by (cases j) auto
    with Cons.prems have "j' < length clusters" "clusters ! j' = []"
      "\<not> (i + 1) + j' < length centroids"
      by simp_all
    from Cons.IH[OF this] False show ?thesis by simp
  qed
qed



lemma kMeansLoop_fails:
  assumes "centroids \<noteq> []" and "length centroids < k"
  shows "kMeansLoop pixels k centroids False 0 = Inl TypeError"
proof -
  from assignClusters_ok[OF assms(1), of "replicate k []" pixels] assms(2)
  obtain cl where cl: "assignClusters pixels centroids (replicate k []) = Inr cl"
    "length cl = k"
    "\<forall>j. length centroids \<le> j \<and> j < k \<longrightarrow> cl ! j = replicate k [] ! j"
    by auto
  from cl(3) assms(2) have "cl ! length centroids = []" by simp
  with newCentroidsOf_fails[of "length centroids" cl 0 centroids] cl(2) assms(2)
  have "newCentroidsOf cl centroids 0 = Inl TypeError" by simp
  with cl(1) show ?thesis by (subst kMeansLoop.simps) simp
qed

text \<open>
  \<^verbatim>\<open>kMeans\<close> throws when the seeding fails and returns \<open>k\<close> colours otherwise.
\<close>

lemma kMeans_fails:
  assumes "k \<le> length pixels" and "1 \<le> k" and "seedingFails rnd pixels k"
  shows "kMeans rnd pixels k = Inl TypeError"
proof (cases "initializeCentroidsKMeansPlusPlus rnd pixels k")
  case (Inl e)
  with assms(1) show ?thesis by (cases e) (simp add: kMeans_def)
next
  case (Inr centroids)
  with assms(3) have short: "length centroids < k" by (simp add: seedingFails_def)
  from initializeCentroids_length(1)[OF Inr assms(2)] have "centroids \<noteq> []" by auto
  from kMeansLoop_fails[OF this short] Inr assms(1) show ?thesis by (simp add: kMeans_def)
qed


lemma extractColors_fails:
  assumes "1 \<le> k" and "k \<le> length (samplePixels (hp ! data img) 0 [])"
    and "seedingFails rnd (samplePixels (hp ! data img) 0 []) k"
  shows "extractColors rnd hp img k = Inl TypeError"
proof -
  from assms(1,2) have "length (samplePixels (hp ! data img) 0 []) \<noteq> 0" by linarith
  with kMeans_fails[OF assms(2,1,3)] show ?thesis by (simp add: extractColors_def Let_def)
qed



section \<open>Concrete runs of the palette extraction\<close>


lemma samplePixels_heap0:
  "samplePixels (heap0 ! data img0) 0 [] = [(10, 20, 30), (12, 20, 30)]"
  by (simp add: heap0_def img0_def samplePixels.simps sampleStep_def pixelAt_def)











text \<open>
  The seeding on the two buffers whose weighted draw selects no pixel. The facts of each
  proof are the doubles of the source: the distances and their squares, the partial sums
  of \<^verbatim>\<open>totalDist\<close>, the product with the random number, and the remainders of the draw.
  On the first buffer the first centroid is the pixel of index 3, the squared distances
  are \<open>13 - 2 ^ - 49\<close>, 4, \<open>13 - 2 ^ - 49\<close> and 0, their sum rounds to 30, the product is
  \<open>30 - 2 ^ - 48\<close>, and the remainders are 17, 13, \<open>2 ^ - 49\<close> and \<open>2 ^ - 49\<close>. On the second the
  first centroid is the pixel of index 4, the squared distances are three times
  \<open>2 + 2 ^ - 51\<close>, then \<open>5 + 2 ^ - 50\<close> and 0, their sum rounds to \<open>11 + 2 ^ - 48\<close>, the product is
  \<open>11 + 2 ^ - 49\<close>, and the remainders are \<open>9 + 2 ^ - 49\<close>, \<open>7 + 2 ^ - 49\<close>, \<open>5 + 2 ^ - 49\<close>,
  \<open>2 ^ - 50\<close> and \<open>2 ^ - 50\<close>.
\<close>

lemma nextCentroid_heapDraw:
  "nextCentroid (rndTop n) [(2, 3, 0), (0, 2, 0), (2, 3, 0), (0, 0, 0)]
     [(0, 0, 0)] = [(0, 0, 0)]"
proof -
  have f0: "fl (sqrt 13) = 8118979690322419 / 2251799813685248"
    by (rule fl_sqrt[where s = 51 and n = "8118979690322419"]) simp_all
  have f1: "fl (65917831211867922725444174011561 / 5070602400912917605986812821504) = 7318349394477055 / 562949953421312"
    by (rule fl_dyadic[where s = 49 and n = "7318349394477055"]) simp_all
  have f2: "fl 2 = 2"
    by (rule fl_dyadic[where s = 51 and n = "4503599627370496"]) simp_all
  have f3: "fl 4 = 4"
    by (rule fl_dyadic[where s = 50 and n = "4503599627370496"]) simp_all
  have f4: "fl (7318349394477055 / 562949953421312) = 7318349394477055 / 562949953421312"
    by (rule fl_dyadic[where s = 49 and n = "7318349394477055"]) simp_all
  have f5: "fl (9570149208162303 / 562949953421312) = 17"
    by (rule fl_dyadic_tie[where s = 48 and f = "4785074604081151"]) simp_all
  have f6: "fl (16888498602639359 / 562949953421312) = 30"
    by (rule fl_dyadic_tie[where s = 48 and f = "8444249301319679"]) simp_all
  have f7: "fl 30 = 30"
    by (rule fl_dyadic[where s = 48 and n = "8444249301319680"]) simp_all
  have f8: "fl (135107988821114865 / 4503599627370496) = 8444249301319679 / 281474976710656"
    by (rule fl_dyadic[where s = 48 and n = "8444249301319679"]) simp_all
  have f9: "fl 13 = 13"
    by (rule fl_dyadic[where s = 49 and n = "7318349394477056"]) simp_all
  have f10: "fl (1 / 562949953421312) = 1 / 562949953421312"
    by (rule fl_dyadic[where s = 101 and n = "4503599627370496"]) simp_all
  show ?thesis
    by (simp add: nextCentroid_def Let_def rndTop_def fl_0 f0 f1 f2 f3 f4 f5 f6 f7 f8 f9 f10)
qed

lemma seeding_heapDraw:
  "initializeCentroidsKMeansPlusPlus rndTop [(2, 3, 0), (0, 2, 0), (2, 3, 0), (0, 0, 0)] 2
     = Inr [(0, 0, 0)]"
proof -
  have v: "fl (rndTop 0 * 4) = 9007199254740991 / 2251799813685248"
    unfolding rndTop_def by (rule fl_dyadic[where s = 51 and n = "9007199254740991"]) simp_all
  have i: "\<lfloor>9007199254740991 / 2251799813685248 :: real\<rfloor> = 3"
    by (rule floor_unique) simp_all
  show ?thesis
    unfolding initializeCentroidsKMeansPlusPlus_def Let_def
    by (simp add: v i upt_rec nextCentroid_heapDraw)
qed

lemma nextCentroid_heapDraw52:
  "nextCentroid (rndTop52 n) [(0, 2, 0), (2, 2, 0), (1, 3, 2), (1, 4, 0), (1, 2, 1)]
     [(1, 2, 1)] = [(1, 2, 1)]"
proof -
  have f0: "fl (sqrt 2) = 6369051672525773 / 4503599627370496"
    by (rule fl_sqrt[where s = 52 and n = "6369051672525773"]) simp_all
  have f1: "fl (40564819207303346393761349247529 / 20282409603651670423947251286016) = 4503599627370497 / 2251799813685248"
    by (rule fl_dyadic[where s = 51 and n = "4503599627370497"]) simp_all
  have f2: "fl (sqrt 5) = 629397181890197 / 281474976710656"
    by (rule fl_sqrt[where s = 51 and n = "5035177455121576"]) simp_all
  have f3: "fl (396140812571321726461764698809 / 79228162514264337593543950336) = 5629499534213121 / 1125899906842624"
    by (rule fl_dyadic[where s = 50 and n = "5629499534213121"]) simp_all
  have f4: "fl (4503599627370497 / 2251799813685248) = 4503599627370497 / 2251799813685248"
    by (rule fl_dyadic[where s = 51 and n = "4503599627370497"]) simp_all
  have f5: "fl (4503599627370497 / 1125899906842624) = 4503599627370497 / 1125899906842624"
    by (rule fl_dyadic[where s = 50 and n = "4503599627370497"]) simp_all
  have f6: "fl (13510798882111491 / 2251799813685248) = 3377699720527873 / 562949953421312"
    by (rule fl_dyadic_tie[where s = 50 and f = "6755399441055745"]) simp_all
  have f7: "fl (12384898975268867 / 1125899906842624) = 3096224743817217 / 281474976710656"
    by (rule fl_dyadic_tie[where s = 49 and f = "6192449487634433"]) simp_all
  have f8: "fl (3096224743817217 / 281474976710656) = 3096224743817217 / 281474976710656"
    by (rule fl_dyadic[where s = 49 and n = "6192449487634434"]) simp_all
  have f9: "fl (13944156602510524823838618812415 / 1267650600228229401496703205376) = 6192449487634433 / 562949953421312"
    by (rule fl_dyadic[where s = 49 and n = "6192449487634433"]) simp_all
  have f10: "fl (20266198323167235 / 2251799813685248) = 5066549580791809 / 562949953421312"
    by (rule fl_dyadic[where s = 49 and n = "5066549580791809"]) simp_all
  have f11: "fl (15762598695796739 / 2251799813685248) = 3940649673949185 / 562949953421312"
    by (rule fl_dyadic_tie[where s = 50 and f = "7881299347898369"]) simp_all
  have f12: "fl (11258999068426243 / 2251799813685248) = 2814749767106561 / 562949953421312"
    by (rule fl_dyadic_tie[where s = 50 and f = "5629499534213121"]) simp_all
  have f13: "fl (1 / 1125899906842624) = 1 / 1125899906842624"
    by (rule fl_dyadic[where s = 102 and n = "4503599627370496"]) simp_all
  show ?thesis
    by (simp add: nextCentroid_def Let_def rndTop52_def fl_0 f0 f1 f2 f3 f4 f5 f6 f7 f8 f9 f10 f11 f12 f13)
qed

lemma seeding_heapDraw52:
  "initializeCentroidsKMeansPlusPlus rndTop52 [(0, 2, 0), (2, 2, 0), (1, 3, 2), (1, 4, 0), (1, 2, 1)] 2
     = Inr [(1, 2, 1)]"
proof -
  have v: "fl (rndTop52 0 * 5) = 5629499534213119 / 1125899906842624"
    unfolding rndTop52_def by (rule fl_dyadic[where s = 50 and n = "5629499534213119"]) simp_all
  have i: "\<lfloor>5629499534213119 / 1125899906842624 :: real\<rfloor> = 4"
    by (rule floor_unique) simp_all
  show ?thesis
    unfolding initializeCentroidsKMeansPlusPlus_def Let_def
    by (simp add: v i upt_rec nextCentroid_heapDraw52)
qed

lemma wfImage_heapDraw: "wfImage heapDraw imgDraw"
  by (simp add: wfImage_def heapDraw_def imgDraw_def)

lemma samplePixels_heapDraw:
  "samplePixels (heapDraw ! data imgDraw) 0 [] = [(2, 3, 0), (0, 2, 0), (2, 3, 0), (0, 0, 0)]"
  by (simp add: heapDraw_def imgDraw_def samplePixels.simps sampleStep_def pixelAt_def)

lemma seedingFails_heapDraw:
  "seedingFails rndTop (samplePixels (heapDraw ! data imgDraw) 0 []) 2"
  by (simp add: samplePixels_heapDraw seedingFails_def seeding_heapDraw)

lemma extractColors_heapDraw: "extractColors rndTop heapDraw imgDraw 2 = Inl TypeError"
  by (rule extractColors_fails[OF _ _ seedingFails_heapDraw])
    (simp_all add: samplePixels_heapDraw)

lemma wfImage_heapDraw52: "wfImage heapDraw52 imgDraw52"
  by (simp add: wfImage_def heapDraw52_def imgDraw52_def)

lemma samplePixels_heapDraw52:
  "samplePixels (heapDraw52 ! data imgDraw52) 0 []
     = [(0, 2, 0), (2, 2, 0), (1, 3, 2), (1, 4, 0), (1, 2, 1)]"
  by (simp add: heapDraw52_def imgDraw52_def samplePixels.simps sampleStep_def pixelAt_def)

lemma seedingFails_heapDraw52:
  "seedingFails rndTop52 (samplePixels (heapDraw52 ! data imgDraw52) 0 []) 2"
  by (simp add: samplePixels_heapDraw52 seedingFails_def seeding_heapDraw52)

lemma extractColors_heapDraw52: "extractColors rndTop52 heapDraw52 imgDraw52 2 = Inl TypeError"
  by (rule extractColors_fails[OF _ _ seedingFails_heapDraw52])
    (simp_all add: samplePixels_heapDraw52)

section \<open>Claims on the palette extraction\<close>

text \<open>
  C2, evaluated where the code breaks it. The buffer has four pixels, all of alpha 255,
  \<open>k = 2\<close> lies in \<open>[2, 16]\<close>, and every random draw is the largest double below 1, a
  number of \<open>[0, 1)\<close>. The seeding takes the last pixel as first centroid; in the weighted
  draw the rounded subtractions leave the remainder \<open>2 ^ - 49\<close> after the last pixel, so
  \<^verbatim>\<open>random <= 0\<close> never holds, nothing is pushed, and the seeding returns one centroid.
  The first round of \<^verbatim>\<open>kMeans\<close> then stores an \<^verbatim>\<open>undefined\<close> centroid, on which
  \<^verbatim>\<open>extractColors\<close> throws a \<^verbatim>\<open>TypeError\<close> where the claim promises two colours. The
  same happens on a buffer of five pixels when every draw is the double before that
  one, with the remainder \<open>2 ^ - 50\<close>.
\<close>

theorem extractColors_throws_when_no_pixel_is_drawn:
  "wfImage heapDraw imgDraw
   \<and> width imgDraw * height imgDraw = 4
   \<and> map (alphaAt (heapDraw ! data imgDraw)) [0, 1, 2, 3] = [255, 255, 255, 255]
   \<and> (\<forall>n. 0 \<le> rndTop n \<and> rndTop n < 1)
   \<and> extractColors rndTop heapDraw imgDraw 2 = Inl TypeError
   \<and> wfImage heapDraw52 imgDraw52
   \<and> width imgDraw52 * height imgDraw52 = 5
   \<and> map (alphaAt (heapDraw52 ! data imgDraw52)) [0, 1, 2, 3, 4] = [255, 255, 255, 255, 255]
   \<and> (\<forall>n. 0 \<le> rndTop52 n \<and> rndTop52 n < 1)
   \<and> extractColors rndTop52 heapDraw52 imgDraw52 2 = Inl TypeError"
proof -
  have "width imgDraw * height imgDraw = 4"
    "map (alphaAt (heapDraw ! data imgDraw)) [0, 1, 2, 3] = [255, 255, 255, 255]"
    by (simp_all add: imgDraw_def heapDraw_def alphaAt_def)
  moreover have "\<forall>n. 0 \<le> rndTop n \<and> rndTop n < 1" by (simp add: rndTop_def)
  moreover have "width imgDraw52 * height imgDraw52 = 5"
    "map (alphaAt (heapDraw52 ! data imgDraw52)) [0, 1, 2, 3, 4] = [255, 255, 255, 255, 255]"
    by (simp_all add: imgDraw52_def heapDraw52_def alphaAt_def)
  moreover have "\<forall>n. 0 \<le> rndTop52 n \<and> rndTop52 n < 1" by (simp add: rndTop52_def)
  ultimately show ?thesis
    using wfImage_heapDraw extractColors_heapDraw wfImage_heapDraw52 extractColors_heapDraw52
    by (intro conjI)
qed

text \<open>
  C6: for \<open>k\<close> up to 16 (the range of the contract is \<open>[2, 16]\<close>), when no pixel is
  sampled, or fewer than \<open>k\<close> are, \<^verbatim>\<open>extractColors\<close> returns the fallback palette of the
  specification, whatever the random draws: \<open>k\<close> colours with hues \<open>i * 360 / k\<close>,
  saturation 70 percent, lightness 50 percent, converted by the standard piecewise
  formula with rounded channels.
\<close>

theorem extractColors_fallback:
  assumes "k \<le> 16"
    and "length (samplePixels (hp ! data img) 0 []) = 0
         \<or> length (samplePixels (hp ! data img) 0 []) < k"
  shows "extractColors rnd hp img k = Inr (fallbackPalette k)"
  using assms(2) generateDefaultPalette_fallback[OF assms(1)]
  by (auto simp: extractColors_def kMeans_def Let_def)

theorem extractColors_fallback_witness:
  "(4::nat) \<le> 16
   \<and> length (samplePixels (heap0 ! data img0) 0 []) < 4
   \<and> extractColors rndZero heap0 img0 4
       = Inr [(217, 38, 38), (128, 217, 38), (38, 217, 217), (128, 38, 217)]"
proof -
  have k: "(4::nat) \<le> 16" by simp
  have h: "length (samplePixels (heap0 ! data img0) 0 []) < 4"
    by (simp add: samplePixels_heap0)
  then have "length (samplePixels (heap0 ! data img0) 0 []) = 0
             \<or> length (samplePixels (heap0 ! data img0) 0 []) < 4"
    by (rule disjI2)
  from extractColors_fallback[OF k this, of rndZero] h show ?thesis
    by (simp add: fallbackPalette_4)
qed




section \<open>Cleaning edges: the vote\<close>

text \<open>
  The test \<^verbatim>\<open>minDist > 5\<close> holds when the pixel is farther than 5 from every palette
  colour.
\<close>

lemma exceeds_fold:
  "exceeds (fold (\<lambda>color minDist.
             let dist = colorDistance pixel color
             in if lessThanMin dist minDist then Some dist else minDist) palette acc) t
   \<longleftrightarrow> exceeds acc t \<and> (\<forall>c\<in>set palette. colorDistance pixel c > t)"
proof (induction palette arbitrary: acc)
  case Nil
  then show ?case by simp
next
  case (Cons c palette)
  show ?case
    unfolding fold_Cons comp_def Cons.IH
    by (cases acc) (auto simp: exceeds_def lessThanMin_def Let_def)
qed

lemma exceeds_minDist: "exceeds (minDistToPalette pixel palette) 5 \<longleftrightarrow> farFromPalette pixel palette"
  unfolding minDistToPalette_def exceeds_fold by (simp add: farFromPalette_def exceeds_def)

text \<open>
  The votes build up the list of the colours in the order of their first occurrences,
  each with the number of its occurrences.
\<close>

lemma firsts_snoc: "firsts (xs @ [a]) = (if a \<in> set xs then firsts xs else firsts xs @ [a])"
  by (simp add: firsts_def)

lemma set_firsts: "set (firsts xs) = set xs"
  by (simp add: firsts_def)

lemma distinct_firsts: "distinct (firsts xs)"
  by (simp add: firsts_def)

lemma count_list_snoc: "count_list (xs @ [a]) k = count_list xs k + (if a = k then 1 else 0)"
  by (induction xs) auto

lemma map_of_tallied:
  "map_of (tallied votes) c = (if c \<in> set votes then Some (count_list votes c) else None)"
  by (simp add: tallied_def map_of_map_restrict restrict_map_def set_firsts)

lemma tally_tallied: "tally c (tallied votes) = tallied (votes @ [c])"
proof (cases "c \<in> set votes")
  case False
  then have "count_list votes c = 0" by (simp add: count_list_0_iff)
  moreover from False have "map (\<lambda>k. (k, count_list (votes @ [c]) k)) (firsts votes)
        = map (\<lambda>k. (k, count_list votes k)) (firsts votes)"
    by (intro map_cong) (auto simp: count_list_snoc set_firsts)
  ultimately show ?thesis using False
    by (simp add: tally_def map_of_tallied) (simp add: tallied_def firsts_snoc count_list_snoc)
next
  case True
  have "map (\<lambda>(key, n). if key = c then (key, n + 1) else (key, n)) (tallied votes)
        = map (\<lambda>k. (k, count_list (votes @ [c]) k)) (firsts votes)"
    by (simp add: tallied_def count_list_snoc comp_def) 
  with True show ?thesis
    by (simp add: tally_def map_of_tallied) (simp add: tallied_def firsts_snoc)
qed

lemma fold_tally: "fold tally cs (tallied votes) = tallied (votes @ cs)"
proof (induction cs arbitrary: votes)
  case Nil
  then show ?case by simp
next
  case (Cons c cs)
  from Cons.IH[of "votes @ [c]"] show ?case by (simp add: tally_tallied)
qed

lemma tallied_Nil: "tallied [] = []"
  by (simp add: tallied_def firsts_def)

text \<open>
  The loop over the entries returns the first colour with the greatest count.
\<close>

lemma pluralityFirst_argmax: "pluralityFirst votes c \<longleftrightarrow> argmaxFirst (count_list votes) votes c"
  by (simp add: pluralityFirst_def argmaxFirst_def)

lemma takeWhile_firsts:
  "set (takeWhile (\<lambda>v. v \<noteq> c) (firsts xs)) = set (takeWhile (\<lambda>v. v \<noteq> c) xs)"
proof (induction xs rule: rev_induct)
  case Nil
  then show ?case by (simp add: firsts_def)
next
  case (snoc a xs)
  show ?case
  proof (cases "c \<in> set xs")
    case True
    then have "takeWhile (\<lambda>v. v \<noteq> c) (xs @ [a]) = takeWhile (\<lambda>v. v \<noteq> c) xs"
      by (intro takeWhile_append1[of c]) simp_all
    moreover from True have "takeWhile (\<lambda>v. v \<noteq> c) (firsts xs @ [a])
        = takeWhile (\<lambda>v. v \<noteq> c) (firsts xs)"
      by (intro takeWhile_append1[of c]) (simp_all add: set_firsts)
    ultimately show ?thesis using snoc.IH by (simp add: firsts_snoc)
  next
    case False
    have R: "takeWhile (\<lambda>v. v \<noteq> c) (xs @ [a]) = xs @ takeWhile (\<lambda>v. v \<noteq> c) [a]"
      using False by (intro takeWhile_append2) auto
    have F: "takeWhile (\<lambda>v. v \<noteq> c) (firsts xs @ ys) = firsts xs @ takeWhile (\<lambda>v. v \<noteq> c) ys"
      for ys
      using False by (intro takeWhile_append2) (auto simp: set_firsts)
    have "takeWhile (\<lambda>v. v \<noteq> c) (firsts xs) = firsts xs"
      using False by (auto simp: set_firsts)
    then have Fe: "set (takeWhile (\<lambda>v. v \<noteq> c) (firsts xs)) = set xs"
      by (simp only: set_firsts)
    show ?thesis
    proof (cases "a \<in> set xs")
      case True
      with False have "a \<noteq> c" by auto
      with True have "set (takeWhile (\<lambda>v. v \<noteq> c) (xs @ [a])) = set xs"
        unfolding R by auto
      moreover from True have "firsts (xs @ [a]) = firsts xs" by (simp add: firsts_snoc)
      ultimately show ?thesis by (simp only: Fe)
    next
      case notin: False
      then have "firsts (xs @ [a]) = firsts xs @ [a]" by (simp add: firsts_snoc)
      then show ?thesis
        unfolding R by (simp only: F set_append set_firsts)
    qed
  qed
qed

lemma argmaxFirst_firsts:
  "argmaxFirst f (firsts votes) c \<longleftrightarrow> argmaxFirst f votes c"
  by (simp add: argmaxFirst_def set_firsts takeWhile_firsts)

lemma best_fold_inv:
  assumes "argmaxFirst f ks1 k0"
  shows "\<exists>k. fold (\<lambda>(colorKey, count) (maxCount, bestColor).
                  if count > maxCount then (count, Some colorKey) else (maxCount, bestColor))
               (map (\<lambda>k. (k, f k)) ks2) (f k0, Some k0) = (f k, Some k)
             \<and> argmaxFirst f (ks1 @ ks2) k"
  using assms
proof (induction ks2 arbitrary: ks1 k0)
  case Nil
  then show ?case by simp
next
  case (Cons a ks2)
  show ?case
  proof (cases "f a > f k0")
    case True
    have "argmaxFirst f (ks1 @ [a]) a"
      unfolding argmaxFirst_def
    proof (intro conjI ballI)
      show "a \<in> set (ks1 @ [a])" by simp
      fix k' assume "k' \<in> set (ks1 @ [a])"
      with Cons.prems True show "f k' \<le> f a" by (auto simp: argmaxFirst_def)
    next
      fix k' assume "k' \<in> set (takeWhile (\<lambda>v. v \<noteq> a) (ks1 @ [a]))"
      then have "k' \<in> set (ks1 @ [a])" "k' \<noteq> a" by (auto dest: set_takeWhileD)
      then have "k' \<in> set ks1" by simp
      with Cons.prems True show "f k' < f a" by (auto simp: argmaxFirst_def)
    qed
    from Cons.IH[OF this] True show ?thesis by simp
  next
    case False
    from Cons.prems have in1: "k0 \<in> set ks1" by (simp add: argmaxFirst_def)
    then have "takeWhile (\<lambda>v. v \<noteq> k0) (ks1 @ [a]) = takeWhile (\<lambda>v. v \<noteq> k0) ks1"
      by (intro takeWhile_append1[of k0]) simp_all
    with Cons.prems False have "argmaxFirst f (ks1 @ [a]) k0"
      by (auto simp: argmaxFirst_def)
    from Cons.IH[OF this] False show ?thesis by simp
  qed
qed

lemma bestNeighborColor_tallied:
  assumes "votes \<noteq> []"
  shows "\<exists>c. bestNeighborColor first (tallied votes) = Some c \<and> pluralityFirst votes c"
proof -
  from assms have "firsts votes \<noteq> []" using set_firsts[of votes] by auto
  then obtain a ks where ks: "firsts votes = a # ks" by (cases "firsts votes") auto
  then have "a \<in> set votes" using set_firsts[of votes] by auto
  then have pos: "0 < count_list votes a" using count_list_0_iff[of votes a] by auto
  have "argmaxFirst (count_list votes) [a] a" by (simp add: argmaxFirst_def)
  from best_fold_inv[OF this, of ks] obtain c where
    c: "fold (\<lambda>(colorKey, count) (maxCount, bestColor).
                  if count > maxCount then (count, Some colorKey) else (maxCount, bestColor))
               (map (\<lambda>k. (k, count_list votes k)) ks) (count_list votes a, Some a)
          = (count_list votes c, Some c)"
       "argmaxFirst (count_list votes) ([a] @ ks) c"
    by blast
  from c(2) have "pluralityFirst votes c"
    by (simp add: pluralityFirst_argmax ks[symmetric] argmaxFirst_firsts)
  moreover from pos c(1) have "bestNeighborColor first (tallied votes) = Some c"
    by (simp add: bestNeighborColor_def tallied_def ks)
  ultimately show ?thesis by blast
qed

section \<open>Cleaning edges: the loops\<close>

lemma findNearestColor_in_palette:
  assumes "palette \<noteq> []"
  shows "\<exists>c\<in>set palette. findNearestColor pixel palette = Some c"
  using findNearestColor_first[OF assms, of pixel] by (auto simp: firstNearest_def)

lemma tallyNeighbors_votes:
  assumes "palette \<noteq> []"
  shows "\<exists>cs. map Some cs
              = map (\<lambda>(dx, dy). findNearestColor
                      (pixelAt src (nat (((int y + dy) * int w + (int x + dx)) * 4))) palette) offs
            \<and> set cs \<subseteq> set palette
            \<and> tallyNeighbors w palette src x y offs (tallied pre) = Inr (tallied (pre @ cs))"
proof (induction offs arbitrary: pre)
  case Nil
  then show ?case by simp
next
  case (Cons off offs)
  obtain dx dy where off: "off = (dx, dy)" by (cases off)
  from findNearestColor_in_palette[OF assms,
      of "pixelAt src (nat (((int y + dy) * int w + (int x + dx)) * 4))"]
  obtain c where c: "c \<in> set palette"
    "findNearestColor (pixelAt src (nat (((int y + dy) * int w + (int x + dx)) * 4))) palette
       = Some c"
    by blast
  from Cons.IH[of "pre @ [c]"] obtain cs where cs:
    "map Some cs
       = map (\<lambda>(dx, dy). findNearestColor
               (pixelAt src (nat (((int y + dy) * int w + (int x + dx)) * 4))) palette) offs"
    "set cs \<subseteq> set palette"
    "tallyNeighbors w palette src x y offs (tallied (pre @ [c])) = Inr (tallied ((pre @ [c]) @ cs))"
    by blast
  show ?case
  proof (intro exI[of _ "c # cs"] conjI)
    show "map Some (c # cs)
       = map (\<lambda>(dx, dy). findNearestColor
               (pixelAt src (nat (((int y + dy) * int w + (int x + dx)) * 4))) palette)
           (off # offs)"
      using cs(1) c(2) by (simp add: off)
    show "set (c # cs) \<subseteq> set palette" using cs(2) c(1) by simp
    show "tallyNeighbors w palette src x y (off # offs) (tallied pre) = Inr (tallied (pre @ c # cs))"
      using cs(3) c(2) by (simp add: off Let_def tally_tallied)
  qed
qed

lemma pluralityFirst_Some:
  "pluralityFirst (map Some cs) (Some c) \<longleftrightarrow> pluralityFirst cs c"
proof -
  have cnt: "count_list (map Some xs) (Some k) = count_list xs k" for xs :: "'a list" and k
    by (induction xs) auto
  have tw: "takeWhile (\<lambda>v. v \<noteq> Some c) (map Some cs) = map Some (takeWhile (\<lambda>v. v \<noteq> c) cs)"
    by (simp add: takeWhile_map comp_def)
  show ?thesis
    unfolding pluralityFirst_def tw by (auto simp: cnt)
qed

lemma cleanPixel_effect:
  assumes "palette \<noteq> []" and "validPalette palette" and "4 * (y * w + x) + 3 < length dst"
  shows "\<exists>dst'. cleanPixel w palette src x y dst = Inr dst' \<and> length dst' = length dst
           \<and> (\<forall>j. j \<noteq> 4 * (y * w + x) \<and> j \<noteq> 4 * (y * w + x) + 1 \<and> j \<noteq> 4 * (y * w + x) + 2
                  \<longrightarrow> dst' ! j = dst ! j)
           \<and> (if farFromPalette (rgbAt src (y * w + x)) palette then voted w palette src x y dst'
               else dst' = dst)"
proof (cases "farFromPalette (rgbAt src (y * w + x)) palette")
  case False
  then show ?thesis
    by (simp add: cleanPixel_def exceeds_minDist rgbAt_def mult.commute Let_def)
next
  case True
  obtain first rest where pal: "palette = first # rest" using assms(1) by (cases palette) auto
  from tallyNeighbors_votes[OF assms(1), of src y w x neighborOffsets "[]"]
  obtain cs where cs: "map Some cs = neighborVotes w palette src x y"
    "set cs \<subseteq> set palette"
    "tallyNeighbors w palette src x y neighborOffsets [] = Inr (tallied cs)"
    by (auto simp: neighborVotes_def tallied_Nil[symmetric] simp del: tallied_Nil)
  from cs(1) have "length cs = 8" 
    using length_map[of Some cs] by (simp add: neighborVotes_def neighborOffsets_def)
  then have "cs \<noteq> []" by auto
  from bestNeighborColor_tallied[OF this, of "Some first"] obtain c where
    c: "bestNeighborColor (Some first) (tallied cs) = Some c" "pluralityFirst cs c"
    by blast
  obtain r g b where rgb: "c = (r, g, b)" by (cases c)
  from c(2) cs(2) have "c \<in> set palette" by (auto simp: pluralityFirst_def)
  with assms(2) have "validColor c" by (simp add: validPalette_def list_all_iff)
  with rgb have bytes: "isByte r" "isByte g" "isByte b" by simp_all
  define p where "p = y * w + x"
  define dst' where "dst' = dst[4 * p := toUint8Clamp r, 4 * p + 1 := toUint8Clamp g,
                               4 * p + 2 := toUint8Clamp b]"
  from True cs(3) c(1) have run: "cleanPixel w palette src x y dst = Inr dst'"
    by (simp add: cleanPixel_def exceeds_minDist rgbAt_def mult.commute Let_def pal rgb
        dst'_def p_def)
  from assms(3) have "pixelAt dst' (4 * p) = (r, g, b)"
    by (simp add: pixelAt_def dst'_def p_def[symmetric] toUint8Clamp_byte bytes)
  with c(2) cs(1) have "voted w palette src x y dst'"
    unfolding voted_def rgbAt_def p_def[symmetric]
    using pluralityFirst_Some[of cs c] by (auto simp: rgb)
  moreover have "length dst' = length dst" by (simp add: dst'_def)
  moreover have "\<forall>j. j \<noteq> 4 * p \<and> j \<noteq> 4 * p + 1 \<and> j \<noteq> 4 * p + 2 \<longrightarrow> dst' ! j = dst ! j"
    by (simp add: dst'_def)
  ultimately show ?thesis using run True by (simp add: p_def)
qed

lemma cell_index_inj:
  fixes x y x' y' w :: nat
  assumes "x < w" and "x' < w" and "y * w + x = y' * w + x'"
  shows "x = x' \<and> y = y'"
proof -
  from assms(1) have "(y * w + x) div w = y" "(y * w + x) mod w = x" by simp_all
  moreover from assms(2) have "(y' * w + x') div w = y'" "(y' * w + x') mod w = x'" by simp_all
  ultimately show ?thesis using assms(3) by simp
qed

lemma cleanCells_append:
  "cleanCells w palette src (as @ bs) dst =
     (case cleanCells w palette src as dst of
        Inl e \<Rightarrow> Inl e
      | Inr d \<Rightarrow> cleanCells w palette src bs d)"
proof (induction as arbitrary: dst)
  case Nil
  then show ?case by simp
next
  case (Cons a as)
  obtain x y where a: "a = (x, y)" by (cases a)
  show ?case by (simp add: a Cons.IH split: sum.splits)
qed

lemma cleanRow_cells:
  "cleanRow w palette src y xs dst = cleanCells w palette src (map (\<lambda>x. (x, y)) xs) dst"
  by (induction xs arbitrary: dst) (simp_all split: sum.splits)

lemma cleanRows_cells:
  "cleanRows w palette src xs ys dst
     = cleanCells w palette src (concat (map (\<lambda>y. map (\<lambda>x. (x, y)) xs) ys)) dst"
  by (induction ys arbitrary: dst)
     (simp_all add: cleanRow_cells cleanCells_append split: sum.splits)

lemma cleanCells_effect:
  assumes "palette \<noteq> []" and "validPalette palette"
  shows "length dst = 4 * n \<Longrightarrow> \<forall>(x, y)\<in>set cells. x < w \<and> y * w + x < n \<Longrightarrow>
     \<exists>dst'. cleanCells w palette src cells dst = Inr dst' \<and> length dst' = 4 * n
       \<and> (\<forall>q<n. dst' ! (4 * q + 3) = dst ! (4 * q + 3)
             \<and> (\<forall>(x, y)\<in>set cells. q = y * w + x \<longrightarrow> farFromPalette (rgbAt src q) palette
                    \<longrightarrow> voted w palette src x y dst')
             \<and> ((\<forall>(x, y)\<in>set cells. q = y * w + x \<longrightarrow> \<not> farFromPalette (rgbAt src q) palette)
                    \<longrightarrow> sameRGB dst dst' q))"
proof (induction cells arbitrary: dst)
  case Nil
  then show ?case by (simp add: sameRGB_def)
next
  case (Cons cell cells)
  obtain x y where cell: "cell = (x, y)" by (cases cell)
  define p where "p = y * w + x"
  from Cons.prems(2) have xw: "x < w" and pn: "p < n"
    and tail: "\<forall>(x, y)\<in>set cells. x < w \<and> y * w + x < n"
    by (simp_all add: cell p_def)
  from pn Cons.prems(1) have "4 * (y * w + x) + 3 < length dst" by (simp add: p_def)
  from cleanPixel_effect[OF assms this, of src] obtain dst1 where
    run1: "cleanPixel w palette src x y dst = Inr dst1" and len1: "length dst1 = 4 * n"
    and frame1: "\<And>j. j \<noteq> 4 * p \<Longrightarrow> j \<noteq> 4 * p + 1 \<Longrightarrow> j \<noteq> 4 * p + 2 \<Longrightarrow> dst1 ! j = dst ! j"
    and at1: "if farFromPalette (rgbAt src p) palette then voted w palette src x y dst1
              else dst1 = dst"
    unfolding p_def[symmetric] using Cons.prems(1) by auto
  from Cons.IH[OF len1 tail] obtain dst' where
    run: "cleanCells w palette src cells dst1 = Inr dst'" and len: "length dst' = 4 * n"
    and ih: "\<And>q. q < n \<Longrightarrow> dst' ! (4 * q + 3) = dst1 ! (4 * q + 3)
             \<and> (\<forall>(x, y)\<in>set cells. q = y * w + x \<longrightarrow> farFromPalette (rgbAt src q) palette
                    \<longrightarrow> voted w palette src x y dst')
             \<and> ((\<forall>(x, y)\<in>set cells. q = y * w + x \<longrightarrow> \<not> farFromPalette (rgbAt src q) palette)
                    \<longrightarrow> sameRGB dst1 dst' q)"
    by blast
  have alpha1: "dst1 ! (4 * q + 3) = dst ! (4 * q + 3)" for q
  proof -
    have "4 * q + 3 \<noteq> 4 * p" "4 * q + 3 \<noteq> 4 * p + 1" "4 * q + 3 \<noteq> 4 * p + 2"
      by presburger+
    then show ?thesis by (rule frame1)
  qed
  have other1: "sameRGB dst dst1 q" if "q \<noteq> p" for q
  proof -
    from that have "4 * q \<noteq> 4 * p" "4 * q \<noteq> 4 * p + 1" "4 * q \<noteq> 4 * p + 2"
      "4 * q + 1 \<noteq> 4 * p" "4 * q + 1 \<noteq> 4 * p + 1" "4 * q + 1 \<noteq> 4 * p + 2"
      "4 * q + 2 \<noteq> 4 * p" "4 * q + 2 \<noteq> 4 * p + 1" "4 * q + 2 \<noteq> 4 * p + 2"
      by presburger+
    then show ?thesis by (simp add: sameRGB_def frame1)
  qed
  have trans: "sameRGB a b q \<Longrightarrow> sameRGB b c q \<Longrightarrow> sameRGB a c q" for a b c q
    by (simp add: sameRGB_def)
  have "dst' ! (4 * q + 3) = dst ! (4 * q + 3)
          \<and> (\<forall>(x, y)\<in>set (cell # cells). q = y * w + x \<longrightarrow> farFromPalette (rgbAt src q) palette
                 \<longrightarrow> voted w palette src x y dst')
          \<and> ((\<forall>(x, y)\<in>set (cell # cells). q = y * w + x
                  \<longrightarrow> \<not> farFromPalette (rgbAt src q) palette)
                 \<longrightarrow> sameRGB dst dst' q)" if q: "q < n" for q
  proof (intro conjI)
    show "dst' ! (4 * q + 3) = dst ! (4 * q + 3)"
      using ih[OF q] alpha1[of q] by simp
    show "\<forall>(x, y)\<in>set (cell # cells). q = y * w + x \<longrightarrow> farFromPalette (rgbAt src q) palette
                 \<longrightarrow> voted w palette src x y dst'"
    proof (intro ballI, clarify)
      fix x' y' assume mem: "(x', y') \<in> set (cell # cells)"
        and far: "farFromPalette (rgbAt src (y' * w + x')) palette"
        and qq: "q = y' * w + x'"
      show "voted w palette src x' y' dst'"
      proof (cases "(x', y') \<in> set cells")
        case True
        with ih[OF q] far qq show ?thesis by blast
      next
        case False
        with mem have e: "x' = x" "y' = y" by (simp_all add: cell)
        then have qp: "q = p" by (simp add: qq p_def)
        from far e at1 have v1: "voted w palette src x y dst1" by (simp add: p_def)
        have "\<forall>(x'', y'')\<in>set cells. q = y'' * w + x''
                \<longrightarrow> \<not> farFromPalette (rgbAt src q) palette"
        proof (intro ballI, clarify)
          fix x'' y'' assume c2: "(x'', y'') \<in> set cells" and q2: "q = y'' * w + x''"
            and "farFromPalette (rgbAt src (y'' * w + x'')) palette"
          from tail c2 have "x'' < w" by auto
          moreover from q2 qp have "y'' * w + x'' = y * w + x" by (simp add: p_def)
          ultimately have "x'' = x \<and> y'' = y" using xw by (intro cell_index_inj)
          with c2 False e show False by simp
        qed
        with ih[OF q] have "sameRGB dst1 dst' q" by blast
        then have "rgbAt dst' p = rgbAt dst1 p" by (simp add: qp sameRGB_rgbAt)
        with v1 e show ?thesis by (simp add: voted_def p_def)
      qed
    qed
    show "(\<forall>(x, y)\<in>set (cell # cells). q = y * w + x
                  \<longrightarrow> \<not> farFromPalette (rgbAt src q) palette)
                 \<longrightarrow> sameRGB dst dst' q"
    proof
      assume none: "\<forall>(x, y)\<in>set (cell # cells). q = y * w + x
                  \<longrightarrow> \<not> farFromPalette (rgbAt src q) palette"
      then have "\<forall>(x, y)\<in>set cells. q = y * w + x \<longrightarrow> \<not> farFromPalette (rgbAt src q) palette"
        by auto
      with ih[OF q] have s2: "sameRGB dst1 dst' q" by blast
      have s1: "sameRGB dst dst1 q"
      proof (cases "q = p")
        case True
        with none have "\<not> farFromPalette (rgbAt src p) palette" by (auto simp: cell p_def)
        with at1 show ?thesis by (simp add: sameRGB_def)
      next
        case False
        then show ?thesis by (rule other1)
      qed
      from trans[OF s1 s2] show "sameRGB dst dst' q" .
    qed
  qed
  with run1 run len show ?case by (simp add: cell)
qed

lemma cell_in_range:
  fixes x y w h :: nat
  assumes "x < w" and "y < h"
  shows "y * w + x < w * h"
proof -
  from assms(2) have "(y + 1) * w \<le> h * w" by (intro mult_le_mono1) simp
  with assms(1) show ?thesis by (simp add: mult.commute)
qed

lemma interior_cells:
  "(x, y) \<in> set (concat (map (\<lambda>y. map (\<lambda>x. (x, y)) [1..<w - 1]) [1..<h - 1]))
     \<longleftrightarrow> interior w h x y"
proof -
  have "(x, y) \<in> set (concat (map (\<lambda>y. map (\<lambda>x. (x, y)) [1..<w - 1]) [1..<h - 1]))
        \<longleftrightarrow> x \<in> set [1..<w - 1] \<and> y \<in> set [1..<h - 1]"
    by (simp add: image_iff)
  also have "\<dots> \<longleftrightarrow> interior w h x y"
    by (auto simp: interior_def)
  finally show ?thesis .
qed

lemma cleanEdges_unfold:
  "cleanEdges hp img palette =
     (case cleanCells (width img) palette (hp ! data img)
             (concat (map (\<lambda>y. map (\<lambda>x. (x, y)) [1..<width img - 1]) [1..<height img - 1]))
             (hp ! data img) of
        Inl e \<Rightarrow> Inl e
      | Inr d \<Rightarrow> Inr (hp @ [d], \<lparr>data = length hp, width = width img, height = height img\<rparr>))"
  by (simp add: cleanEdges_def newUint8ClampedArray_def Let_def cleanRows_cells
      split: sum.splits)

section \<open>Concrete run of the edge cleaning\<close>

lemma sqrt_gt_iff_sq:
  assumes "0 \<le> t"
  shows "t < sqrt x \<longleftrightarrow> t\<^sup>2 < x"
proof -
  have "sqrt (t\<^sup>2) < sqrt x \<longleftrightarrow> t\<^sup>2 < x" by (rule real_sqrt_less_iff)
  with assms show ?thesis by simp
qed

lemma palette0_black_white: "palette0 = [black, white]"
  by (simp add: palette0_def black_def white_def)

lemma nearest_black_white:
  "findNearestColor white [black, white] = Some white"
  "findNearestColor black [black, white] = Some black"
  "findNearestColor grey [black, white] = Some black"
  by (simp_all add: findNearestColor_def lessThanMin_def white_def black_def grey_def
      sqrt_less_iff_sq)

lemma grey_far: "exceeds (minDistToPalette grey [black, white]) 5"
  by (simp add: minDistToPalette_def exceeds_def lessThanMin_def white_def black_def grey_def
      sqrt_less_iff_sq sqrt_gt_iff_sq)

lemma pixels_heapEdge:
  "pixelAt (heapEdge ! 0) 0 = white" "pixelAt (heapEdge ! 0) 4 = black"
  "pixelAt (heapEdge ! 0) 8 = grey" "pixelAt (heapEdge ! 0) 12 = black"
  "pixelAt (heapEdge ! 0) 16 = grey" "pixelAt (heapEdge ! 0) 20 = white"
  "pixelAt (heapEdge ! 0) 24 = white" "pixelAt (heapEdge ! 0) 28 = white"
  "pixelAt (heapEdge ! 0) 32 = black"
  by (simp_all add: heapEdge_def pixelAt_def white_def black_def grey_def)

lemma black_neq_white: "black \<noteq> white" "white \<noteq> black"
  by (simp_all add: black_def white_def)

lemma tally_heapEdge:
  "tallyNeighbors 3 [black, white] (heapEdge ! 0) (Suc 0) (Suc 0) neighborOffsets []
     = Inr [(white, 4), (black, 4)]"
  by (simp add: neighborOffsets_def pixels_heapEdge nearest_black_white tally_def
      black_neq_white)

lemma best_heapEdge: "bestNeighborColor (Some black) [(white, 4), (black, 4)] = Some white"
  by (simp add: bestNeighborColor_def)

lemma cleanPixel_heapEdge:
  "cleanPixel 3 [black, white] (heapEdge ! 0) (Suc 0) (Suc 0) (heapEdge ! 0) = Inr edgeCleaned"
  by (simp add: cleanPixel_def pixels_heapEdge grey_far tally_heapEdge best_heapEdge)
     (simp add: white_def heapEdge_def edgeCleaned_def toUint8Clamp_def)

lemma cleanEdges_heapEdge:
  "cleanEdges heapEdge imgEdge palette0
     = Inr (heapEdge @ [edgeCleaned], \<lparr>data = 1, width = 3, height = 3\<rparr>)"
proof -
  have "[1..<3 - 1] = [1::nat]" by (simp add: upt_rec)
  then show ?thesis
    by (simp add: cleanEdges_def newUint8ClampedArray_def imgEdge_def palette0_black_white
        cleanPixel_heapEdge Let_def)
       (simp add: heapEdge_def)
qed

lemma cleanEdges_empty_palette: "cleanEdges heapEdge imgEdge [] = Inl TypeError"
proof -
  have "[1..<3 - 1] = [1::nat]" by (simp add: upt_rec)
  moreover have "cleanPixel 3 [] (heapEdge ! 0) (Suc 0) (Suc 0) dst = Inl TypeError" for dst
    by (simp add: cleanPixel_def minDistToPalette_def exceeds_def neighborOffsets_def
        findNearestColor_def)
  ultimately show ?thesis
    by (simp add: cleanEdges_def newUint8ClampedArray_def imgEdge_def Let_def)
qed

lemma wfImage_heapEdge: "wfImage heapEdge imgEdge"
  by (simp add: wfImage_def heapEdge_def imgEdge_def)

lemma grey_farFromPalette: "farFromPalette grey palette0"
  using grey_far by (simp add: exceeds_minDist palette0_black_white)

section \<open>Claim on the edge cleaning\<close>

text \<open>
  C9, as stated, fails: the claim covers every pixel, and the loops of \<^verbatim>\<open>cleanEdges\<close>
  run over the interior only (\<open>1 \<le> x < width - 1\<close>, \<open>1 \<le> y < height - 1\<close>). In the sample
  buffer the grey pixel in the top right corner is farther than 5 from black and from
  white, and keeps its colour, which is no palette colour. The claim also covers every
  palette, and with the empty palette the source throws at the first neighbour.
\<close>

theorem cleanEdges_border_outlier_kept:
  "cleanEdges heapEdge imgEdge palette0
     = Inr (heapEdge @ [edgeCleaned], \<lparr>data = 1, width = 3, height = 3\<rparr>)
   \<and> farFromPalette (rgbAt (heapEdge ! data imgEdge) 2) palette0
   \<and> rgbAt edgeCleaned 2 = rgbAt (heapEdge ! data imgEdge) 2
   \<and> rgbAt edgeCleaned 2 \<notin> set palette0
   \<and> cleanEdges heapEdge imgEdge [] = Inl TypeError"
proof -
  have g: "rgbAt (heapEdge ! data imgEdge) 2 = grey"
    by (simp add: rgbAt_def imgEdge_def pixels_heapEdge)
  have "rgbAt edgeCleaned 2 = grey"
    by (simp add: rgbAt_def pixelAt_def edgeCleaned_def grey_def)
  moreover have "grey \<notin> set palette0" by (simp add: grey_def palette0_def)
  ultimately show ?thesis
    using cleanEdges_heapEdge cleanEdges_empty_palette grey_farFromPalette g by simp
qed

text \<open>
  C9, amended: for every well-formed buffer and every non-empty palette of colours with
  integer channels in \<open>[0, 255]\<close>, \<^verbatim>\<open>cleanEdges\<close> returns a buffer of the same dimensions
  in which every pixel keeps its alpha. Every interior pixel (not in the first or last
  row or column) whose colour is at distance greater than 5 from all palette colours gets
  the most frequent nearest palette colour among its 8 neighbours in the input, a tie
  going to the colour met first in iteration order; every other pixel, so every pixel of
  the border, keeps its colour.
\<close>

theorem cleanEdges_reassigns_interior_outliers:
  assumes "wfImage hp img" and "palette \<noteq> []" and "validPalette palette"
  shows "\<exists>hp' out. cleanEdges hp img palette = Inr (hp', out)
     \<and> width out = width img \<and> height out = height img
     \<and> length (hp' ! data out) = length (hp ! data img)
     \<and> (\<forall>x<width img. \<forall>y<height img.
          alphaAt (hp' ! data out) (y * width img + x)
            = alphaAt (hp ! data img) (y * width img + x)
          \<and> (if interior (width img) (height img) x y
                 \<and> farFromPalette (rgbAt (hp ! data img) (y * width img + x)) palette
              then voted (width img) palette (hp ! data img) x y (hp' ! data out)
              else rgbAt (hp' ! data out) (y * width img + x)
                     = rgbAt (hp ! data img) (y * width img + x)))"
proof -
  let ?w = "width img" and ?h = "height img" and ?src = "hp ! data img"
  let ?cells = "concat (map (\<lambda>y. map (\<lambda>x. (x, y)) [1..<?w - 1]) [1..<?h - 1])"
  from assms(1) have len: "length ?src = 4 * (?w * ?h)" by (simp add: wfImage_def)
  have inb: "\<forall>(x, y)\<in>set ?cells. x < ?w \<and> y * ?w + x < ?w * ?h"
  proof (intro ballI, clarify)
    fix x y assume "(x, y) \<in> set ?cells"
    then have "interior ?w ?h x y" by (simp only: interior_cells)
    then have "x < ?w" "y < ?h" by (simp_all add: interior_def)
    with cell_in_range[of x ?w y ?h] show "x < ?w \<and> y * ?w + x < ?w * ?h" by simp
  qed
  from cleanCells_effect[OF assms(2,3) len inb, of ?src] obtain dst' where
    run: "cleanCells ?w palette ?src ?cells ?src = Inr dst'"
    and len': "length dst' = 4 * (?w * ?h)"
    and eff: "\<And>q. q < ?w * ?h \<Longrightarrow> dst' ! (4 * q + 3) = ?src ! (4 * q + 3)
             \<and> (\<forall>(x, y)\<in>set ?cells. q = y * ?w + x \<longrightarrow> farFromPalette (rgbAt ?src q) palette
                    \<longrightarrow> voted ?w palette ?src x y dst')
             \<and> ((\<forall>(x, y)\<in>set ?cells. q = y * ?w + x
                     \<longrightarrow> \<not> farFromPalette (rgbAt ?src q) palette)
                    \<longrightarrow> sameRGB ?src dst' q)"
    by blast
  have px: "alphaAt dst' (y * ?w + x) = alphaAt ?src (y * ?w + x)
          \<and> (if interior ?w ?h x y \<and> farFromPalette (rgbAt ?src (y * ?w + x)) palette
              then voted ?w palette ?src x y dst'
              else rgbAt dst' (y * ?w + x) = rgbAt ?src (y * ?w + x))"
    if x: "x < ?w" and y: "y < ?h" for x y
  proof -
    define q where "q = y * ?w + x"
    from cell_in_range[OF x y] have q: "q < ?w * ?h" by (simp add: q_def)
    note e = eff[OF q]
    from e have al: "alphaAt dst' q = alphaAt ?src q" by (simp add: alphaAt_def)
    show ?thesis
    proof (cases "interior ?w ?h x y \<and> farFromPalette (rgbAt ?src q) palette")
      case True
      then have "(x, y) \<in> set ?cells" by (simp only: interior_cells)
      with e True have "voted ?w palette ?src x y dst'" unfolding q_def by blast
      with al True show ?thesis by (simp add: q_def)
    next
      case False
      have "\<forall>(x', y')\<in>set ?cells. q = y' * ?w + x'
              \<longrightarrow> \<not> farFromPalette (rgbAt ?src q) palette"
      proof (intro ballI, clarify)
        fix x' y' assume mem: "(x', y') \<in> set ?cells" and qq: "q = y' * ?w + x'"
          and far: "farFromPalette (rgbAt ?src (y' * ?w + x')) palette"
        from mem have i: "interior ?w ?h x' y'" by (simp only: interior_cells)
        then have "x' < ?w" by (simp add: interior_def)
        moreover from qq have "y' * ?w + x' = y * ?w + x" by (simp add: q_def)
        ultimately have "x' = x \<and> y' = y" using x by (intro cell_index_inj)
        with i far False show False by (simp add: q_def)
      qed
      with e have "sameRGB ?src dst' q" by blast
      then have "rgbAt dst' q = rgbAt ?src q" by (rule sameRGB_rgbAt)
      with al False show ?thesis by (auto simp: q_def)
    qed
  qed
  from run have "cleanEdges hp img palette
      = Inr (hp @ [dst'], \<lparr>data = length hp, width = ?w, height = ?h\<rparr>)"
    by (simp add: cleanEdges_unfold)
  with len len' px show ?thesis by simp
qed

theorem cleanEdges_reassigns_interior_outliers_witness:
  "wfImage heapEdge imgEdge \<and> palette0 \<noteq> [] \<and> validPalette palette0
   \<and> cleanEdges heapEdge imgEdge palette0
       = Inr (heapEdge @ [edgeCleaned], \<lparr>data = 1, width = 3, height = 3\<rparr>)
   \<and> interior 3 3 1 1
   \<and> farFromPalette (rgbAt (heapEdge ! data imgEdge) 4) palette0
   \<and> voted 3 palette0 (heapEdge ! data imgEdge) 1 1 edgeCleaned
   \<and> rgbAt edgeCleaned 4 = white
   \<and> rgbAt edgeCleaned 2 = rgbAt (heapEdge ! data imgEdge) 2"
proof -
  have wh: "width imgEdge = 3" "height imgEdge = 3" by (simp_all add: imgEdge_def)
  from cleanEdges_reassigns_interior_outliers[OF wfImage_heapEdge palette0_nonempty
      validPalette_palette0]
  obtain hp' out where run: "cleanEdges heapEdge imgEdge palette0 = Inr (hp', out)"
    and px: "\<And>x y. x < 3 \<Longrightarrow> y < 3 \<Longrightarrow>
          alphaAt (hp' ! data out) (y * 3 + x) = alphaAt (heapEdge ! data imgEdge) (y * 3 + x)
          \<and> (if interior 3 3 x y
                 \<and> farFromPalette (rgbAt (heapEdge ! data imgEdge) (y * 3 + x)) palette0
              then voted 3 palette0 (heapEdge ! data imgEdge) x y (hp' ! data out)
              else rgbAt (hp' ! data out) (y * 3 + x)
                     = rgbAt (heapEdge ! data imgEdge) (y * 3 + x))"
    unfolding wh by blast
  from run[unfolded cleanEdges_heapEdge] have out: "hp' ! data out = edgeCleaned"
    by (auto simp: heapEdge_def)
  have i11: "interior 3 3 1 1" and i20: "\<not> interior 3 3 2 0"
    by (simp_all add: interior_def)
  have far: "farFromPalette (rgbAt (heapEdge ! data imgEdge) 4) palette0"
    using grey_farFromPalette by (simp add: rgbAt_def imgEdge_def pixels_heapEdge)
  from px[of 1 1] i11 far have v: "voted 3 palette0 (heapEdge ! data imgEdge) 1 1 edgeCleaned"
    by (simp add: out)
  have "0 * 3 + 2 = (2::nat)" by simp
  with px[of 2 0] i20 have s: "rgbAt edgeCleaned 2 = rgbAt (heapEdge ! data imgEdge) 2"
    by (simp only: out) simp
  have w: "rgbAt edgeCleaned 4 = white"
    by (simp add: rgbAt_def pixelAt_def edgeCleaned_def white_def)
  show ?thesis
    by (intro conjI wfImage_heapEdge palette0_nonempty validPalette_palette0
        cleanEdges_heapEdge i11 far v s w)
qed

end
